(* ===== verification/Prelude.thy ===== *)
theory Prelude
  imports Main
begin

text \<open>
  Shared vocabulary of the development: the Python exceptions the modelled code and
  the libraries it calls can raise, results as the sum \<open>exc + 'a\<close> (\<open>Inl\<close> is a raised
  exception), the sequencing combinator \<open>bindE\<close> that stops at the first exception as
  Python does, the process environment as a partial map from names to strings, and the
  dynamically typed values that flow through \<^verbatim>\<open>os.getenv\<close> and \<^verbatim>\<open>int()\<close>.
  \<open>ModuleNotFoundError\<close> carries the name of the missing module (its \<^verbatim>\<open>name\<close>
  attribute), the other exceptions their message.
  Characters are code points \<open>U+0000 .. U+00FF\<close> (Isabelle's \<open>char\<close>); strings of
  the model never hold wider code points.
\<close>

named_theorems res_simps "evaluation rules of the exception-result combinators"

subsection \<open>Exceptions and results\<close>

datatype exc =
    ValueError string
  | OverflowError string
  | TypeError string
  | FileNotFoundError string
  | OSError string
  | AttributeError string
  | AssertionError string
  | SystemExit nat
  | ImportError string
  | ModuleNotFoundError string
  | NameError string
  | KeyError string

type_synonym 'a res = "exc + 'a"

definition bindE :: "'a res \<Rightarrow> ('a \<Rightarrow> 'b res) \<Rightarrow> 'b res" where
  "bindE m f = (case m of Inl e \<Rightarrow> Inl e | Inr a \<Rightarrow> f a)"

definition raises :: "'a res \<Rightarrow> bool" where
  "raises r \<longleftrightarrow> (case r of Inl _ \<Rightarrow> True | Inr _ \<Rightarrow> False)"

fun is_value_error :: "exc \<Rightarrow> bool" where
  "is_value_error (ValueError _) = True"
| "is_value_error _ = False"

lemma bindE_Inl [simp, res_simps]: "bindE (Inl e) f = Inl e"
  by (simp add: bindE_def)

lemma bindE_Inr [simp, res_simps]: "bindE (Inr a) f = f a"
  by (simp add: bindE_def)

lemma bindE_eq_Inr_iff [res_simps]:
  "bindE m f = Inr b \<longleftrightarrow> (\<exists>a. m = Inr a \<and> f a = Inr b)"
  by (cases m) auto

lemma bindE_eq_Inl_iff [res_simps]:
  "bindE m f = Inl e \<longleftrightarrow> m = Inl e \<or> (\<exists>a. m = Inr a \<and> f a = Inl e)"
  by (cases m) auto

lemma raises_simps [simp, res_simps]:
  "raises (Inl e) = True" "raises (Inr a) = False"
  by (simp_all add: raises_def)

lemma not_raises_iff: "\<not> raises r \<longleftrightarrow> (\<exists>a. r = Inr a)"
  by (cases r) auto

subsection \<open>Environment and dynamically typed values\<close>

text \<open>\<^verbatim>\<open>os.environ\<close>: a partial map from variable names to their string values.\<close>

type_synonym env = "string \<rightharpoonup> string"

text \<open>
  The Python values the code passes between library calls where their type is not fixed:
  \<^verbatim>\<open>os.getenv(k, d)\<close> returns a string or its default \<open>d\<close>, which is \<^verbatim>\<open>None\<close> or, for
  the port, the integer \<^verbatim>\<open>5000\<close>.
\<close>

datatype pyobj = PyNone | PyStr string | PyInt int

subsection \<open>Insertion-ordered dictionaries\<close>

text \<open>
  A Python \<^verbatim>\<open>dict\<close> keeps its keys in insertion order, and \<^verbatim>\<open>d[k] = v\<close> on a
  present key replaces the value in place. As an association list without repeated keys:
\<close>

primrec od_set :: "('k \<times> 'v) list \<Rightarrow> 'k \<Rightarrow> 'v \<Rightarrow> ('k \<times> 'v) list" where
  "od_set [] k v = [(k, v)]"
| "od_set (p # ps) k v = (if fst p = k then (k, v) # ps else p # od_set ps k v)"

lemma map_of_od_set [simp]: "map_of (od_set d k v) = (map_of d)(k \<mapsto> v)"
  by (induction d) (auto simp: fun_eq_iff)

lemma keys_od_set [simp]: "fst ` set (od_set d k v) = insert k (fst ` set d)"
  by (induction d) auto

lemma distinct_od_set [intro]: "distinct (map fst d) \<Longrightarrow> distinct (map fst (od_set d k v))"
proof (induction d)
  case Nil
  then show ?case by simp
next
  case (Cons p ps)
  then show ?case by (cases p) (auto simp: keys_od_set [unfolded image_set])
qed

subsection \<open>Lists\<close>

lemma dropWhile_Cons_shorter: "dropWhile P xs = y # ys \<Longrightarrow> length ys < length xs"
  by (induction xs) (auto split: if_splits)

subsection \<open>String joining\<close>

text \<open>\<^verbatim>\<open>sep.join(items)\<close>.\<close>

fun py_join :: "'a list \<Rightarrow> 'a list list \<Rightarrow> 'a list" where
  "py_join sep [] = []"
| "py_join sep [x] = x"
| "py_join sep (x # y # ys) = x @ sep @ py_join sep (y # ys)"

lemma set_py_join: "set (py_join sep xs) \<subseteq> set sep \<union> \<Union> (set ` set xs)"
  by (induction sep xs rule: py_join.induct) auto

end
