(* ===== verification/Imports.thy ===== *)
theory Imports
  imports Prelude
begin

text \<open>
  The import statements of \<^verbatim>\<open>app.py\<close> (lines 1--6), with the semantics of CPython's
  \<^verbatim>\<open>import\<close> and \<^verbatim>\<open>from ... import\<close> (\<^verbatim>\<open>importlib._bootstrap._handle_fromlist\<close> and the
  \<^verbatim>\<open>IMPORT_FROM\<close> instruction). The installed packages enter through a \<open>site\<close>: loading a
  module by its dotted name either raises or gives the names the module defines once it
  has executed. A name of \<^verbatim>\<open>from m import n\<close> that \<open>m\<close> does not define is looked up
  as the submodule \<open>m.n\<close>; a \<^verbatim>\<open>ModuleNotFoundError\<close> for exactly that submodule is
  swallowed, any other exception propagates, and a name that is still missing raises
  \<^verbatim>\<open>ImportError\<close>. The module namespace maps each bound name to the dotted name of the
  object it denotes.
\<close>

record site =
  load_module :: "string \<Rightarrow> string set res"

type_synonym namespace = "string \<rightharpoonup> string"

datatype import_stmt = Import string | ImportFrom string "string list"

definition dotted :: "string \<Rightarrow> string \<Rightarrow> string" where
  "dotted m n = m @ ''.'' @ n"

definition py_quote :: "string \<Rightarrow> string" where
  "py_quote n = CHR 0x27 # n @ [CHR 0x27]"

text \<open>\<^verbatim>\<open>_handle_fromlist\<close>: the names the package does not define are imported as
  submodules, which adds them to the package.\<close>

fun handle_fromlist :: "site \<Rightarrow> string \<Rightarrow> string set \<Rightarrow> string list \<Rightarrow> string set res" where
  "handle_fromlist st m attrs [] = Inr attrs"
| "handle_fromlist st m attrs (n # ns) =
     (if n \<in> attrs then handle_fromlist st m attrs ns
      else (case load_module st (dotted m n) of
              Inr _ \<Rightarrow> handle_fromlist st m (insert n attrs) ns
            | Inl (ModuleNotFoundError x) \<Rightarrow>
                if x = dotted m n then handle_fromlist st m attrs ns else Inl (ModuleNotFoundError x)
            | Inl ex \<Rightarrow> Inl ex))"

text \<open>\<^verbatim>\<open>IMPORT_FROM\<close>, once per name in order: bind it or raise.\<close>

fun import_from :: "string \<Rightarrow> string set \<Rightarrow> namespace \<Rightarrow> string list \<Rightarrow> namespace res" where
  "import_from m attrs g [] = Inr g"
| "import_from m attrs g (n # ns) =
     (if n \<in> attrs then import_from m attrs (g(n \<mapsto> dotted m n)) ns
      else Inl (ImportError (''cannot import name '' @ py_quote n @ '' from '' @ py_quote m)))"

text \<open>One statement. The modules imported here are top-level, so \<^verbatim>\<open>import m\<close> binds
  \<open>m\<close> itself.\<close>

fun exec_import :: "site \<Rightarrow> namespace \<Rightarrow> import_stmt \<Rightarrow> namespace res" where
  "exec_import st g (Import m) = bindE (load_module st m) (\<lambda>_. Inr (g(m \<mapsto> m)))"
| "exec_import st g (ImportFrom m ns) =
     bindE (load_module st m) (\<lambda>attrs.
     bindE (handle_fromlist st m attrs ns) (\<lambda>attrs'.
     import_from m attrs' g ns))"

fun exec_imports :: "site \<Rightarrow> namespace \<Rightarrow> import_stmt list \<Rightarrow> namespace res" where
  "exec_imports st g [] = Inr g"
| "exec_imports st g (s # ss) = bindE (exec_import st g s) (\<lambda>g'. exec_imports st g' ss)"

text \<open>Lines 1--6.\<close>

definition APP_IMPORTS :: "import_stmt list" where
  "APP_IMPORTS =
     [Import ''os'',
      ImportFrom ''flask'' [''Flask'', ''request'', ''jsonify''],
      ImportFrom ''flask_cors'' [''CORS''],
      Import ''firebase_admin'',
      ImportFrom ''firebase_admin'' [''credentials'', ''firestore'', ''auth''],
      ImportFrom ''dotenv'' [''load_dotenv'']]"

definition module_imports :: "site \<Rightarrow> namespace res" where
  "module_imports st = exec_imports st Map.empty APP_IMPORTS"

subsection \<open>When an import succeeds\<close>

text \<open>A name of a \<^verbatim>\<open>from\<close> import is importable when the module defines it or it is a
  submodule that loads; a statement succeeds when its module loads and all its names are
  importable.\<close>

definition importable :: "site \<Rightarrow> string \<Rightarrow> string set \<Rightarrow> string \<Rightarrow> bool" where
  "importable st m attrs n \<longleftrightarrow> n \<in> attrs \<or> (case load_module st (dotted m n) of Inr _ \<Rightarrow> True | Inl _ \<Rightarrow> False)"

fun stmt_ok :: "site \<Rightarrow> import_stmt \<Rightarrow> bool" where
  "stmt_ok st (Import m) = (case load_module st m of Inr _ \<Rightarrow> True | Inl _ \<Rightarrow> False)"
| "stmt_ok st (ImportFrom m ns) =
     (case load_module st m of Inr attrs \<Rightarrow> list_all (importable st m attrs) ns | Inl _ \<Rightarrow> False)"

fun stmt_names :: "import_stmt \<Rightarrow> (string \<times> string) list" where
  "stmt_names (Import m) = [(m, m)]"
| "stmt_names (ImportFrom m ns) = map (\<lambda>n. (n, dotted m n)) ns"

lemma importable_insert:
  "n' \<noteq> n \<Longrightarrow> importable st m (insert n attrs) n' = importable st m attrs n'"
  by (simp add: importable_def)

lemma handle_fromlist_Inr:
  "handle_fromlist st m attrs ns = Inr attrs' \<Longrightarrow>
   attrs' = attrs \<union> {n \<in> set ns. importable st m attrs n}"
proof (induction st m attrs ns arbitrary: attrs' rule: handle_fromlist.induct)
  case (1 st m attrs)
  then show ?case by simp
next
  case (2 st m attrs n ns)
  show ?case
  proof (cases "n \<in> attrs")
    case True
    with 2 show ?thesis by (auto simp: importable_def)
  next
    case False
    show ?thesis
    proof (cases "load_module st (dotted m n)")
      case (Inl ex)
      with 2 False show ?thesis
        by (cases ex) (auto simp: importable_def split: if_splits)
    next
      case (Inr a)
      with 2 False have "attrs' = insert n attrs \<union> {n' \<in> set ns. importable st m (insert n attrs) n'}"
        by auto
      with Inr show ?thesis by (auto simp: importable_def)
    qed
  qed
qed

lemma handle_fromlist_Inl:
  "handle_fromlist st m attrs ns = Inl ex \<Longrightarrow> \<not> list_all (importable st m attrs) ns"
proof (induction st m attrs ns rule: handle_fromlist.induct)
  case (1 st m attrs)
  then show ?case by simp
next
  case (2 st m attrs n ns)
  show ?case
  proof (cases "n \<in> attrs \<or> (\<exists>a. load_module st (dotted m n) = Inr a)")
    case True
    with 2 show ?thesis
      by (auto simp: importable_def list_all_iff split: if_splits)
  next
    case False
    then show ?thesis by (auto simp: importable_def split: sum.splits)
  qed
qed

lemma upd_map_add: "g(k \<mapsto> v) ++ h = g ++ ([k \<mapsto> v] ++ h)"
  by (simp add: map_add_def fun_eq_iff split: option.splits)

lemma import_from_Inr:
  "import_from m attrs g ns = Inr g' \<longleftrightarrow>
   set ns \<subseteq> attrs \<and> g' = g ++ map_of (rev (map (\<lambda>n. (n, dotted m n)) ns))"
proof (induction m attrs g ns rule: import_from.induct)
  case (1 m attrs g)
  then show ?case by auto
next
  case (2 m attrs g n ns)
  let ?M = "map_of (rev (map (\<lambda>n. (n, dotted m n)) ns))"
  show ?case
  proof (cases "n \<in> attrs")
    case True
    have e: "map_of (rev (map (\<lambda>n. (n, dotted m n)) (n # ns))) = [n \<mapsto> dotted m n] ++ ?M"
      by (simp add: map_of_append)
    have "g(n \<mapsto> dotted m n) ++ ?M = g ++ map_of (rev (map (\<lambda>n. (n, dotted m n)) (n # ns)))"
      unfolding e by (rule upd_map_add)
    with True 2 show ?thesis by (simp add: fun_upd_def)
  next
    case False
    then show ?thesis by simp
  qed
qed

lemma exec_import_Inr:
  "exec_import st g s = Inr g' \<longleftrightarrow> stmt_ok st s \<and> g' = g ++ map_of (rev (stmt_names s))"
proof (cases s)
  case (Import m)
  then show ?thesis by (auto simp: bindE_eq_Inr_iff split: sum.splits)
next
  case (ImportFrom m ns)
  show ?thesis
  proof (cases "load_module st m")
    case (Inl ex)
    with ImportFrom show ?thesis by simp
  next
    case (Inr attrs)
    note ld = this
    show ?thesis
    proof (cases "handle_fromlist st m attrs ns")
      case (Inl ex)
      with ImportFrom ld show ?thesis by (auto dest: handle_fromlist_Inl)
    next
      case (Inr attrs')
      then have "attrs' = attrs \<union> {n \<in> set ns. importable st m attrs n}"
        by (rule handle_fromlist_Inr)
      then have "set ns \<subseteq> attrs' \<longleftrightarrow> list_all (importable st m attrs) ns"
        by (auto simp: list_all_iff importable_def)
      with ImportFrom ld Inr show ?thesis by (simp add: import_from_Inr)
    qed
  qed
qed

lemma exec_imports_Inr:
  "exec_imports st g ss = Inr g' \<longleftrightarrow>
   list_all (stmt_ok st) ss \<and> g' = g ++ map_of (rev (concat (map stmt_names ss)))"
  by (induction ss arbitrary: g)
     (auto simp: bindE_eq_Inr_iff exec_import_Inr)

lemma map_of_rev_distinct: "distinct (map fst xs) \<Longrightarrow> map_of (rev xs) = map_of xs"
  by (induction xs) (auto simp: map_of_append fun_eq_iff map_add_def image_iff split: option.splits)

text \<open>C22. Lines 1--6 succeed exactly when every module they name loads and every name
  of a \<^verbatim>\<open>from\<close> import is defined by its module or is a submodule that loads; the
  module namespace then holds exactly the ten imported names, each bound to its object.\<close>

theorem module_imports_iff:
  "module_imports st = Inr g \<longleftrightarrow>
   list_all (stmt_ok st) APP_IMPORTS \<and>
   g = map_of [(''os'', ''os''), (''Flask'', ''flask.Flask''), (''request'', ''flask.request''),
               (''jsonify'', ''flask.jsonify''), (''CORS'', ''flask_cors.CORS''),
               (''firebase_admin'', ''firebase_admin''),
               (''credentials'', ''firebase_admin.credentials''),
               (''firestore'', ''firebase_admin.firestore''), (''auth'', ''firebase_admin.auth''),
               (''load_dotenv'', ''dotenv.load_dotenv'')]"
proof -
  have c: "concat (map stmt_names APP_IMPORTS) =
          [(''os'', ''os''), (''Flask'', ''flask.Flask''), (''request'', ''flask.request''),
           (''jsonify'', ''flask.jsonify''), (''CORS'', ''flask_cors.CORS''),
           (''firebase_admin'', ''firebase_admin''),
           (''credentials'', ''firebase_admin.credentials''),
           (''firestore'', ''firebase_admin.firestore''), (''auth'', ''firebase_admin.auth''),
           (''load_dotenv'', ''dotenv.load_dotenv'')]"
    by (simp add: APP_IMPORTS_def dotted_def)
  have r: "map_of (rev (concat (map stmt_names APP_IMPORTS))) = map_of (concat (map stmt_names APP_IMPORTS))"
    by (rule map_of_rev_distinct) (simp add: APP_IMPORTS_def)
  show ?thesis
    unfolding module_imports_def exec_imports_Inr empty_map_add r unfolding c by (rule refl)
qed

end
