(* ===== verification/PyInt.thy ===== *)
theory PyInt
  imports Prelude
begin

text \<open>
  CPython's conversions between \<^verbatim>\<open>str\<close> and \<^verbatim>\<open>int\<close> in base 10, as used by
  \<^verbatim>\<open>int(os.getenv("PORT", 5000))\<close> (\<^verbatim>\<open>app.py\<close> line 20): \<^verbatim>\<open>int(str)\<close> is
  \<^verbatim>\<open>PyLong_FromUnicodeObject\<close> (whitespace and decimal digits folded to ASCII, then
  \<^verbatim>\<open>PyLong_FromString\<close>), \<^verbatim>\<open>str(int)\<close> is the decimal representation. Both refuse
  numbers of more than 4300 digits (\<^verbatim>\<open>sys.int_max_str_digits\<close>, Python 3.11 and later).
\<close>

subsection \<open>Characters\<close>

text \<open>
  Whitespace accepted around the number: the ASCII \<^verbatim>\<open>Py_ISSPACE\<close> set
  (\<^verbatim>\<open>\t \n \v \f \r\<close> and space) and the code points above 126 that
  \<^verbatim>\<open>Py_UNICODE_ISSPACE\<close> folds to a space (\<^verbatim>\<open>U+0085\<close>, \<^verbatim>\<open>U+00A0\<close>). The
  separators \<^verbatim>\<open>U+001C..U+001F\<close> are below 127, are kept as they are and are not
  \<^verbatim>\<open>Py_ISSPACE\<close>, so they are refused.
\<close>

definition py_space :: "char \<Rightarrow> bool" where
  "py_space c \<longleftrightarrow> of_char c \<in> {9, 10, 11, 12, 13, 32, 133, 160 :: nat}"

definition is_digit :: "char \<Rightarrow> bool" where
  "is_digit c \<longleftrightarrow> 48 \<le> (of_char c :: nat) \<and> (of_char c :: nat) \<le> 57"

definition digit_value :: "char \<Rightarrow> nat" where
  "digit_value c = of_char c - 48"

definition digit_char :: "nat \<Rightarrow> char" where
  "digit_char d = char_of (d + 48)"

definition max_str_digits :: nat where
  "max_str_digits = 4300"

definition invalid_literal :: exc where
  "invalid_literal = ValueError ''invalid literal for int() with base 10''"

definition digits_limit :: exc where
  "digits_limit = ValueError ''Exceeds the limit (4300 digits) for integer string conversion''"

subsection \<open>int(str)\<close>

text \<open>
  The run of digits and underscores after the sign must start with a digit, end with a
  digit and hold no two underscores in a row (PEP 515). \<open>us_tail\<close> checks what follows
  the first digit.
\<close>

fun us_tail :: "char list \<Rightarrow> bool" where
  "us_tail [] = True"
| "us_tail [c] = is_digit c"
| "us_tail (c # d # cs) =
     (if c = CHR ''_'' then is_digit d \<and> us_tail cs else is_digit c \<and> us_tail (d # cs))"

definition underscores_ok :: "char list \<Rightarrow> bool" where
  "underscores_ok num \<longleftrightarrow> (case num of [] \<Rightarrow> False | c # cs \<Rightarrow> is_digit c \<and> us_tail cs)"

definition digits_value :: "char list \<Rightarrow> nat" where
  "digits_value ds = foldl (\<lambda>n c. 10 * n + digit_value c) 0 ds"

definition split_sign :: "char list \<Rightarrow> int \<times> char list" where
  "split_sign s =
     (case s of
        [] \<Rightarrow> (1, [])
      | c # r \<Rightarrow> if c = CHR ''+'' then (1, r) else if c = CHR ''-'' then (-1, r) else (1, s))"

definition num_char :: "char \<Rightarrow> bool" where
  "num_char c \<longleftrightarrow> is_digit c \<or> c = CHR ''_''"

text \<open>
  \<^verbatim>\<open>PyLong_FromString\<close> for base 10: skip whitespace, read the sign, scan the digits and
  underscores, check the underscores, then the digit limit, then that only whitespace
  follows.
\<close>

definition py_int_of_str :: "string \<Rightarrow> int res" where
  "py_int_of_str s =
     (let (sg, s2) = split_sign (dropWhile py_space s);
          num = takeWhile num_char s2;
          rest = dropWhile num_char s2;
          ds = filter is_digit num
      in if \<not> underscores_ok num then Inl invalid_literal
         else if max_str_digits < length ds then Inl digits_limit
         else if \<not> (\<forall>c \<in> set rest. py_space c) then Inl invalid_literal
         else Inr (sg * int (digits_value ds)))"

subsection \<open>str(int)\<close>

fun nat_digits :: "nat \<Rightarrow> char list" where
  "nat_digits n = (if n < 10 then [digit_char n] else nat_digits (n div 10) @ [digit_char (n mod 10)])"

declare nat_digits.simps [simp del]

definition py_str_of_int :: "int \<Rightarrow> string res" where
  "py_str_of_int i =
     (let ds = nat_digits (nat \<bar>i\<bar>)
      in if max_str_digits < length ds then Inl digits_limit
         else Inr (if i < 0 then CHR ''-'' # ds else ds))"

subsection \<open>int() on the values os.getenv returns\<close>

text \<open>\<^verbatim>\<open>int(x)\<close>: an \<^verbatim>\<open>int\<close> is returned unchanged, a \<^verbatim>\<open>str\<close> is parsed, \<^verbatim>\<open>None\<close>
  raises \<^verbatim>\<open>TypeError\<close>.\<close>

fun py_int :: "pyobj \<Rightarrow> int res" where
  "py_int (PyInt n) = Inr n"
| "py_int (PyStr s) = py_int_of_str s"
| "py_int PyNone =
     Inl (TypeError ''int() argument must be a string, a bytes-like object or a real number, not NoneType'')"


subsection \<open>Digits\<close>

lemma digit_char_props [simp]:
  assumes "d < 10"
  shows "is_digit (digit_char d)" and "digit_value (digit_char d) = d"
    and "\<not> py_space (digit_char d)" and "digit_char d \<noteq> CHR ''_''"
    and "digit_char d \<noteq> CHR ''+''" and "digit_char d \<noteq> CHR ''-''"
proof -
  have oc: "of_char (digit_char d) = d + (48::nat)"
    using assms by (simp add: digit_char_def)
  show "is_digit (digit_char d)" using assms by (simp add: is_digit_def oc)
  show "digit_value (digit_char d) = d" by (simp add: digit_value_def oc)
  show "\<not> py_space (digit_char d)" using assms by (auto simp: py_space_def oc)
  show "digit_char d \<noteq> CHR ''_''" "digit_char d \<noteq> CHR ''+''" "digit_char d \<noteq> CHR ''-''"
    using assms oc by (auto dest!: arg_cong [where f = "of_char :: char \<Rightarrow> nat"])
qed

lemma is_digit_not_special [simp]:
  "is_digit c \<Longrightarrow> c \<noteq> CHR ''_'' \<and> c \<noteq> CHR ''+'' \<and> c \<noteq> CHR ''-'' \<and> \<not> py_space c"
  by (auto simp: is_digit_def py_space_def)

lemma py_space_sign [simp]: "\<not> py_space CHR ''-''" "\<not> py_space CHR ''+''"
  by (simp_all add: py_space_def)

lemma nat_digits_digits: "\<forall>c \<in> set (nat_digits n). is_digit c"
  by (induction n rule: nat_digits.induct) (subst nat_digits.simps, simp)

lemma nat_digits_ne: "nat_digits n = c # cs \<Longrightarrow> is_digit c"
  using nat_digits_digits [of n] by auto

lemma nat_digits_not_Nil [simp]: "nat_digits n \<noteq> []"
  by (subst nat_digits.simps) simp

lemma digits_value_snoc [simp]:
  "digits_value (xs @ [c]) = 10 * digits_value xs + digit_value c"
  by (simp add: digits_value_def)

lemma digits_value_nat_digits [simp]: "digits_value (nat_digits n) = n"
proof (induction n rule: nat_digits.induct)
  case (1 n)
  show ?case
  proof (cases "n < 10")
    case True
    then show ?thesis by (subst nat_digits.simps) (simp add: digits_value_def)
  next
    case False
    with "1.IH" show ?thesis by (subst nat_digits.simps) simp
  qed
qed

lemma length_nat_digits:
  "n < 10 ^ k \<Longrightarrow> 0 < k \<Longrightarrow> length (nat_digits n) \<le> k"
proof (induction n arbitrary: k rule: nat_digits.induct)
  case (1 n)
  show ?case
  proof (cases "n < 10")
    case True
    with "1.prems" show ?thesis by (subst nat_digits.simps) simp
  next
    case False
    obtain j where k: "k = Suc j" using "1.prems"(2) by (cases k) auto
    have "0 < j"
    proof (rule ccontr)
      assume "\<not> 0 < j"
      with k "1.prems"(1) have "n < 10" by simp
      with False show False by simp
    qed
    moreover have "n div 10 < 10 ^ j"
      using "1.prems"(1) k by (simp add: less_mult_imp_div_less mult.commute)
    ultimately have "0 < k - 1" and "n div 10 < 10 ^ (k - 1)" using k by simp_all
    with False "1.IH" have "length (nat_digits (n div 10)) \<le> k - 1" by blast
    with False k show ?thesis by (subst nat_digits.simps) simp
  qed
qed

lemma us_tail_digits: "\<forall>c \<in> set xs. is_digit c \<Longrightarrow> us_tail xs"
  by (induction xs rule: us_tail.induct) auto

lemma num_char_digits:
  assumes "\<forall>c \<in> set xs. is_digit c"
  shows "takeWhile num_char xs = xs" and "dropWhile num_char xs = []"
    and "filter is_digit xs = xs"
  using assms by (simp_all add: num_char_def)

lemma py_int_of_str_digits:
  assumes "\<forall>c \<in> set ds. is_digit c" and "ds \<noteq> []" and "length ds \<le> max_str_digits"
  shows "py_int_of_str ds = Inr (int (digits_value ds))"
    and "py_int_of_str (CHR ''-'' # ds) = Inr (- int (digits_value ds))"
proof -
  obtain c cs where ds: "ds = c # cs" using assms(2) by (cases ds) auto
  with assms(1) have c: "is_digit c" and cs: "\<forall>c \<in> set cs. is_digit c" by auto
  have sp: "dropWhile py_space ds = ds" and sm: "dropWhile py_space (CHR ''-'' # ds) = CHR ''-'' # ds"
    using c ds is_digit_not_special [OF c] by auto
  have ss: "split_sign ds = (1, ds)" and ssm: "split_sign (CHR ''-'' # ds) = (-1, ds)"
    using c ds by (auto simp: split_sign_def)
  have uo: "underscores_ok ds" using c cs ds us_tail_digits by (simp add: underscores_ok_def)
  show "py_int_of_str ds = Inr (int (digits_value ds))"
    using assms uo by (simp add: py_int_of_str_def sp ss num_char_digits)
  show "py_int_of_str (CHR ''-'' # ds) = Inr (- int (digits_value ds))"
    using assms uo by (simp add: py_int_of_str_def sm ssm num_char_digits)
qed

subsection \<open>Properties of the conversions\<close>

lemma py_str_of_int_Inr:
  assumes "py_str_of_int i = Inr s"
  shows "s = (if i < 0 then CHR ''-'' # nat_digits (nat \<bar>i\<bar>) else nat_digits (nat \<bar>i\<bar>))"
    and "length (nat_digits (nat \<bar>i\<bar>)) \<le> max_str_digits"
  using assms by (auto simp: py_str_of_int_def Let_def split: if_splits)

text \<open>What \<^verbatim>\<open>str(i)\<close> writes: digits after an optional minus sign.\<close>

lemma py_str_of_int_chars:
  assumes "py_str_of_int i = Inr s"
  shows "s \<noteq> []" and "\<forall>c \<in> set s. is_digit c \<or> c = CHR ''-''"
  using py_str_of_int_Inr(1) [OF assms] nat_digits_digits [of "nat \<bar>i\<bar>"] by auto

lemma py_int_of_str_of_int:
  assumes "py_str_of_int i = Inr s"
  shows "py_int_of_str s = Inr i"
proof -
  let ?ds = "nat_digits (nat \<bar>i\<bar>)"
  note s = py_str_of_int_Inr(1) [OF assms] and len = py_str_of_int_Inr(2) [OF assms]
  have d: "\<forall>c \<in> set ?ds. is_digit c" by (rule nat_digits_digits)
  note conv = py_int_of_str_digits [OF d nat_digits_not_Nil len]
  show ?thesis
  proof (cases "i < 0")
    case True
    with conv(2) s show ?thesis by simp
  next
    case False
    with conv(1) s show ?thesis by simp
  qed
qed

text \<open>\<^verbatim>\<open>str(i)\<close> succeeds on every integer of at most 4300 decimal digits,
  that is below \<open>10^4300\<close> in absolute value.\<close>

theorem py_str_of_int_within_limit:
  assumes "\<bar>i\<bar> < 10 ^ max_str_digits"
  shows "\<exists>s. py_str_of_int i = Inr s"
proof -
  have "nat \<bar>i\<bar> < 10 ^ max_str_digits"
    using assms by (simp add: nat_less_iff)
  then have "length (nat_digits (nat \<bar>i\<bar>)) \<le> max_str_digits"
    by (rule length_nat_digits) (simp add: max_str_digits_def)
  then show ?thesis by (simp add: py_str_of_int_def Let_def)
qed

subsection \<open>Instances\<close>

lemma py_str_of_int_within_limit_instance:
  "\<bar>12345::int\<bar> < 10 ^ max_str_digits \<and> (\<exists>s. py_str_of_int 12345 = Inr s)"
proof -
  have "(10::int) ^ 5 \<le> 10 ^ max_str_digits"
    by (rule power_increasing) (simp_all add: max_str_digits_def)
  then have h: "\<bar>12345::int\<bar> < 10 ^ max_str_digits" by simp
  with py_str_of_int_within_limit [OF h] show ?thesis by simp
qed

text \<open>\<^verbatim>\<open>int(str)\<close> fails only with \<^verbatim>\<open>ValueError\<close>.\<close>

theorem py_int_of_str_error:
  "py_int_of_str s = Inl e \<Longrightarrow> is_value_error e"
  by (auto simp: py_int_of_str_def Let_def invalid_literal_def digits_limit_def
      split: prod.splits if_splits)

end
