(* ===== verification/Json.thy ===== *)
theory Json
  imports PyInt "HOL-Library.Char_ord" "HOL-Library.List_Lexorder"
begin

text \<open>
  JSON values and Python's \<^verbatim>\<open>json.dumps\<close> as Flask's \<^verbatim>\<open>DefaultJSONProvider\<close> calls it
  (\<^verbatim>\<open>ensure_ascii=True\<close>, \<^verbatim>\<open>sort_keys=True\<close>, and either
  \<^verbatim>\<open>separators=(",", ":")\<close> or \<^verbatim>\<open>indent=2\<close>), with the Python-side reading of
  decoded documents: truthiness and \<^verbatim>\<open>dict.get\<close>. Numbers are integers; JSON
  fractions and exponents are not modelled.
\<close>

datatype json =
    JNull
  | JBool bool
  | JInt int
  | JStr string
  | JArr "json list"
  | JObj "(string \<times> json) list"

subsection \<open>Reading decoded documents\<close>

text \<open>\<^verbatim>\<open>json.loads\<close> builds a \<^verbatim>\<open>dict\<close> from an object, so of repeated keys the last
  one wins; \<^verbatim>\<open>d.get(k)\<close> is \<^verbatim>\<open>None\<close> for a missing key.\<close>

definition obj_get :: "(string \<times> json) list \<Rightarrow> string \<Rightarrow> json option" where
  "obj_get kvs k = map_of (rev kvs) k"

text \<open>Python truthiness of a decoded value (\<^verbatim>\<open>if not x\<close>).\<close>

fun py_truthy :: "json \<Rightarrow> bool" where
  "py_truthy JNull = False"
| "py_truthy (JBool b) = b"
| "py_truthy (JInt n) = (n \<noteq> 0)"
| "py_truthy (JStr s) = (s \<noteq> [])"
| "py_truthy (JArr xs) = (xs \<noteq> [])"
| "py_truthy (JObj kvs) = (kvs \<noteq> [])"

subsection \<open>Encoding strings (py_encode_basestring_ascii)\<close>

definition hex_digit :: "nat \<Rightarrow> char" where
  "hex_digit d = (if d < 10 then char_of (48 + d) else char_of (87 + d))"

text \<open>\<^verbatim>\<open>\uXXXX\<close> with four lowercase hexadecimal digits.\<close>

definition u_escape :: "nat \<Rightarrow> string" where
  "u_escape n = [CHR 0x5C, CHR ''u'', hex_digit (n div 4096 mod 16), hex_digit (n div 256 mod 16),
                 hex_digit (n div 16 mod 16), hex_digit (n mod 16)]"

text \<open>\<^verbatim>\<open>ESCAPE_DCT\<close>: quote, backslash and the five short escapes; every other character
  outside \<^verbatim>\<open>' '..'~'\<close> is written as \<^verbatim>\<open>\uXXXX\<close>.\<close>

definition escape_char :: "char \<Rightarrow> string" where
  "escape_char c =
     (if c = CHR 0x22 then [CHR 0x5C, CHR 0x22]
      else if c = CHR 0x5C then [CHR 0x5C, CHR 0x5C]
      else if c = CHR 0x0A then [CHR 0x5C, CHR ''n'']
      else if c = CHR 0x0D then [CHR 0x5C, CHR ''r'']
      else if c = CHR 0x09 then [CHR 0x5C, CHR ''t'']
      else if c = CHR 0x08 then [CHR 0x5C, CHR ''b'']
      else if c = CHR 0x0C then [CHR 0x5C, CHR ''f'']
      else if 32 \<le> (of_char c :: nat) \<and> (of_char c :: nat) \<le> 126 then [c]
      else u_escape (of_char c))"

definition encode_str :: "string \<Rightarrow> string" where
  "encode_str s = CHR 0x22 # concat (map escape_char s) @ [CHR 0x22]"

subsection \<open>json.dumps\<close>

text \<open>
  The layout: \<open>None\<close> for \<^verbatim>\<open>separators=(",", ":")\<close> (one line, no spaces),
  \<open>Some w\<close> for \<^verbatim>\<open>indent=w\<close> (items on lines of their own, indented \<open>w\<close> spaces per
  level, key separator \<^verbatim>\<open>": "\<close>). Empty arrays and objects are \<^verbatim>\<open>[]\<close> and \<^verbatim>\<open>{}\<close> in both.
\<close>

type_synonym layout = "nat option"

definition key_sep :: "layout \<Rightarrow> string" where
  "key_sep lay = (case lay of None \<Rightarrow> '':'' | Some _ \<Rightarrow> '': '')"

definition newline_indent :: "layout \<Rightarrow> nat \<Rightarrow> string" where
  "newline_indent lay lvl = (case lay of None \<Rightarrow> [] | Some w \<Rightarrow> CHR 0x0A # replicate (w * lvl) CHR '' '')"

definition join_items :: "layout \<Rightarrow> nat \<Rightarrow> char \<Rightarrow> char \<Rightarrow> string list \<Rightarrow> string" where
  "join_items lay lvl opn cls items =
     (if items = [] then [opn, cls]
      else opn # newline_indent lay (Suc lvl)
             @ py_join (CHR '','' # newline_indent lay (Suc lvl)) items
             @ newline_indent lay lvl @ [cls])"

fun sequence_res :: "'a res list \<Rightarrow> 'a list res" where
  "sequence_res [] = Inr []"
| "sequence_res (r # rs) = bindE r (\<lambda>x. bindE (sequence_res rs) (\<lambda>xs. Inr (x # xs)))"

text \<open>\<^verbatim>\<open>sort_keys=True\<close>: items ordered by key, Python's code point order on strings
  (a stable sort, as \<^verbatim>\<open>sorted(dct.items())\<close> compares keys first).\<close>

fun dumps_at :: "layout \<Rightarrow> nat \<Rightarrow> json \<Rightarrow> string res" where
  "dumps_at lay lvl JNull = Inr ''null''"
| "dumps_at lay lvl (JBool b) = Inr (if b then ''true'' else ''false'')"
| "dumps_at lay lvl (JInt n) = py_str_of_int n"
| "dumps_at lay lvl (JStr s) = Inr (encode_str s)"
| "dumps_at lay lvl (JArr xs) =
     bindE (sequence_res (map (dumps_at lay (Suc lvl)) xs))
       (\<lambda>items. Inr (join_items lay lvl CHR ''['' CHR '']'' items))"
| "dumps_at lay lvl (JObj kvs) =
     bindE (sequence_res (map (\<lambda>(k, v). bindE (dumps_at lay (Suc lvl) v)
                                         (\<lambda>sv. Inr (encode_str k @ key_sep lay @ sv)))
                              (sort_key fst kvs)))
       (\<lambda>items. Inr (join_items lay lvl CHR ''{'' CHR ''}'' items))"

definition dumps :: "layout \<Rightarrow> json \<Rightarrow> string res" where
  "dumps lay v = dumps_at lay 0 v"

end
