(* ===== verification/Flask.thy ===== *)
theory Flask
  imports Json
begin

text \<open>
  The parts of Flask and Werkzeug that \<^verbatim>\<open>app.py\<close> uses: the application object
  (\<^verbatim>\<open>Flask(__name__)\<close>), route registration (\<^verbatim>\<open>@app.route\<close>, i.e.
  \<^verbatim>\<open>add_url_rule\<close>), URL matching (\<^verbatim>\<open>MapAdapter.match\<close>), request dispatch
  (\<^verbatim>\<open>full_dispatch_request\<close>: routing errors, automatic \<^verbatim>\<open>OPTIONS\<close>, the view,
  then the \<^verbatim>\<open>after_request\<close> hooks), \<^verbatim>\<open>jsonify\<close>, and the WSGI response, which
  drops the body of a \<^verbatim>\<open>HEAD\<close> response. Views and hooks are HOL functions: the
  application stores them as Flask stores Python callables. A rule's path is a fixed
  string or a fixed prefix followed by a \<^verbatim>\<open><path:...>\<close> converter, the two kinds of
  rule this application has; Werkzeug's slash merging (a \<^verbatim>\<open>308\<close> redirect) is
  modelled, its strict-slash redirect is not needed (no rule of the application ends with
  a slash after a part a request could leave out).
\<close>

subsection \<open>Case conversion of ASCII and Latin-1 letters\<close>

text \<open>\<^verbatim>\<open>str.upper\<close>/\<^verbatim>\<open>str.lower\<close> on the model's characters: ASCII letters and the
  Latin-1 letters \<^verbatim>\<open>U+00C0..U+00DE\<close>/\<^verbatim>\<open>U+00E0..U+00FE\<close> (without the signs
  \<^verbatim>\<open>U+00D7\<close>, \<^verbatim>\<open>U+00F7\<close>); the upper case of \<^verbatim>\<open>U+00DF\<close> is \<^verbatim>\<open>SS\<close>. The upper cases of
  \<^verbatim>\<open>U+00B5\<close> and \<^verbatim>\<open>U+00FF\<close> lie outside the model's characters; they are left
  unchanged.\<close>

definition upper_char :: "char \<Rightarrow> string" where
  "upper_char c =
     (let n = (of_char c :: nat) in
      if 97 \<le> n \<and> n \<le> 122 then [char_of (n - 32)]
      else if n = 223 then ''SS''
      else if 224 \<le> n \<and> n \<le> 254 \<and> n \<noteq> 247 then [char_of (n - 32)]
      else [c])"

definition lower_char :: "char \<Rightarrow> char" where
  "lower_char c =
     (let n = (of_char c :: nat) in
      if (65 \<le> n \<and> n \<le> 90) \<or> (192 \<le> n \<and> n \<le> 222 \<and> n \<noteq> 215) then char_of (n + 32) else c)"

definition py_upper :: "string \<Rightarrow> string" where
  "py_upper s = concat (map upper_char s)"

definition py_lower :: "string \<Rightarrow> string" where
  "py_lower s = map lower_char s"

subsection \<open>Requests and responses\<close>

text \<open>A request as the WSGI environment gives it, and \<open>arrival\<close>, what
  \<^verbatim>\<open>time.time()\<close> returns while it is handled, in whole seconds (only the debugger's
  PIN cookie reads the clock). Its \<open>path\<close> is the path Werkzeug routes on and
  \<^verbatim>\<open>request.path\<close> reports: \<^verbatim>\<open>PATH_INFO\<close> with its leading slashes replaced by
  one (\<^verbatim>\<open>"/" + path_info.lstrip("/")\<close>).\<close>

record request =
  req_method :: string
  path :: string
  req_headers :: "(string \<times> string) list"
  query :: string
  data :: string
  arrival :: int

text \<open>\<^verbatim>\<open>Headers.get\<close> matches header names without regard to case. The
  development server's \<^verbatim>\<open>make_environ\<close> stores a header sent more than once as one
  \<^verbatim>\<open>HTTP_*\<close> entry, its values joined by commas in the order sent, and the request's
  headers are read from that environment.\<close>

definition header_get :: "(string \<times> string) list \<Rightarrow> string \<Rightarrow> string option" where
  "header_get hs k =
     (case filter (\<lambda>(n, _). py_lower n = py_lower k) hs of
        [] \<Rightarrow> None
      | vs \<Rightarrow> Some (py_join '','' (map snd vs)))"

text \<open>A body is text or an HTML error page; the other three are the bodies of Werkzeug's
  debugger (theory \<open>Debugger\<close>), named by what they carry: a file of the debugger's
  static resources, the console page with the secret it embeds and whether it lets the
  client evaluate, and the output of a command evaluated in a console frame.\<close>

datatype body = Text string | ErrorPage nat | Resource string | ConsolePage string bool
  | CommandOutput string int

record response =
  status :: nat
  mimetype :: string
  body :: body
  allow :: "string set"
  headers :: "(string \<times> string) list"

definition empty_response :: response where
  "empty_response = \<lparr>status = 200, mimetype = ''text/html'', body = Text [], allow = {}, headers = []\<rparr>"

text \<open>\<^verbatim>\<open>HTTPException.get_response\<close>: the status, the HTML error page, and for 405 the
  \<^verbatim>\<open>Allow\<close> header with the methods the path accepts.\<close>

definition http_error :: "nat \<Rightarrow> string set \<Rightarrow> response" where
  "http_error code ms = \<lparr>status = code, mimetype = ''text/html'', body = ErrorPage code, allow = ms, headers = []\<rparr>"

subsection \<open>The application object\<close>

record app_ctx =
  ctx_debug :: bool

type_synonym view = "app_ctx \<Rightarrow> response res"
type_synonym hook = "request \<Rightarrow> response \<Rightarrow> response"

text \<open>A rule's path: a fixed string, or a fixed prefix and a \<^verbatim>\<open>path\<close> converter,
  whose regular expression \<^verbatim>\<open>[^/].*?\<close> takes the non-empty rest of the path when it
  does not start with a slash.\<close>

datatype route = Exact string | PathConv string

record rule =
  rule_path :: route
  endpoint :: string
  methods :: "string set"
  provide_automatic_options :: bool

record flask_app =
  import_name :: string
  debug :: bool
  url_map :: "rule list"
  view_functions :: "string \<rightharpoonup> view"
  after_request_funcs :: "hook list"

text \<open>\<^verbatim>\<open>get_debug_flag()\<close>: \<^verbatim>\<open>FLASK_DEBUG\<close> set to anything but an empty string,
  \<^verbatim>\<open>0\<close>, \<^verbatim>\<open>false\<close> or \<^verbatim>\<open>no\<close> (in any case).\<close>

definition get_debug_flag :: "env \<Rightarrow> bool" where
  "get_debug_flag e =
     (case e ''FLASK_DEBUG'' of
        None \<Rightarrow> False
      | Some v \<Rightarrow> v \<noteq> [] \<and> py_lower v \<notin> {''0'', ''false'', ''no''})"

text \<open>\<^verbatim>\<open>send_static_file(filename)\<close>, the view of the static route:
  \<^verbatim>\<open>send_from_directory(static_folder, filename)\<close> raises \<^verbatim>\<open>NotFound\<close> unless the
  file exists in the \<^verbatim>\<open>static\<close> folder beside the module. This repository has no such
  folder (\<^verbatim>\<open>src/backend\<close> holds only \<^verbatim>\<open>app.py\<close>), so every file is not found.\<close>

definition send_static_file :: view where
  "send_static_file ctx = Inr (http_error 404 {})"

text \<open>\<^verbatim>\<open>Flask(import_name)\<close>: \<^verbatim>\<open>static_folder\<close> defaults to \<^verbatim>\<open>"static"\<close>, so
  the constructor registers \<^verbatim>\<open>/static/<path:filename>\<close> (endpoint \<^verbatim>\<open>static\<close>,
  methods \<^verbatim>\<open>GET\<close>, \<^verbatim>\<open>HEAD\<close> and automatic \<^verbatim>\<open>OPTIONS\<close>) whether or not the folder
  exists; no other view, no hooks; \<^verbatim>\<open>DEBUG\<close> taken from the environment.\<close>

definition static_rule :: rule where
  "static_rule = \<lparr>rule_path = PathConv ''/static/'', endpoint = ''static'',
                  methods = {''GET'', ''HEAD'', ''OPTIONS''}, provide_automatic_options = True\<rparr>"

definition flask_new :: "env \<Rightarrow> string \<Rightarrow> flask_app" where
  "flask_new e name =
     \<lparr>import_name = name, debug = get_debug_flag e, url_map = [static_rule],
      view_functions = [''static'' \<mapsto> send_static_file], after_request_funcs = []\<rparr>"

text \<open>
  \<^verbatim>\<open>Flask.add_url_rule(rule, endpoint, view_func)\<close> with no \<^verbatim>\<open>methods\<close>: the methods
  default to \<^verbatim>\<open>GET\<close>; \<^verbatim>\<open>OPTIONS\<close> is added with automatic handling because it is
  not among them; Werkzeug's \<^verbatim>\<open>Rule\<close> adds \<^verbatim>\<open>HEAD\<close> to a rule with \<^verbatim>\<open>GET\<close>.
  Registering a second view under an existing endpoint raises \<^verbatim>\<open>AssertionError\<close>.
\<close>

definition rule_methods :: "string set \<Rightarrow> string set \<times> bool" where
  "rule_methods ms =
     (let (ms1, auto) = (if ''OPTIONS'' \<in> ms then (ms, False) else (insert ''OPTIONS'' ms, True))
      in (if ''GET'' \<in> ms1 then insert ''HEAD'' ms1 else ms1, auto))"

definition add_url_rule :: "flask_app \<Rightarrow> string \<Rightarrow> string \<Rightarrow> view \<Rightarrow> flask_app res" where
  "add_url_rule app r ep f =
     (let (ms, auto) = rule_methods {''GET''}
      in if view_functions app ep \<noteq> None
         then Inl (AssertionError ''View function mapping is overwriting an existing endpoint function'')
         else Inr (app\<lparr>url_map := url_map app @
                         [\<lparr>rule_path = Exact r, endpoint = ep, methods = ms, provide_automatic_options = auto\<rparr>],
                       view_functions := (view_functions app)(ep \<mapsto> f)\<rparr>))"

subsection \<open>URL matching (werkzeug.routing.MapAdapter.match)\<close>

datatype match_result = Matched rule | NotFound | MethodNotAllowed "string set" | Redirect string

fun route_matches :: "route \<Rightarrow> string \<Rightarrow> bool" where
  "route_matches (Exact s) p \<longleftrightarrow> p = s"
| "route_matches (PathConv pre) p \<longleftrightarrow>
     take (length pre) p = pre \<and> drop (length pre) p \<noteq> [] \<and> hd (drop (length pre) p) \<noteq> CHR ''/''"

text \<open>\<^verbatim>\<open>re.sub("/{2,}?", "/", path)\<close>: the lazy quantifier takes two slashes at a time,
  so each pair becomes one and a run of three leaves two.\<close>

fun merge_slashes :: "string \<Rightarrow> string" where
  "merge_slashes (a # b # cs) =
     (if a = CHR ''/'' \<and> b = CHR ''/'' then CHR ''/'' # merge_slashes cs else a # merge_slashes (b # cs))"
| "merge_slashes cs = cs"

text \<open>\<^verbatim>\<open>StateMachineMatcher.match\<close> and \<^verbatim>\<open>MapAdapter.match\<close>: the rule whose path and
  method match wins. Without one, the path is matched again with its slashes merged: a
  rule that takes the merged path and the method makes a \<^verbatim>\<open>RequestRedirect\<close> to it;
  otherwise the methods of the rules that took either path make a 405, and none a 404.\<close>

definition path_methods :: "rule list \<Rightarrow> string \<Rightarrow> string set" where
  "path_methods rs p = \<Union> (methods ` set (filter (\<lambda>r. route_matches (rule_path r) p) rs))"

definition match :: "rule list \<Rightarrow> string \<Rightarrow> string \<Rightarrow> match_result" where
  "match rs m p =
     (case find (\<lambda>r. route_matches (rule_path r) p \<and> m \<in> methods r) rs of
        Some r \<Rightarrow> Matched r
      | None \<Rightarrow>
          (let q = merge_slashes p in
           if \<exists>r \<in> set rs. route_matches (rule_path r) q \<and> m \<in> methods r then Redirect q
           else if path_methods rs p \<union> path_methods rs q \<noteq> {}
           then MethodNotAllowed (path_methods rs p \<union> path_methods rs q)
           else NotFound))"

subsection \<open>Dispatch\<close>

text \<open>
  \<^verbatim>\<open>full_dispatch_request\<close>: a routing error becomes its error response (for a
  \<^verbatim>\<open>RequestRedirect\<close> the 308 redirect page; its \<^verbatim>\<open>Location\<close> header, the
  absolute URL of the merged path, is not modelled); a matched rule
  with automatic options answers \<^verbatim>\<open>OPTIONS\<close> with an empty response whose \<^verbatim>\<open>Allow\<close>
  lists the path's methods (\<^verbatim>\<open>make_default_options_response\<close>); otherwise the view runs,
  and an exception it raises becomes a 500. Then \<^verbatim>\<open>process_response\<close> runs the
  \<^verbatim>\<open>after_request\<close> hooks, the last registered first.
\<close>

definition dispatch_request :: "flask_app \<Rightarrow> request \<Rightarrow> response" where
  "dispatch_request app req =
     (let m = py_upper (req_method req) in
      case match (url_map app) m (path req) of
        NotFound \<Rightarrow> http_error 404 {}
      | MethodNotAllowed ms \<Rightarrow> http_error 405 ms
      | Redirect q \<Rightarrow> http_error 308 {}
      | Matched r \<Rightarrow>
          if provide_automatic_options r \<and> m = ''OPTIONS''
          then empty_response\<lparr>allow := path_methods (url_map app) (path req)\<rparr>
          else (case view_functions app (endpoint r) of
                  None \<Rightarrow> http_error 500 {}
                | Some f \<Rightarrow> (case f \<lparr>ctx_debug = debug app\<rparr> of
                               Inl _ \<Rightarrow> http_error 500 {}
                             | Inr resp \<Rightarrow> resp)))"

definition process_response :: "flask_app \<Rightarrow> request \<Rightarrow> response \<Rightarrow> response" where
  "process_response app req resp = fold (\<lambda>h r. h req r) (rev (after_request_funcs app)) resp"

definition full_dispatch_request :: "flask_app \<Rightarrow> request \<Rightarrow> response" where
  "full_dispatch_request app req = process_response app req (dispatch_request app req)"

text \<open>\<^verbatim>\<open>Response.get_app_iter\<close>: no body is sent when \<^verbatim>\<open>REQUEST_METHOD\<close> is exactly
  \<^verbatim>\<open>HEAD\<close>, or for the statuses 1xx, 204 and 304.\<close>

definition drop_body :: "request \<Rightarrow> response \<Rightarrow> response" where
  "drop_body req resp =
     (if req_method req = ''HEAD'' \<or> (100 \<le> status resp \<and> status resp < 200) \<or> status resp \<in> {204, 304}
      then resp\<lparr>body := Text []\<rparr> else resp)"

definition wsgi_app :: "flask_app \<Rightarrow> request \<Rightarrow> response" where
  "wsgi_app app req = drop_body req (full_dispatch_request app req)"

subsection \<open>jsonify\<close>

text \<open>\<^verbatim>\<open>DefaultJSONProvider.response\<close>: \<^verbatim>\<open>indent=2\<close> when the application is in debug
  mode, compact separators otherwise, a final newline, mimetype \<^verbatim>\<open>application/json\<close>.\<close>

definition json_layout :: "app_ctx \<Rightarrow> layout" where
  "json_layout ctx = (if ctx_debug ctx then Some 2 else None)"

definition jsonify :: "app_ctx \<Rightarrow> json \<Rightarrow> response res" where
  "jsonify ctx v =
     bindE (dumps (json_layout ctx) v)
       (\<lambda>s. Inr \<lparr>status = 200, mimetype = ''application/json'', body = Text (s @ ''\<newline>''),
                 allow = {}, headers = []\<rparr>)"

end
