(* ===== verification/Debugger.thy ===== *)
theory Debugger
  imports Flask "HOL-Library.Word"
begin

text \<open>
  Werkzeug's interactive debugger (\<^verbatim>\<open>werkzeug.debug.DebuggedApplication\<close>, Werkzeug
  3.0.3 or later), which \<^verbatim>\<open>app.run(debug=True)\<close> (line 21) puts in front of the
  application: \<^verbatim>\<open>run_simple(..., use_debugger=True, use_evalex=True)\<close> wraps the app
  in \<^verbatim>\<open>DebuggedApplication(app, evalex=True)\<close> and adds the bind address to its
  trusted hosts. Its \<^verbatim>\<open>__call__\<close> answers some requests itself (a static resource, PIN
  authentication, PIN logging, a command in a console frame, the console page at
  \<^verbatim>\<open>/console\<close>) and passes every other request to the application. Requests are read
  through \<^verbatim>\<open>request.args\<close> (\<^verbatim>\<open>urllib.parse.parse_qsl\<close> on the query string) and the
  \<^verbatim>\<open>Host\<close> header; the debugger's state is its console frames and its counter of
  failed PIN attempts, an unsigned byte (\<^verbatim>\<open>multiprocessing.Value("B")\<close>), so an
  \<open>8 word\<close>; the PIN cookie it sets and reads carries a time stamp and the PIN's
  hash. What the process does not decide enters as data: the random secret, the cookie's
  name, the hash function (SHA-1), the clock (the request's arrival time), the MIME type
  of a file name. The HTML of the
  console, the files served and the evaluation of commands are not modelled: their
  bodies only name what they carry.
\<close>

subsection \<open>Query strings\<close>

text \<open>\<^verbatim>\<open>urllib.parse.unquote\<close>: a \<^verbatim>\<open>%\<close> followed by two hex digits is that byte,
  anything else stays. Bytes are read as code points (the development's strings are
  Latin-1); the debugger only compares the decoded text with ASCII words, for which this
  agrees with the UTF-8 decoding of the library.\<close>

definition hex_digit :: "char \<Rightarrow> nat option" where
  "hex_digit c =
     (let n = of_char c :: nat in
      if 48 \<le> n \<and> n \<le> 57 then Some (n - 48)
      else if 65 \<le> n \<and> n \<le> 70 then Some (n - 55)
      else if 97 \<le> n \<and> n \<le> 102 then Some (n - 87) else None)"

fun unquote :: "string \<Rightarrow> string" where
  "unquote (c # a # b # cs) =
     (if c = CHR ''%'' then
        (case (hex_digit a, hex_digit b) of
           (Some x, Some y) \<Rightarrow> char_of (16 * x + y) # unquote cs
         | _ \<Rightarrow> c # unquote (a # b # cs))
      else c # unquote (a # b # cs))"
| "unquote cs = cs"

definition plus_to_space :: "string \<Rightarrow> string" where
  "plus_to_space s = map (\<lambda>c. if c = CHR ''+'' then CHR '' '' else c) s"

text \<open>\<^verbatim>\<open>str.split(sep)\<close>: never empty, empty pieces kept.\<close>

fun split_on :: "char \<Rightarrow> string \<Rightarrow> string list" where
  "split_on d [] = [[]]"
| "split_on d (c # cs) =
     (let ws = split_on d cs in if c = d then [] # ws else (c # hd ws) # tl ws)"

text \<open>\<^verbatim>\<open>parse_qsl(qs, keep_blank_values=True)\<close>: split at \<^verbatim>\<open>&\<close>, skip empty fields,
  split each at its first \<^verbatim>\<open>=\<close> (no \<^verbatim>\<open>=\<close>: empty value), \<^verbatim>\<open>+\<close> is a space, then
  unquote. \<^verbatim>\<open>request.args.get(k)\<close> is the first value of \<open>k\<close>.\<close>

definition qsl_field :: "string \<Rightarrow> string \<times> string" where
  "qsl_field f =
     (unquote (plus_to_space (takeWhile (\<lambda>c. c \<noteq> CHR ''='') f)),
      unquote (plus_to_space (drop 1 (dropWhile (\<lambda>c. c \<noteq> CHR ''='') f))))"

definition parse_qsl :: "string \<Rightarrow> (string \<times> string) list" where
  "parse_qsl qs = map qsl_field (filter (\<lambda>f. f \<noteq> []) (if qs = [] then [] else split_on CHR ''&'' qs))"

definition args_get :: "string \<Rightarrow> string \<Rightarrow> string option" where
  "args_get qs k = map_of (parse_qsl qs) k"

text \<open>\<^verbatim>\<open>request.args.get("frm", type=int)\<close>: \<open>None\<close> when absent or when \<^verbatim>\<open>int()\<close>
  raises \<^verbatim>\<open>ValueError\<close>.\<close>

definition frm_arg :: "string \<Rightarrow> int option" where
  "frm_arg qs =
     (case args_get qs ''frm'' of
        None \<Rightarrow> None
      | Some v \<Rightarrow> (case py_int_of_str v of Inr i \<Rightarrow> Some i | Inl _ \<Rightarrow> None))"

subsection \<open>Trusted hosts\<close>

text \<open>\<^verbatim>\<open>werkzeug.sansio.utils.host_is_trusted\<close> on the \<^verbatim>\<open>Host\<close> header: the host
  name before any \<^verbatim>\<open>:\<close> equals an entry, or, for an entry with a leading dot, is a
  subdomain of it. The IDNA encoding it applies first is the identity on the ASCII host
  names of 1 to 63 characters per label that this model takes.\<close>

definition host_name :: "string \<Rightarrow> string" where
  "host_name h = takeWhile (\<lambda>c. c \<noteq> CHR '':'') h"

definition ends_with :: "string \<Rightarrow> string \<Rightarrow> bool" where
  "ends_with x h \<longleftrightarrow> length x \<le> length h \<and> drop (length h - length x) h = x"

definition host_matches :: "string \<Rightarrow> string \<Rightarrow> bool" where
  "host_matches h ref =
     (let sfx = (ref \<noteq> [] \<and> hd ref = CHR ''.'');
          r = host_name (if sfx then tl ref else ref)
      in r = h \<or> (sfx \<and> ends_with (CHR ''.'' # r) h))"

definition host_is_trusted :: "string option \<Rightarrow> string list \<Rightarrow> bool" where
  "host_is_trusted hn refs =
     (case hn of None \<Rightarrow> False | Some h \<Rightarrow> h \<noteq> [] \<and> list_ex (host_matches (host_name h)) refs)"

subsection \<open>Cookies\<close>

definition py_strip :: "string \<Rightarrow> string" where
  "py_strip s = rev (dropWhile py_space (rev (dropWhile py_space s)))"

text \<open>\<^verbatim>\<open>werkzeug.sansio.http.parse_cookie\<close> on the \<^verbatim>\<open>Cookie\<close> header: it is cut at
  each \<^verbatim>\<open>;\<close>; in each piece the name runs up to the first \<^verbatim>\<open>=\<close> and the value is
  the rest, both stripped; pieces with an empty name are dropped, and a value in double
  quotes loses them. Quoted values that hold a \<^verbatim>\<open>;\<close> or a backslash escape are not
  modelled. \<^verbatim>\<open>.get(name)\<close> is the first pair with that name.\<close>

definition cookie_unquote :: "string \<Rightarrow> string" where
  "cookie_unquote v =
     (if 2 \<le> length v \<and> hd v = CHR 0x22 \<and> last v = CHR 0x22 then butlast (tl v) else v)"

definition cookie_pair :: "string \<Rightarrow> string \<times> string" where
  "cookie_pair p =
     (let k = takeWhile (\<lambda>c. c \<noteq> CHR ''='') p
      in (py_strip k, cookie_unquote (py_strip (drop (Suc (length k)) p))))"

definition parse_cookie :: "string option \<Rightarrow> (string \<times> string) list" where
  "parse_cookie h =
     filter (\<lambda>kv. fst kv \<noteq> []) (map cookie_pair (split_on CHR '';'' (case h of None \<Rightarrow> [] | Some c \<Rightarrow> c)))"

text \<open>\<^verbatim>\<open>PIN_TIME\<close>: a PIN cookie is good for a week.\<close>

definition PIN_TIME :: int where
  "PIN_TIME = 60 * 60 * 24 * 7"

subsection \<open>The debugger\<close>

record debugger =
  evalex :: bool
  dbg_secret :: string
  dbg_pin :: "string option"
  pin_cookie_name :: string
  hash_pin :: "string \<Rightarrow> string"
  frames :: "int set"
  failed_pin_auth :: "8 word"
  trusted_hosts :: "string list"
  console_path :: "string option"
  resource_type :: "string \<Rightarrow> string"

text \<open>\<^verbatim>\<open>check_pin_trust\<close>: without a PIN everyone is trusted. Otherwise the cookie
  named \<open>pin_cookie_name\<close> decides: none, one without \<^verbatim>\<open>|\<close>, or one whose part before
  the first \<^verbatim>\<open>|\<close> \<^verbatim>\<open>int()\<close> cannot read is \<open>Some False\<close>; one whose part after
  it is not the PIN's hash is \<open>None\<close>; otherwise the cookie is trusted while its time
  stamp is less than a week old.\<close>

definition check_pin_trust :: "debugger \<Rightarrow> request \<Rightarrow> bool option" where
  "check_pin_trust d req =
     (case dbg_pin d of
        None \<Rightarrow> Some True
      | Some pin \<Rightarrow>
          (case map_of (parse_cookie (header_get (req_headers req) ''Cookie'')) (pin_cookie_name d) of
             None \<Rightarrow> Some False
           | Some v \<Rightarrow>
               if CHR ''|'' \<notin> set v then Some False
               else (case py_int_of_str (takeWhile (\<lambda>c. c \<noteq> CHR ''|'') v) of
                       Inl _ \<Rightarrow> Some False
                     | Inr ts \<Rightarrow>
                         if tl (dropWhile (\<lambda>c. c \<noteq> CHR ''|'') v) \<noteq> hash_pin d pin then None
                         else Some (arrival req - PIN_TIME < ts))))"

definition check_host_trust :: "debugger \<Rightarrow> request \<Rightarrow> bool" where
  "check_host_trust d req = host_is_trusted (header_get (req_headers req) ''Host'') (trusted_hosts d)"

datatype dbg_route =
    ToApp | GetResource string | PinAuth | PrintPin | ExecuteCommand string int | DisplayConsole

text \<open>The dispatch of \<^verbatim>\<open>DebuggedApplication.__call__\<close>.\<close>

definition debugger_route :: "debugger \<Rightarrow> request \<Rightarrow> dbg_route" where
  "debugger_route d req =
     (let a = args_get (query req) in
      if a ''__debugger__'' = Some ''yes'' then
        (let cmd = a ''cmd''; arg = a ''f''; sec = a ''s'';
             frame = (case frm_arg (query req) of Some i \<Rightarrow> if i \<in> frames d then Some i else None | None \<Rightarrow> None)
         in if cmd = Some ''resource'' \<and> arg \<noteq> None \<and> arg \<noteq> Some [] then GetResource (the arg)
            else if cmd = Some ''pinauth'' \<and> sec = Some (dbg_secret d) then PinAuth
            else if cmd = Some ''printpin'' \<and> sec = Some (dbg_secret d) then PrintPin
            else if evalex d \<and> cmd \<noteq> None \<and> frame \<noteq> None \<and> sec = Some (dbg_secret d)
                    \<and> check_pin_trust d req = Some True
            then ExecuteCommand (the cmd) (the frame)
            else ToApp)
      else if evalex d \<and> console_path d = Some (path req) then DisplayConsole
      else ToApp)"

text \<open>The requests the debugger may answer itself, whatever its state: those whose
  query has \<^verbatim>\<open>__debugger__=yes\<close>, and those for the console path.\<close>

definition debugger_request :: "request \<Rightarrow> bool" where
  "debugger_request req \<longleftrightarrow> args_get (query req) ''__debugger__'' = Some ''yes'' \<or> path req = ''/console''"

subsection \<open>The debugger's answers\<close>

text \<open>The files of \<^verbatim>\<open>werkzeug/debug/shared\<close>.\<close>

definition SHARED_FILES :: "string list" where
  "SHARED_FILES = [''ICON_LICENSE.md'', ''console.png'', ''debugger.js'', ''less.png'', ''more.png'', ''style.css'']"

text \<open>\<^verbatim>\<open>os.path.basename\<close>: what follows the last \<^verbatim>\<open>/\<close>.\<close>

definition basename :: "string \<Rightarrow> string" where
  "basename f = rev (takeWhile (\<lambda>c. c \<noteq> CHR ''/'') (rev f))"

definition plain_response :: "string \<Rightarrow> body \<Rightarrow> response" where
  "plain_response mt b = \<lparr>status = 200, mimetype = mt, body = b, allow = {}, headers = []\<rparr>"

text \<open>\<^verbatim>\<open>SecurityError\<close>, a \<^verbatim>\<open>BadRequest\<close>: the debugger's answer to a host it does
  not trust.\<close>

definition security_error :: response where
  "security_error = http_error 400 {}"

text \<open>\<^verbatim>\<open>get_resource\<close>: \<^verbatim>\<open>pkgutil.get_data\<close> of \<^verbatim>\<open>shared/<basename>\<close>, sent by
  \<^verbatim>\<open>send_file\<close> with the MIME type guessed from the requested name, or \<^verbatim>\<open>NotFound\<close>.
  The conditional answers of \<^verbatim>\<open>send_file\<close> (304, 206) are not modelled.\<close>

definition get_resource :: "debugger \<Rightarrow> string \<Rightarrow> response" where
  "get_resource d f =
     (let b = basename f in
      if b \<in> set SHARED_FILES then plain_response (resource_type d f) (Resource b) else http_error 404 {})"

definition bool_json :: "bool \<Rightarrow> string" where
  "bool_json b = (if b then ''true'' else ''false'')"

text \<open>\<^verbatim>\<open>json.dumps({"auth": auth, "exhausted": exhausted})\<close>.\<close>

definition pin_auth_response :: "bool \<Rightarrow> bool \<Rightarrow> response" where
  \<open>pin_auth_response auth exh =
     plain_response ''application/json''
       (Text (''{"auth": '' @ bool_json auth @ '', "exhausted": '' @ bool_json exh @ ''}''))\<close>


definition strip_dashes :: "string \<Rightarrow> string" where
  "strip_dashes s = filter (\<lambda>c. c \<noteq> CHR ''-'') s"

text \<open>\<^verbatim>\<open>rv.set_cookie(self.pin_cookie_name, f"{int(time.time())}|{hash_pin(pin)}",
  httponly=True, samesite="Strict", secure=request.is_secure)\<close> as \<^verbatim>\<open>dump_cookie\<close>
  writes it; the development server speaks plain HTTP, so the cookie is not
  \<^verbatim>\<open>Secure\<close>. Without a PIN, \<^verbatim>\<open>hash_pin(None)\<close> hashes the text \<^verbatim>\<open>None\<close>.
  \<^verbatim>\<open>str()\<close> of the time stamp may raise (beyond 4300 digits), which the server
  answers with 500.\<close>

definition pin_str :: "string option \<Rightarrow> string" where
  "pin_str p = (case p of None \<Rightarrow> ''None'' | Some s \<Rightarrow> s)"

definition set_pin_cookie :: "debugger \<Rightarrow> request \<Rightarrow> response \<Rightarrow> response" where
  "set_pin_cookie d req r =
     (case py_str_of_int (arrival req) of
        Inl _ \<Rightarrow> http_error 500 {}
      | Inr ts \<Rightarrow>
          r\<lparr>headers := headers r @
              [(''Set-Cookie'', pin_cookie_name d @ ''='' @ ts @ ''|'' @ hash_pin d (pin_str (dbg_pin d))
                                @ ''; HttpOnly; Path=/; SameSite=Strict'')]\<rparr>)"

text \<open>\<^verbatim>\<open>rv.delete_cookie(self.pin_cookie_name)\<close>: an empty value that expired in 1970.\<close>

definition delete_pin_cookie :: "debugger \<Rightarrow> response \<Rightarrow> response" where
  "delete_pin_cookie d r =
     r\<lparr>headers := headers r @
         [(''Set-Cookie'', pin_cookie_name d @ ''=; Expires=Thu, 01 Jan 1970 00:00:00 GMT; Max-Age=0; Path=/'')]\<rparr>"

text \<open>\<^verbatim>\<open>_fail_pin_auth\<close>: one more failure on the unsigned byte, read and written
  under the value's lock (then it sleeps).\<close>

definition fail_pin_auth :: "debugger \<Rightarrow> debugger" where
  "fail_pin_auth d = d\<lparr>failed_pin_auth := failed_pin_auth d + 1\<rparr>"

text \<open>\<^verbatim>\<open>pin_auth\<close>: a bad cookie counts as a failure; a trusted client is
  authenticated; after more than ten failures the PIN is not even compared; otherwise
  \<^verbatim>\<open>request.args["pin"]\<close> (a missing one raises \<^verbatim>\<open>BadRequestKeyError\<close> out of the
  debugger, which the development server turns into 500) is compared without spaces
  around it and without dashes. On success the answer sets the PIN cookie
  (\<open>set_pin_cookie\<close>), after a bad cookie it deletes it (\<open>delete_pin_cookie\<close>).\<close>

definition pin_auth :: "debugger \<Rightarrow> request \<Rightarrow> debugger \<times> response" where
  "pin_auth d req =
     (if \<not> check_host_trust d req then (d, security_error)
      else (case check_pin_trust d req of
              None \<Rightarrow> (fail_pin_auth d, delete_pin_cookie d (pin_auth_response False False))
            | Some True \<Rightarrow> (d, set_pin_cookie d req (pin_auth_response True False))
            | Some False \<Rightarrow>
                if 10 < unat (failed_pin_auth d) then (d, pin_auth_response False True)
                else (case args_get (query req) ''pin'' of
                        None \<Rightarrow> (d, http_error 500 {})
                      | Some p \<Rightarrow>
                          if strip_dashes (py_strip p) = strip_dashes (the (dbg_pin d))
                          then (d\<lparr>failed_pin_auth := 0\<rparr>, set_pin_cookie d req (pin_auth_response True False))
                          else (fail_pin_auth d, pin_auth_response False False))))"

text \<open>\<^verbatim>\<open>log_pin_request\<close>: prints the PIN on the server's console, answers empty.\<close>

definition print_pin :: "debugger \<Rightarrow> request \<Rightarrow> response" where
  "print_pin d req =
     (if \<not> check_host_trust d req then security_error else plain_response ''text/plain'' (Text []))"

text \<open>\<^verbatim>\<open>execute_command\<close>: evaluates the command in the frame (arbitrary Python).\<close>

definition execute_command :: "debugger \<Rightarrow> request \<Rightarrow> string \<Rightarrow> int \<Rightarrow> response" where
  "execute_command d req cmd fr =
     (if \<not> check_host_trust d req then security_error
      else plain_response ''text/html'' (CommandOutput cmd fr))"

text \<open>\<^verbatim>\<open>display_console\<close>: creates console frame 0 on first use and answers the
  console page, which embeds the secret.\<close>

definition display_console :: "debugger \<Rightarrow> request \<Rightarrow> debugger \<times> response" where
  "display_console d req =
     (if \<not> check_host_trust d req then (d, security_error)
      else (d\<lparr>frames := insert 0 (frames d)\<rparr>,
            plain_response ''text/html'' (ConsolePage (dbg_secret d) (check_pin_trust d req = Some True))))"

text \<open>\<^verbatim>\<open>DebuggedApplication.__call__\<close>: the debugger's own answers go through
  \<^verbatim>\<open>Response.get_app_iter\<close> like any other; everything else is the application's
  (\<^verbatim>\<open>debug_application\<close>, which only differs when the application raises, and this
  one never does).\<close>

definition debugger_call :: "debugger \<Rightarrow> (request \<Rightarrow> response) \<Rightarrow> request \<Rightarrow> debugger \<times> response" where
  "debugger_call d app req =
     (case debugger_route d req of
        ToApp \<Rightarrow> (d, app req)
      | GetResource f \<Rightarrow> (d, drop_body req (get_resource d f))
      | PinAuth \<Rightarrow> apsnd (drop_body req) (pin_auth d req)
      | PrintPin \<Rightarrow> (d, drop_body req (print_pin d req))
      | ExecuteCommand c fr \<Rightarrow> (d, drop_body req (execute_command d req c fr))
      | DisplayConsole \<Rightarrow> apsnd (drop_body req) (display_console d req))"

subsection \<open>Creation\<close>

text \<open>\<^verbatim>\<open>get_pin_and_cookie_name\<close>: \<^verbatim>\<open>WERKZEUG_DEBUG_PIN=off\<close> disables the PIN; a
  value that is decimal apart from dashes is the PIN (grouped when it has no dashes);
  otherwise the nine digits hashed from the machine are grouped. Groups of 5, 4 or 3,
  the first size that divides the length.\<close>

fun chunks :: "nat \<Rightarrow> string \<Rightarrow> string list" where
  "chunks n s = (if n = 0 \<or> s = [] then [] else take n s # chunks n (drop n s))"

text \<open>\<^verbatim>\<open>sep.join(ws)\<close>.\<close>

fun str_join :: "string \<Rightarrow> string list \<Rightarrow> string" where
  "str_join sep [] = []"
| "str_join sep [w] = w"
| "str_join sep (w # ws) = w @ sep @ str_join sep ws"

definition group_pin :: "string \<Rightarrow> string" where
  "group_pin num =
     (if length num mod 5 = 0 then str_join ''-'' (chunks 5 num)
      else if length num mod 4 = 0 then str_join ''-'' (chunks 4 num)
      else if length num mod 3 = 0 then str_join ''-'' (chunks 3 num)
      else num)"

definition is_decimal :: "string \<Rightarrow> bool" where
  "is_decimal s \<longleftrightarrow> s \<noteq> [] \<and> list_all is_digit s"

definition pin_of_env :: "env \<Rightarrow> string \<Rightarrow> string option" where
  "pin_of_env e machine =
     (case e ''WERKZEUG_DEBUG_PIN'' of
        Some p \<Rightarrow>
          if p = ''off'' then None
          else if is_decimal (strip_dashes p) then Some (if CHR ''-'' \<in> set p then p else group_pin p)
          else Some (group_pin machine)
      | None \<Rightarrow> Some (group_pin machine))"

text \<open>\<^verbatim>\<open>DebuggedApplication(app, evalex=True)\<close> as \<^verbatim>\<open>run_simple\<close> builds it, with
  the bind address added to the trusted hosts.\<close>

definition new_debugger ::
  "string \<Rightarrow> string option \<Rightarrow> string \<Rightarrow> (string \<Rightarrow> string) \<Rightarrow> (string \<Rightarrow> string) \<Rightarrow> string \<Rightarrow> debugger" where
  "new_debugger sec pin cn hp rt host =
     \<lparr>evalex = True, dbg_secret = sec, dbg_pin = pin, pin_cookie_name = cn, hash_pin = hp, frames = {},
      failed_pin_auth = 0, trusted_hosts = [''.localhost'', ''127.0.0.1'', host],
      console_path = Some ''/console'', resource_type = rt\<rparr>"


subsection \<open>Query strings as a client writes them\<close>

text \<open>\<^verbatim>\<open>urllib.parse.quote_plus\<close>: letters, digits and \<^verbatim>\<open>_.-~\<close> stay, a space
  becomes \<^verbatim>\<open>+\<close>, every other character \<^verbatim>\<open>%XX\<close>; \<^verbatim>\<open>urlencode\<close> joins
  \<^verbatim>\<open>key=value\<close> pairs with \<^verbatim>\<open>&\<close>.\<close>

definition hex_char :: "nat \<Rightarrow> char" where
  "hex_char n = (if n < 10 then char_of (48 + n) else char_of (55 + n))"

definition url_safe :: "char \<Rightarrow> bool" where
  "url_safe c \<longleftrightarrow>
     (let n = of_char c :: nat in (48 \<le> n \<and> n \<le> 57) \<or> (65 \<le> n \<and> n \<le> 90) \<or> (97 \<le> n \<and> n \<le> 122))
     \<or> c \<in> set ''_.-~''"

fun quote_plus :: "string \<Rightarrow> string" where
  "quote_plus [] = []"
| "quote_plus (c # cs) =
     (if url_safe c then [c] else if c = CHR '' '' then ''+''
      else [CHR ''%'', hex_char (of_char c div 16), hex_char (of_char c mod 16)]) @ quote_plus cs"

definition urlencode :: "(string \<times> string) list \<Rightarrow> string" where
  "urlencode ps = str_join ''&'' (map (\<lambda>(k, v). quote_plus k @ ''='' @ quote_plus v) ps)"

text \<open>Two requests a client of the debugger sends: the console page, and a command
  for console frame 0 with the secret that page embeds.\<close>

definition console_get :: "string \<Rightarrow> int \<Rightarrow> request" where
  "console_get h t =
     \<lparr>req_method = ''GET'', path = ''/console'', req_headers = [(''Host'', h)], query = [], data = [], arrival = t\<rparr>"

definition command_get :: "string \<Rightarrow> int \<Rightarrow> string \<Rightarrow> string \<Rightarrow> request" where
  "command_get h t sec cmd =
     \<lparr>req_method = ''GET'', path = ''/'', req_headers = [(''Host'', h)],
      query = urlencode [(''__debugger__'', ''yes''), (''cmd'', cmd), (''frm'', ''0''), (''s'', sec)], data = [],
      arrival = t\<rparr>"

text \<open>What a PIN cookie's name (\<^verbatim>\<open>__wzd\<close> and hex digits) and the PIN's hash
  (hex digits of SHA-1) are made of: a non-empty word with no separator of a cookie, no
  \<^verbatim>\<open>|\<close>, no double quote and no white space.\<close>

definition cookie_token :: "string \<Rightarrow> bool" where
  "cookie_token s \<longleftrightarrow>
     s \<noteq> [] \<and> (\<forall>c \<in> set s. c \<noteq> CHR ''='' \<and> c \<noteq> CHR '';'' \<and> c \<noteq> CHR ''|'' \<and> c \<noteq> CHR 0x22 \<and> \<not> py_space c)"

subsection \<open>Requests the debugger passes on\<close>

lemma debugger_route_app:
  "console_path d = Some ''/console'' \<Longrightarrow> \<not> debugger_request req \<Longrightarrow> debugger_route d req = ToApp"
  by (auto simp: debugger_route_def debugger_request_def Let_def)

lemma debugger_call_app:
  "console_path d = Some ''/console'' \<Longrightarrow> \<not> debugger_request req \<Longrightarrow> debugger_call d app req = (d, app req)"
  by (simp add: debugger_call_def debugger_route_app)


lemma debugger_call_console_path:
  "console_path (fst (debugger_call d app req)) = console_path d"
  by (simp add: debugger_call_def pin_auth_def display_console_def fail_pin_auth_def
      split: dbg_route.split option.split bool.split)


subsection \<open>Decoding what a client encodes\<close>

lemma of_char_hex_digits [simp]: "of_char c div 16 < (16::nat)" "of_char c mod 16 < (16::nat)"
  using nat_of_char_less_256 [of c] by (simp_all add: div_less_iff_less_mult)

lemma hex_char_range: "n < 16 \<Longrightarrow> of_char (hex_char n) \<in> {48..57} \<union> {65..(70::nat)}"
  by (simp add: hex_char_def)

lemma hex_digit_hex_char: "n < 16 \<Longrightarrow> hex_digit (hex_char n) = Some n"
  by (auto simp: hex_digit_def hex_char_def Let_def)

lemma hex_char_not [simp]:
  "n < 16 \<Longrightarrow> hex_char n \<noteq> CHR ''+''" "n < 16 \<Longrightarrow> hex_char n \<noteq> CHR ''&''"
  "n < 16 \<Longrightarrow> hex_char n \<noteq> CHR ''=''"
  using hex_char_range [of n] by (auto simp del: of_char_of)

lemma url_safe_not [simp]:
  "\<not> url_safe CHR ''+''" "\<not> url_safe CHR ''%''" "\<not> url_safe CHR ''&''" "\<not> url_safe CHR ''=''"
  "\<not> url_safe CHR '' ''"
  by (simp_all add: url_safe_def)

lemma unquote_Cons: "c \<noteq> CHR ''%'' \<Longrightarrow> unquote (c # cs) = c # unquote cs"
proof (cases cs)
  case (Cons a t)
  then show "c \<noteq> CHR ''%'' \<Longrightarrow> ?thesis" by (cases t) simp_all
qed simp

lemma plus_to_space_simps [simp]:
  "plus_to_space [] = []" "plus_to_space (xs @ ys) = plus_to_space xs @ plus_to_space ys"
  "plus_to_space (c # cs) = (if c = CHR ''+'' then CHR '' '' else c) # plus_to_space cs"
  by (simp_all add: plus_to_space_def)

lemma unquote_quote_plus: "unquote (plus_to_space (quote_plus s)) = s"
proof (induction s)
  case (Cons c cs)
  show ?case
  proof (cases "url_safe c")
    case True
    then have "c \<noteq> CHR ''+''" "c \<noteq> CHR ''%''" by auto
    with True Cons.IH show ?thesis by (simp add: unquote_Cons)
  next
    case False
    define n where "n = (of_char c :: nat)"
    have lt: "n div 16 < 16" "n mod 16 < 16" by (simp_all add: n_def)
    have "char_of (16 * (n div 16) + n mod 16) = c" by (simp add: n_def)
    with False lt Cons.IH show ?thesis
      by (auto simp: unquote_Cons hex_digit_hex_char n_def [symmetric])
  qed
qed simp

lemma quote_plus_chars: "CHR ''&'' \<notin> set (quote_plus s)" "CHR ''='' \<notin> set (quote_plus s)"
  by (induction s) (auto dest: sym)

lemma split_on_no_sep: "d \<notin> set w \<Longrightarrow> split_on d w = [w]"
  by (induction w) (auto simp: Let_def)

lemma split_on_append_sep: "d \<notin> set w \<Longrightarrow> split_on d (w @ d # r) = w # split_on d r"
  by (induction w) (auto simp: Let_def)

lemma split_on_str_join:
  "ws \<noteq> [] \<Longrightarrow> \<forall>w \<in> set ws. d \<notin> set w \<Longrightarrow> split_on d (str_join [d] ws) = ws"
proof (induction "[d]" ws rule: str_join.induct)
  case (3 w v vs)
  then show ?case by (simp add: split_on_append_sep)
qed (simp_all add: split_on_no_sep)

lemma str_join_Cons_ne: "w \<noteq> [] \<Longrightarrow> str_join sep (w # ws) \<noteq> []"
  by (cases ws) simp_all

lemma qsl_field_encode: "qsl_field (quote_plus k @ ''='' @ quote_plus v) = (k, v)"
proof -
  have "\<forall>c \<in> set (quote_plus k). c \<noteq> CHR ''=''" using quote_plus_chars(2) [of k] by blast
  then show ?thesis by (simp add: qsl_field_def takeWhile_append2 dropWhile_append2 unquote_quote_plus)
qed

lemma parse_qsl_encoded:
  "parse_qsl (urlencode ps) = map qsl_field (map (\<lambda>(k, v). quote_plus k @ ''='' @ quote_plus v) ps)"
proof (cases "ps = []")
  case False
  let ?fs = "map (\<lambda>(k, v). quote_plus k @ ''='' @ quote_plus v) ps"
  have ne: "\<forall>f \<in> set ?fs. f \<noteq> []" and amp: "\<forall>f \<in> set ?fs. CHR ''&'' \<notin> set f"
    using quote_plus_chars(1) by auto
  have "str_join ''&'' ?fs \<noteq> []"
    using False by (cases ps) (auto simp: str_join_Cons_ne split: prod.splits)
  with False amp ne show ?thesis
    by (simp add: parse_qsl_def urlencode_def split_on_str_join filter_id_conv)
qed (simp add: parse_qsl_def urlencode_def)


lemma qsl_fields_encode: "map qsl_field (map (\<lambda>(k, v). quote_plus k @ ''='' @ quote_plus v) ps) = ps"
  by (induction ps) (auto simp: qsl_field_encode [simplified])

lemma args_get_urlencode: "args_get (urlencode ps) k = map_of ps k"
  by (simp only: args_get_def parse_qsl_encoded qsl_fields_encode)

subsection \<open>What a request changes\<close>

lemma pin_auth_keeps [simp]:
  "evalex (fst (pin_auth d req)) = evalex d" "dbg_secret (fst (pin_auth d req)) = dbg_secret d"
  "dbg_pin (fst (pin_auth d req)) = dbg_pin d" "pin_cookie_name (fst (pin_auth d req)) = pin_cookie_name d" "hash_pin (fst (pin_auth d req)) = hash_pin d"
  "trusted_hosts (fst (pin_auth d req)) = trusted_hosts d" "console_path (fst (pin_auth d req)) = console_path d"
  "frames (fst (pin_auth d req)) = frames d"
  by (simp_all add: pin_auth_def fail_pin_auth_def split: option.split bool.split)

lemma display_console_keeps [simp]:
  "evalex (fst (display_console d req)) = evalex d" "dbg_secret (fst (display_console d req)) = dbg_secret d"
  "dbg_pin (fst (display_console d req)) = dbg_pin d" "pin_cookie_name (fst (display_console d req)) = pin_cookie_name d" "hash_pin (fst (display_console d req)) = hash_pin d"
  "trusted_hosts (fst (display_console d req)) = trusted_hosts d"
  "console_path (fst (display_console d req)) = console_path d"
  "failed_pin_auth (fst (display_console d req)) = failed_pin_auth d"
  by (simp_all add: display_console_def)

lemma debugger_call_keeps [simp]:
  "evalex (fst (debugger_call d app req)) = evalex d"
  "dbg_secret (fst (debugger_call d app req)) = dbg_secret d"
  "dbg_pin (fst (debugger_call d app req)) = dbg_pin d"
  "pin_cookie_name (fst (debugger_call d app req)) = pin_cookie_name d" "hash_pin (fst (debugger_call d app req)) = hash_pin d"
  "trusted_hosts (fst (debugger_call d app req)) = trusted_hosts d"
  by (simp_all add: debugger_call_def split: dbg_route.split)

text \<open>Only a console page shown to a trusted host creates a frame, and only frame 0.\<close>

lemma debugger_call_frames:
  "frames (fst (debugger_call d app req)) =
     (if debugger_route d req = DisplayConsole \<and> check_host_trust d req then insert 0 (frames d) else frames d)"
  by (simp add: debugger_call_def display_console_def split: dbg_route.split)

lemma debugger_route_ExecuteCommand:
  assumes "debugger_route d req = ExecuteCommand c fr"
  shows "fr \<in> frames d \<and> evalex d \<and> args_get (query req) ''s'' = Some (dbg_secret d)
         \<and> check_pin_trust d req = Some True"
  using assms
  by (auto simp: debugger_route_def Let_def split: if_splits option.splits)

lemma debugger_route_DisplayConsole:
  "debugger_route d req = DisplayConsole \<longleftrightarrow>
     args_get (query req) ''__debugger__'' \<noteq> Some ''yes'' \<and> evalex d \<and> console_path d = Some (path req)"
  by (auto simp: debugger_route_def Let_def split: if_splits)

text \<open>The debugger answers with a command's output only on the guarded route.\<close>

lemma debugger_call_CommandOutput:
  assumes "body (snd (debugger_call d app req)) = CommandOutput c fr"
    and "\<forall>c fr. body (app req) \<noteq> CommandOutput c fr"
  shows "fr \<in> frames d \<and> check_host_trust d req \<and> args_get (query req) ''s'' = Some (dbg_secret d)
         \<and> check_pin_trust d req = Some True"
proof (cases "debugger_route d req")
  case (ExecuteCommand c' fr')
  then have "c' = c \<and> fr' = fr \<and> check_host_trust d req"
    using assms(1)
    by (auto simp: debugger_call_def execute_command_def drop_body_def plain_response_def security_error_def
        http_error_def split: if_splits)
  with ExecuteCommand show ?thesis using debugger_route_ExecuteCommand by blast
qed (use assms in \<open>auto simp: debugger_call_def get_resource_def print_pin_def pin_auth_def Let_def
      display_console_def drop_body_def plain_response_def security_error_def http_error_def
      pin_auth_response_def fail_pin_auth_def set_pin_cookie_def delete_pin_cookie_def
      split: if_splits option.splits bool.splits sum.splits\<close>)

text \<open>While more than ten PIN failures are recorded and no request carries a PIN cookie
  with a wrong hash, the count does not move: no PIN is compared any more.\<close>

lemma debugger_call_locked:
  "10 < unat (failed_pin_auth d) \<Longrightarrow> check_pin_trust d req \<noteq> None
   \<Longrightarrow> failed_pin_auth (fst (debugger_call d app req)) = failed_pin_auth d"
  by (auto simp: debugger_call_def pin_auth_def display_console_def
      split: dbg_route.split option.split bool.split)


text \<open>C31: the PIN failure counter is an unsigned byte. A PIN request from a trusted host
  whose PIN cookie has the wrong hash counts a failure even when the PIN is locked out,
  and the count wraps around at 256, so 256 such requests bring a locked counter back to
  where PIN guesses are compared again.\<close>

theorem pin_auth_counter_wraps:
  assumes "check_host_trust d req" and "check_pin_trust d req = None"
  shows "unat (failed_pin_auth (fst (pin_auth d req))) = (unat (failed_pin_auth d) + 1) mod 256"
  using assms by (simp add: pin_auth_def fail_pin_auth_def unat_word_ariths)

subsection \<open>The console and its commands\<close>

lemma header_get_Host [simp]: "header_get [(''Host'', h)] ''Host'' = Some h"
  by (simp add: header_get_def)

lemma args_get_Nil [simp]: "args_get [] k = None"
  by (simp add: args_get_def parse_qsl_def)

lemma debugger_call_console:
  assumes "evalex d" and "console_path d = Some ''/console''"
  shows "debugger_call d app (console_get h t) =
           (if check_host_trust d (console_get h t)
            then (d\<lparr>frames := insert 0 (frames d)\<rparr>,
                  plain_response ''text/html'' (ConsolePage (dbg_secret d) (check_pin_trust d (console_get h t) = Some True)))
            else (d, security_error))"
proof -
  have "debugger_route d (console_get h t) = DisplayConsole"
    using assms by (simp add: debugger_route_DisplayConsole console_get_def)
  then show ?thesis
    by (simp add: debugger_call_def display_console_def drop_body_def plain_response_def security_error_def
        http_error_def console_get_def)
qed

lemma debugger_call_command:
  assumes "evalex d" and "0 \<in> frames d" and "check_host_trust d (command_get h t (dbg_secret d) cmd)"
    and "check_pin_trust d (command_get h t (dbg_secret d) cmd) = Some True"
    and "cmd \<notin> {''pinauth'', ''printpin''}"
  shows "debugger_call d app (command_get h t (dbg_secret d) cmd) = (d, plain_response ''text/html'' (CommandOutput cmd 0))"
proof -
  let ?r = "command_get h t (dbg_secret d) cmd"
  have "py_int_of_str ''0'' = Inr 0" by code_simp
  then have "frm_arg (query ?r) = Some 0"
    by (simp add: frm_arg_def command_get_def args_get_urlencode)
  with assms have "debugger_route d ?r = ExecuteCommand cmd 0"
    by (auto simp: debugger_route_def command_get_def args_get_urlencode Let_def)
  with assms(3) show ?thesis
    by (simp add: debugger_call_def execute_command_def drop_body_def plain_response_def command_get_def)
qed

subsection \<open>The PIN cookie\<close>

lemma dropWhile_none: "\<forall>c \<in> set xs. \<not> P c \<Longrightarrow> dropWhile P xs = xs"
  by (cases xs) auto

lemma py_strip_no_space: "\<forall>c \<in> set s. \<not> py_space c \<Longrightarrow> py_strip s = s"
  by (simp add: py_strip_def dropWhile_none)

lemma py_space_bar [simp]: "\<not> py_space CHR ''|''"
  by (simp add: py_space_def)

lemma digit_sign_chars:
  "is_digit c \<or> c = CHR ''-'' \<Longrightarrow> c \<noteq> CHR '';'' \<and> c \<noteq> CHR ''|'' \<and> c \<noteq> CHR 0x22 \<and> \<not> py_space c"
  by (auto simp: is_digit_def)

lemma parse_cookie_single:
  assumes "cookie_token n" and "v \<noteq> []" and "\<forall>c \<in> set v. c \<noteq> CHR '';'' \<and> \<not> py_space c"
    and "hd v \<noteq> CHR 0x22"
  shows "parse_cookie (Some (n @ ''='' @ v)) = [(n, v)]"
proof -
  have n: "n \<noteq> []" "\<forall>c \<in> set n. c \<noteq> CHR ''='' \<and> c \<noteq> CHR '';'' \<and> \<not> py_space c"
    using assms(1) by (auto simp: cookie_token_def)
  have "CHR '';'' \<notin> set (n @ ''='' @ v)" using n assms(3) by auto
  then have sp: "split_on CHR '';'' (n @ ''='' @ v) = [n @ ''='' @ v]" by (rule split_on_no_sep)
  have tw: "takeWhile (\<lambda>c. c \<noteq> CHR ''='') (n @ ''='' @ v) = n" using n by (simp add: takeWhile_append2)
  have "cookie_pair (n @ ''='' @ v) = (n, v)"
    using n assms(3,4)
    by (simp only: cookie_pair_def Let_def tw) (simp add: py_strip_no_space cookie_unquote_def)
  then show ?thesis using sp n by (simp add: parse_cookie_def)
qed

text \<open>Without a \<^verbatim>\<open>Cookie\<close> header no PIN cookie can be bad.\<close>

lemma check_pin_trust_no_cookie:
  "header_get (req_headers req) ''Cookie'' = None \<Longrightarrow> check_pin_trust d req = Some (dbg_pin d = None)"
  by (simp add: check_pin_trust_def parse_cookie_def cookie_pair_def py_strip_def split: option.split)

text \<open>A \<^verbatim>\<open>Cookie\<close> header that carries exactly the PIN cookie \<open>name=ts|h\<close>, with
  \<open>ts\<close> what \<^verbatim>\<open>str()\<close> writes for \<open>t\<close>: trusted for a week after \<open>t\<close> when
  \<open>h\<close> is the PIN's hash, a bad cookie otherwise.\<close>

lemma check_pin_trust_cookie:
  assumes "dbg_pin d = Some pin" and "cookie_token (pin_cookie_name d)" and "cookie_token h"
    and "py_str_of_int t = Inr ts"
    and "header_get (req_headers req) ''Cookie'' = Some (pin_cookie_name d @ ''='' @ ts @ ''|'' @ h)"
  shows "check_pin_trust d req = (if h = hash_pin d pin then Some (arrival req - PIN_TIME < t) else None)"
proof -
  let ?v = "ts @ ''|'' @ h"
  note ts = py_str_of_int_chars [OF assms(4)]
  have h: "\<forall>c \<in> set h. c \<noteq> CHR '';'' \<and> \<not> py_space c" using assms(3) by (simp add: cookie_token_def)
  have tsc: "\<forall>c \<in> set ts. c \<noteq> CHR '';'' \<and> c \<noteq> CHR ''|'' \<and> c \<noteq> CHR 0x22 \<and> \<not> py_space c"
    using ts(2) digit_sign_chars by blast
  have v1: "\<forall>c \<in> set ?v. c \<noteq> CHR '';'' \<and> \<not> py_space c"
  proof
    fix c assume "c \<in> set ?v"
    then consider "c \<in> set ts" | "c = CHR ''|''" | "c \<in> set h" by auto
    then show "c \<noteq> CHR '';'' \<and> \<not> py_space c" using tsc h by cases auto
  qed
  have v2: "hd ?v \<noteq> CHR 0x22"
    using ts(1) tsc by (cases ts) simp_all
  have pc: "parse_cookie (Some (pin_cookie_name d @ ''='' @ ?v)) = [(pin_cookie_name d, ?v)]"
    using assms(2) v1 v2 by (intro parse_cookie_single) simp_all
  have tw: "takeWhile (\<lambda>c. c \<noteq> CHR ''|'') ?v = ts"
    using tsc by (simp add: takeWhile_append2)
  have dw: "dropWhile (\<lambda>c. c \<noteq> CHR ''|'') ?v = ''|'' @ h"
    using tsc by (simp add: dropWhile_append2)
  have bar: "CHR ''|'' \<in> set ?v" by simp
  show ?thesis
    unfolding check_pin_trust_def assms(1) assms(5) pc
    using py_int_of_str_of_int [OF assms(4)] tw dw bar by simp
qed

text \<open>C33: round trip of the PIN cookie. A PIN request from a trusted host, with no
  trusted cookie yet, fewer than eleven failures recorded and the right PIN (up to
  surrounding spaces and dashes), resets the failure count and answers
  \<^verbatim>\<open>{"auth": true, "exhausted": false}\<close> with exactly one \<^verbatim>\<open>Set-Cookie\<close> header. A
  later request whose \<^verbatim>\<open>Cookie\<close> header sends back its \<open>name=value\<close> part is
  trusted exactly while it arrives less than a week (\<open>PIN_TIME\<close>) after the PIN
  request.\<close>

theorem pin_cookie_roundtrip:
  assumes "check_host_trust d req" and "dbg_pin d = Some pin" and "check_pin_trust d req = Some False"
    and "unat (failed_pin_auth d) \<le> 10" and "args_get (query req) ''pin'' = Some p"
    and "strip_dashes (py_strip p) = strip_dashes pin"
    and "cookie_token (pin_cookie_name d)" and "cookie_token (hash_pin d pin)"
    and "py_str_of_int (arrival req) = Inr ts"
    and "header_get (req_headers req2) ''Cookie'' = Some (pin_cookie_name d @ ''='' @ ts @ ''|'' @ hash_pin d pin)"
  shows "pin_auth d req =
           (d\<lparr>failed_pin_auth := 0\<rparr>,
            (pin_auth_response True False)\<lparr>headers :=
               [(''Set-Cookie'', pin_cookie_name d @ ''='' @ ts @ ''|'' @ hash_pin d pin
                                 @ ''; HttpOnly; Path=/; SameSite=Strict'')]\<rparr>)
         \<and> check_pin_trust (d\<lparr>failed_pin_auth := 0\<rparr>) req2 = Some (arrival req2 < arrival req + PIN_TIME)"
proof
  show "pin_auth d req = (d\<lparr>failed_pin_auth := 0\<rparr>,
            (pin_auth_response True False)\<lparr>headers :=
               [(''Set-Cookie'', pin_cookie_name d @ ''='' @ ts @ ''|'' @ hash_pin d pin
                                 @ ''; HttpOnly; Path=/; SameSite=Strict'')]\<rparr>)"
    using assms(1-6,9) by (simp add: pin_auth_def set_pin_cookie_def pin_str_def pin_auth_response_def
        plain_response_def)
  have "check_pin_trust (d\<lparr>failed_pin_auth := 0\<rparr>) req2
          = (if hash_pin d pin = hash_pin (d\<lparr>failed_pin_auth := 0\<rparr>) pin
             then Some (arrival req2 - PIN_TIME < arrival req) else None)"
    by (rule check_pin_trust_cookie) (use assms(2,7-10) in simp_all)
  then show "check_pin_trust (d\<lparr>failed_pin_auth := 0\<rparr>) req2 = Some (arrival req2 < arrival req + PIN_TIME)"
    by auto
qed


end
