(* ===== verification/Environ.thy ===== *)
theory Environ
  imports Prelude
begin

text \<open>
  The process environment as the module sees it: \<^verbatim>\<open>os.getenv\<close> (used at
  \<^verbatim>\<open>app.py\<close> lines 11 and 20) and python-dotenv's \<^verbatim>\<open>load_dotenv()\<close> (line 8), which
  copies the bindings of a \<^verbatim>\<open>.env\<close> file into \<^verbatim>\<open>os.environ\<close> without overriding
  variables that are already set, after expanding \<^verbatim>\<open>${NAME}\<close> and
  \<^verbatim>\<open>${NAME:-default}\<close> references in the values. The \<^verbatim>\<open>.env\<close> file enters as the list
  of bindings its parser yields, in file order (\<^verbatim>\<open>KEY=value\<close> gives
  \<open>(KEY, Some value)\<close>, a bare \<^verbatim>\<open>KEY\<close> gives \<open>(KEY, None)\<close>; no file gives the empty
  list).
\<close>

subsection \<open>os.getenv\<close>

definition getenv :: "env \<Rightarrow> string \<Rightarrow> pyobj \<Rightarrow> pyobj" where
  "getenv e k dflt = (case e k of Some v \<Rightarrow> PyStr v | None \<Rightarrow> dflt)"

subsection \<open>Variable expansion (dotenv.variables)\<close>

type_synonym binding = "string \<times> string option"

text \<open>
  \<^verbatim>\<open>_posix_variable\<close> matched right after \<^verbatim>\<open>${\<close>: a name of characters other than
  \<^verbatim>\<open>}\<close> and \<^verbatim>\<open>:\<close>, then either \<^verbatim>\<open>}\<close> or \<^verbatim>\<open>:-\<close>, a default of characters other than
  \<^verbatim>\<open>}\<close>, and \<^verbatim>\<open>}\<close>. Both repetitions are greedy and no shorter choice can be followed
  by the next token, so the match is unique. The result is the name, the default and the
  text after the closing brace.
\<close>

definition match_var :: "string \<Rightarrow> (string \<times> string option \<times> string) option" where
  "match_var s =
     (let name = takeWhile (\<lambda>c. c \<noteq> CHR ''}'' \<and> c \<noteq> CHR '':'') s;
          r = dropWhile (\<lambda>c. c \<noteq> CHR ''}'' \<and> c \<noteq> CHR '':'') s
      in case r of
           [] \<Rightarrow> None
         | c # r1 \<Rightarrow>
             if c = CHR ''}'' then Some (name, None, r1)
             else (case r1 of
                     d # r2 \<Rightarrow>
                       if d = CHR ''-'' then
                         (let dflt = takeWhile (\<lambda>c. c \<noteq> CHR ''}'') r2;
                              r3 = dropWhile (\<lambda>c. c \<noteq> CHR ''}'') r2
                          in case r3 of [] \<Rightarrow> None | _ # rest \<Rightarrow> Some (name, Some dflt, rest))
                       else None
                   | [] \<Rightarrow> None))"

lemma match_var_shorter:
  assumes "match_var s = Some (n, d, rest)"
  shows "length rest < length s"
  using assms
  by (auto simp: match_var_def Let_def split: list.splits if_splits
      dest!: dropWhile_Cons_shorter)

text \<open>
  \<^verbatim>\<open>Variable.resolve\<close>: the environment of an expansion is the bindings resolved so far
  updated with \<^verbatim>\<open>os.environ\<close> (so the process environment wins, \<^verbatim>\<open>override=False\<close>);
  a missing name gives the default, or the empty string without one, and a name bound
  to \<^verbatim>\<open>None\<close> gives the empty string.
\<close>

definition resolve_var ::
  "env \<Rightarrow> (string \<times> string option) list \<Rightarrow> string \<Rightarrow> string option \<Rightarrow> string" where
  "resolve_var os nv name dflt =
     (case os name of
        Some v \<Rightarrow> v
      | None \<Rightarrow> (case map_of nv name of
                   Some (Some v) \<Rightarrow> v
                 | Some None \<Rightarrow> []
                 | None \<Rightarrow> (case dflt of Some d \<Rightarrow> d | None \<Rightarrow> [])))"

text \<open>
  \<^verbatim>\<open>parse_variables\<close> and the join of the resolved atoms: literal text is kept, every
  match of \<^verbatim>\<open>${...}\<close> is replaced by its resolution, scanning left to right as
  \<^verbatim>\<open>finditer\<close> does.
\<close>

function interpolate :: "env \<Rightarrow> (string \<times> string option) list \<Rightarrow> string \<Rightarrow> string" where
  "interpolate os nv [] = []"
| "interpolate os nv (c # cs) =
     (if c = CHR ''$'' \<and> cs \<noteq> [] \<and> hd cs = CHR ''{'' then
        (case match_var (tl cs) of
           Some (name, dflt, rest) \<Rightarrow> resolve_var os nv name dflt @ interpolate os nv rest
         | None \<Rightarrow> c # interpolate os nv cs)
      else c # interpolate os nv cs)"
  by pat_completeness auto
termination
  by (relation "measure (\<lambda>(os, nv, s). length s)")
    (auto dest!: match_var_shorter simp: length_tl)

text \<open>\<^verbatim>\<open>resolve_variables\<close>: each value is expanded against the bindings before it.\<close>

fun resolve_bindings ::
  "env \<Rightarrow> (string \<times> string option) list \<Rightarrow> binding list \<Rightarrow> (string \<times> string option) list" where
  "resolve_bindings os nv [] = nv"
| "resolve_bindings os nv ((k, v) # bs) =
     resolve_bindings os (od_set nv k (map_option (interpolate os nv) v)) bs"

definition resolve_variables :: "env \<Rightarrow> binding list \<Rightarrow> (string \<times> string option) list" where
  "resolve_variables os bs = resolve_bindings os [] bs"

subsection \<open>load_dotenv\<close>

text \<open>
  \<^verbatim>\<open>DotEnv.set_as_environment_variables\<close> with \<^verbatim>\<open>override=False\<close>: a key already in
  \<^verbatim>\<open>os.environ\<close> is skipped, a key bound to \<^verbatim>\<open>None\<close> is not set.
\<close>

fun set_as_environment_variables :: "(string \<times> string option) list \<Rightarrow> env \<Rightarrow> env" where
  "set_as_environment_variables [] e = e"
| "set_as_environment_variables ((k, v) # d) e =
     set_as_environment_variables d
       (if e k \<noteq> None then e else (case v of None \<Rightarrow> e | Some s \<Rightarrow> e(k \<mapsto> s)))"

definition load_dotenv :: "binding list \<Rightarrow> env \<Rightarrow> env" where
  "load_dotenv bs e = set_as_environment_variables (resolve_variables e bs) e"

text \<open>
  The abstract contract of \<^verbatim>\<open>load_dotenv\<close>: the file assigns a key when the last
  binding of that key carries a value.
\<close>

definition dotenv_assigns :: "binding list \<Rightarrow> string \<Rightarrow> bool" where
  "dotenv_assigns bs k \<longleftrightarrow> (case map_of (rev bs) k of Some (Some _) \<Rightarrow> True | _ \<Rightarrow> False)"

subsection \<open>Properties of the environment operations\<close>

lemma set_as_environment_variables_keeps:
  "e k = Some v \<Longrightarrow> set_as_environment_variables d e k = Some v"
proof (induction d e rule: set_as_environment_variables.induct)
  case (2 k' v' d e)
  have "(if e k' \<noteq> None then e else (case v' of None \<Rightarrow> e | Some s \<Rightarrow> e(k' \<mapsto> s))) k = Some v"
    using "2.prems" by (auto split: option.splits)
  then show ?case using "2.IH" by simp
qed simp

lemma set_as_environment_variables_eq:
  "distinct (map fst d) \<Longrightarrow>
   set_as_environment_variables d e k =
     (case e k of Some v \<Rightarrow> Some v
      | None \<Rightarrow> (case map_of d k of Some (Some s) \<Rightarrow> Some s | _ \<Rightarrow> None))"
proof (induction d e rule: set_as_environment_variables.induct)
  case (1 e)
  then show ?case by (simp split: option.splits)
next
  case (2 k' v d e)
  then have "map_of d k' = None" and "distinct (map fst d)"
    by (auto simp: map_of_eq_None_iff)
  with "2.IH" show ?case
    by (auto split: option.splits)
qed

lemma resolve_bindings_distinct:
  "distinct (map fst nv) \<Longrightarrow> distinct (map fst (resolve_bindings os nv bs))"
  by (induction os nv bs rule: resolve_bindings.induct) auto

lemma resolve_bindings_keys:
  "fst ` set (resolve_bindings os nv bs) = fst ` set nv \<union> fst ` set bs"
  by (induction os nv bs rule: resolve_bindings.induct) auto

lemma resolve_bindings_other:
  "k \<notin> fst ` set bs \<Longrightarrow> map_of (resolve_bindings os nv bs) k = map_of nv k"
  by (induction os nv bs rule: resolve_bindings.induct) auto

lemma resolve_bindings_last:
  "map_of (rev bs) k = Some v \<Longrightarrow>
   \<exists>nv'. map_of (resolve_bindings os nv bs) k = Some (map_option (interpolate os nv') v)"
proof (induction os nv bs rule: resolve_bindings.induct)
  case (1 os nv)
  then show ?case by simp
next
  case (2 os nv k' v' bs)
  show ?case
  proof (cases "map_of (rev bs) k")
    case (Some w)
    with "2.prems" have "w = v" by (simp add: map_of_append)
    with Some "2.IH" show ?thesis by simp
  next
    case None
    with "2.prems" have "k = k'" and "v = v'"
      by (auto simp: map_of_append split: if_splits)
    moreover from None have "k \<notin> fst ` set bs"
      by (simp add: map_of_eq_None_iff)
    ultimately show ?thesis
      by (auto simp: resolve_bindings_other)
  qed
qed

lemma interpolate_no_dollar:
  "CHR ''$'' \<notin> set s \<Longrightarrow> interpolate os nv s = s"
  by (induction os nv s rule: interpolate.induct) auto


lemma resolve_variables_assigns:
  "(\<exists>s. map_of (resolve_variables e bs) k = Some (Some s)) \<longleftrightarrow> dotenv_assigns bs k"
proof (cases "map_of (rev bs) k")
  case None
  then have "k \<notin> fst ` set bs" by (simp add: map_of_eq_None_iff)
  then have "map_of (resolve_variables e bs) k = None"
    by (simp add: resolve_variables_def resolve_bindings_other)
  with None show ?thesis by (simp add: dotenv_assigns_def)
next
  case (Some v)
  then obtain nv' where "map_of (resolve_variables e bs) k = Some (map_option (interpolate e nv') v)"
    using resolve_bindings_last unfolding resolve_variables_def by blast
  with Some show ?thesis by (cases v) (simp_all add: dotenv_assigns_def)
qed

text \<open>Refinement: \<^verbatim>\<open>load_dotenv\<close> computes, key by key, "keep the process value, else the
  expanded value of the file's last binding".\<close>

lemma load_dotenv_eq:
  "load_dotenv bs e k =
     (case e k of Some v \<Rightarrow> Some v
      | None \<Rightarrow> (case map_of (resolve_variables e bs) k of Some (Some s) \<Rightarrow> Some s | _ \<Rightarrow> None))"
  unfolding load_dotenv_def resolve_variables_def
  by (rule set_as_environment_variables_eq) (simp add: resolve_bindings_distinct)

lemma set_as_environment_variables_fixed:
  "\<forall>(k, v) \<in> set d. v \<noteq> None \<longrightarrow> e k \<noteq> None \<Longrightarrow> set_as_environment_variables d e = e"
  by (induction d e rule: set_as_environment_variables.induct) (auto split: option.splits)

lemma load_dotenv_fixed:
  assumes "\<forall>k. dotenv_assigns bs k \<longrightarrow> e k \<noteq> None"
  shows "load_dotenv bs e = e"
proof (rule ext)
  fix k
  show "load_dotenv bs e k = e k"
  proof (cases "e k")
    case None
    with assms have "\<not> dotenv_assigns bs k" by auto
    then have "\<nexists>s. map_of (resolve_variables e bs) k = Some (Some s)"
      by (simp add: resolve_variables_assigns)
    with None show ?thesis by (auto simp: load_dotenv_eq split: option.splits)
  qed (simp add: load_dotenv_eq)
qed

theorem load_dotenv_keeps:
  "e k = Some v \<Longrightarrow> load_dotenv bs e k = Some v"
  by (simp add: load_dotenv_eq)

theorem load_dotenv_dom:
  "dom (load_dotenv bs e) = dom e \<union> {k. dotenv_assigns bs k}"
proof (rule set_eqI)
  fix k
  show "k \<in> dom (load_dotenv bs e) \<longleftrightarrow> k \<in> dom e \<union> {k. dotenv_assigns bs k}"
    using resolve_variables_assigns [of e bs k]
    by (auto simp: load_dotenv_eq split: option.splits)
qed

theorem load_dotenv_idem:
  "load_dotenv bs (load_dotenv bs e) = load_dotenv bs e"
proof (rule ext)
  fix k
  show "load_dotenv bs (load_dotenv bs e) k = load_dotenv bs e k"
  proof (cases "load_dotenv bs e k")
    case None
    then have "\<not> dotenv_assigns bs k"
      using load_dotenv_dom [of bs e] by blast
    then have "\<nexists>s. map_of (resolve_variables (load_dotenv bs e) bs) k = Some (Some s)"
      by (simp add: resolve_variables_assigns)
    with None show ?thesis
      by (auto simp: load_dotenv_eq [of bs "load_dotenv bs e"] split: option.splits)
  next
    case (Some v)
    then show ?thesis by (simp add: load_dotenv_keeps)
  qed
qed

text \<open>C18. A variable that the process environment does not set and whose last
  binding in the \<^verbatim>\<open>.env\<close> file has a value without \<^verbatim>\<open>$\<close> gets exactly that value.\<close>

theorem load_dotenv_literal:
  assumes "e k = None" and "map_of (rev bs) k = Some (Some s)" and "CHR ''$'' \<notin> set s"
  shows "load_dotenv bs e k = Some s"
proof -
  obtain nv' where "map_of (resolve_variables e bs) k = Some (map_option (interpolate e nv') (Some s))"
    using resolve_bindings_last [OF assms(2)] unfolding resolve_variables_def by blast
  with assms(1,3) show ?thesis
    by (simp add: load_dotenv_eq interpolate_no_dollar)
qed

theorem load_dotenv_literal_witness:
  "Map.empty ''HOST'' = (None :: string option) \<and>
   map_of (rev [(''HOST'', Some ''0.0.0.0''), (''PORT'', Some ''8080'')]) ''HOST''
     = Some (Some ''0.0.0.0'') \<and>
   CHR ''$'' \<notin> set ''0.0.0.0'' \<and>
   load_dotenv [(''HOST'', Some ''0.0.0.0''), (''PORT'', Some ''8080'')] Map.empty ''HOST''
     = Some ''0.0.0.0''"
  using load_dotenv_literal [of Map.empty "''HOST''"
      "[(''HOST'', Some ''0.0.0.0''), (''PORT'', Some ''8080'')]" "''0.0.0.0''"]
  by simp

end
