(* ===== verification/Server.thy ===== *)
theory Server
  imports Debugger Environ
begin

text \<open>
  \<^verbatim>\<open>app.run(host, port, debug)\<close> (\<^verbatim>\<open>app.py\<close> line 21): Flask's \<^verbatim>\<open>run\<close>
  (the \<^verbatim>\<open>FLASK_RUN_FROM_CLI\<close> guard, its own \<^verbatim>\<open>.flaskenv\<close>/\<^verbatim>\<open>.env\<close> loading,
  the debug flag, the server options) and Werkzeug's \<^verbatim>\<open>run_simple\<close>/\<^verbatim>\<open>make_server\<close>
  up to the bound listening socket. Ports are 16-bit words. The operating system enters
  through a \<open>net\<close> record: what \<^verbatim>\<open>getaddrinfo\<close> makes of a numeric port (\<open>None\<close>
  when it raises \<^verbatim>\<open>socket.gaierror\<close>, which Werkzeug's \<^verbatim>\<open>get_sockaddr\<close> catches),
  which ports are in use, the port the kernel picks for port 0, the descriptor number
  of a newly bound server socket (\<open>listen_fd\<close>, as \<^verbatim>\<open>srv.fileno()\<close> reports it: a C
  \<^verbatim>\<open>int\<close>), for a descriptor inherited from a parent process the port its socket is bound
  to (\<open>None\<close> when it is not an open socket), and the number of the duplicate
  descriptor that \<^verbatim>\<open>socket.fromfd\<close> makes of an inherited one (\<open>dup_fd\<close>).
  For the debugger it also gives the random secret (\<^verbatim>\<open>gen_salt(20)\<close>), the nine
  digits of the PIN hashed from the machine, the name of the PIN cookie (also hashed
  from the machine), \<^verbatim>\<open>hash_pin\<close> (SHA-1 of the PIN with a fixed suffix, cut to
  12 hex digits) and the platform's \<^verbatim>\<open>mimetypes.guess_type\<close>.
\<close>

type_synonym port = "16 word"

record net =
  resolve_port :: "int \<Rightarrow> port option"
  port_in_use :: "port \<Rightarrow> bool"
  ephemeral_port :: port
  listen_fd :: "32 word"
  inherited :: "int \<Rightarrow> port option"
  dup_fd :: "32 word"
  dbg_salt :: string
  machine_pin :: string
  cookie_name :: string
  pin_hash :: "string \<Rightarrow> string"
  guess_type :: "string \<Rightarrow> string"

record server =
  srv_app :: flask_app
  srv_host :: string
  srv_port :: port
  use_reloader :: bool
  use_debugger :: bool
  threaded :: bool
  srv_dbg :: debugger

definition C_LONG_MIN :: int where "C_LONG_MIN = - (2 ^ 63)"
definition C_LONG_MAX :: int where "C_LONG_MAX = 2 ^ 63 - 1"

text \<open>
  \<^verbatim>\<open>BaseWSGIServer.__init__\<close> without an inherited socket: \<^verbatim>\<open>get_sockaddr\<close> passes the
  port to \<^verbatim>\<open>socket.getaddrinfo\<close> (which first converts it to a C \<^verbatim>\<open>long\<close>) and falls
  back to \<open>(host, port)\<close> on \<^verbatim>\<open>gaierror\<close>; \<^verbatim>\<open>socket.bind\<close> refuses a port outside
  \<open>0..65535\<close> with \<^verbatim>\<open>OverflowError\<close>; a bind failure with \<^verbatim>\<open>EADDRINUSE\<close> is printed
  and ends the process with \<^verbatim>\<open>sys.exit(1)\<close>. Port 0 asks the kernel for a free port.
\<close>

definition make_server :: "net \<Rightarrow> int \<Rightarrow> port res" where
  "make_server n p =
     (if p < C_LONG_MIN \<or> C_LONG_MAX < p
      then Inl (OverflowError ''Python int too large to convert to C long'')
      else
        let q = (case resolve_port n p of Some w \<Rightarrow> uint w | None \<Rightarrow> p)
        in if q < 0 \<or> 65535 < q then Inl (OverflowError ''bind(): port must be 0-65535.'')
           else (let w = (word_of_int q :: port)
                 in if w = 0 then Inr (ephemeral_port n)
                    else if port_in_use n w then Inl (SystemExit 1)
                    else Inr w))"

text \<open>
  The same constructor given the descriptor of a socket set up by a parent process
  (\<^verbatim>\<open>fd\<close>): the address is still computed (and the port converted to a C \<^verbatim>\<open>long\<close>),
  but instead of binding, the server takes the inherited socket
  (\<^verbatim>\<open>socket.fromfd\<close>, \<^verbatim>\<open>EBADF\<close> when the descriptor is not open) and listens on its port.
  The result is the server's port and the descriptor of its socket.
\<close>

definition make_server_fd :: "net \<Rightarrow> int option \<Rightarrow> int \<Rightarrow> (port \<times> 32 word) res" where
  "make_server_fd n fd p =
     (case fd of
        None \<Rightarrow> bindE (make_server n p) (\<lambda>w. Inr (w, listen_fd n))
      | Some d \<Rightarrow>
          if p < C_LONG_MIN \<or> C_LONG_MAX < p
          then Inl (OverflowError ''Python int too large to convert to C long'')
          else (case inherited n d of
                  Some q \<Rightarrow> Inr (q, dup_fd n)
                | None \<Rightarrow> Inl (OSError ''[Errno 9] Bad file descriptor'')))"

text \<open>\<^verbatim>\<open>run_simple\<close>'s choice of socket: inside a reloader child
  (\<^verbatim>\<open>WERKZEUG_RUN_MAIN=true\<close>) it is \<^verbatim>\<open>int(os.environ["WERKZEUG_SERVER_FD"])\<close>, which
  raises \<^verbatim>\<open>KeyError\<close> or \<^verbatim>\<open>ValueError\<close>; otherwise a new socket is bound.\<close>

definition server_fd :: "env \<Rightarrow> int option res" where
  "server_fd e =
     (if e ''WERKZEUG_RUN_MAIN'' = Some ''true'' then
        (case e ''WERKZEUG_SERVER_FD'' of
           None \<Rightarrow> Inl (KeyError ''WERKZEUG_SERVER_FD'')
         | Some v \<Rightarrow> bindE (py_int_of_str v) (\<lambda>d. Inr (Some d)))
      else Inr None)"

datatype run_result = NotStarted | Started server

text \<open>
  \<^verbatim>\<open>Flask.run(host, port, debug)\<close>: under the \<^verbatim>\<open>flask run\<close> command
  (\<^verbatim>\<open>FLASK_RUN_FROM_CLI=true\<close>) it returns at once; otherwise it loads the
  \<^verbatim>\<open>.flaskenv\<close> and \<^verbatim>\<open>.env\<close> of the working directory without overriding
  (\<open>fdata\<close> is their merged bindings), sets \<^verbatim>\<open>app.debug\<close> from \<^verbatim>\<open>FLASK_DEBUG\<close>
  and then from the \<^verbatim>\<open>debug\<close> argument, and calls \<^verbatim>\<open>run_simple\<close> with the reloader
  and the debugger following \<^verbatim>\<open>debug\<close> and \<^verbatim>\<open>threaded=True\<close>. A port given as
  \<^verbatim>\<open>int\<close> passes the \<^verbatim>\<open>isinstance\<close> check of \<^verbatim>\<open>run_simple\<close>, which then sets up
  the socket and records its descriptor in \<^verbatim>\<open>WERKZEUG_SERVER_FD\<close>, for a reloader child
  to inherit.
\<close>

text \<open>The server \<^verbatim>\<open>run_simple\<close> starts: the application (behind the debugger
  when \<^verbatim>\<open>use_debugger\<close>), the address, the reloader and debugger flags and
  \<^verbatim>\<open>threaded=True\<close>. The debugger reads its PIN from the environment.\<close>

definition started :: "net \<Rightarrow> env \<Rightarrow> flask_app \<Rightarrow> string \<Rightarrow> port \<Rightarrow> bool \<Rightarrow> server" where
  "started n e a h w dbg =
     \<lparr>srv_app = a, srv_host = h, srv_port = w, use_reloader = dbg, use_debugger = dbg, threaded = True,
      srv_dbg = new_debugger (dbg_salt n) (pin_of_env e (machine_pin n)) (cookie_name n) (pin_hash n) (guess_type n) h\<rparr>"

definition flask_run ::
  "net \<Rightarrow> (string \<times> string option) list \<Rightarrow> env \<Rightarrow> flask_app \<Rightarrow> string \<Rightarrow> int \<Rightarrow> bool
   \<Rightarrow> (env \<times> run_result) res" where
  "flask_run n fdata e a h p dbg =
     (if e ''FLASK_RUN_FROM_CLI'' = Some ''true'' then Inr (e, NotStarted)
      else
        let e1 = set_as_environment_variables fdata e;
            a1 = (if e1 ''FLASK_DEBUG'' \<noteq> None then a\<lparr>debug := get_debug_flag e1\<rparr> else a);
            a2 = a1\<lparr>debug := dbg\<rparr>
        in bindE (server_fd e1) (\<lambda>fd.
           bindE (make_server_fd n fd p)
             (\<lambda>(w, sfd). Inr (e1(''WERKZEUG_SERVER_FD'' \<mapsto> nat_digits (unat sfd)),
                                Started (started n e1 a2 h w dbg)))))"

text \<open>A running server handles one request: with the debugger, through
  \<^verbatim>\<open>DebuggedApplication\<close>, whose state it keeps; without, straight to the application.
  \<open>serve\<close> is the answer; requests of a threaded server are taken one after another
  (\<open>serve_trace\<close>).\<close>

definition serve_step :: "server \<Rightarrow> request \<Rightarrow> server \<times> response" where
  "serve_step s req =
     (if use_debugger s
      then (let (d, r) = debugger_call (srv_dbg s) (wsgi_app (srv_app s)) req in (s\<lparr>srv_dbg := d\<rparr>, r))
      else (s, wsgi_app (srv_app s) req))"

definition serve :: "server \<Rightarrow> request \<Rightarrow> response" where
  "serve s req = snd (serve_step s req)"

fun serve_trace :: "server \<Rightarrow> request list \<Rightarrow> server \<times> response list" where
  "serve_trace s [] = (s, [])"
| "serve_trace s (req # reqs) =
     (let (s1, r) = serve_step s req; (s2, rs) = serve_trace s1 reqs in (s2, r # rs))"

subsection \<open>The bound port\<close>

lemma uint_word_of_int_port: "0 \<le> p \<Longrightarrow> p \<le> 65535 \<Longrightarrow> uint (word_of_int p :: port) = p"
  by (simp add: uint_word_of_int_eq take_bit_int_eq_self)

lemma make_server_port:
  assumes "0 < p" and "p \<le> 65535" and "resolve_port n p = Some (word_of_int p)"
    and "make_server n p = Inr w"
  shows "uint w = p"
proof -
  have u: "uint (word_of_int p :: port) = p" using assms(1,2) by (simp add: uint_word_of_int_port)
  then have "(word_of_int p :: port) \<noteq> 0" using assms(1) by auto
  with assms u show ?thesis
    by (auto simp: make_server_def C_LONG_MIN_def C_LONG_MAX_def Let_def split: if_splits)
qed

lemma make_server_zero:
  "resolve_port n 0 = Some 0 \<Longrightarrow> make_server n 0 = Inr (ephemeral_port n)"
  by (simp add: make_server_def C_LONG_MIN_def C_LONG_MAX_def)

lemma make_server_unresolved_out_of_range:
  "resolve_port n p = None \<Longrightarrow> p < 0 \<or> 65535 < p \<Longrightarrow> \<exists>msg. make_server n p = Inl (OverflowError msg)"
  by (auto simp: make_server_def Let_def)

lemma make_server_in_use:
  assumes "0 < p" and "p \<le> 65535" and "resolve_port n p = Some (word_of_int p)"
    and "port_in_use n (word_of_int p)"
  shows "make_server n p = Inl (SystemExit 1)"
proof -
  have u: "uint (word_of_int p :: port) = p" using assms(1,2) by (simp add: uint_word_of_int_port)
  then have "(word_of_int p :: port) \<noteq> 0" using assms(1) by auto
  with assms u show ?thesis by (simp add: make_server_def C_LONG_MIN_def C_LONG_MAX_def Let_def)
qed

lemma flask_run_from_cli:
  "e ''FLASK_RUN_FROM_CLI'' = Some ''true'' \<Longrightarrow> flask_run n fd e a h p dbg = Inr (e, NotStarted)"
  by (simp add: flask_run_def)


subsection \<open>Requests for the application\<close>

lemma serve_step_app:
  "console_path (srv_dbg s) = Some ''/console'' \<Longrightarrow> \<not> debugger_request req
   \<Longrightarrow> serve_step s req = (s, wsgi_app (srv_app s) req)"
  by (simp add: serve_step_def debugger_call_app)

lemma serve_app:
  "console_path (srv_dbg s) = Some ''/console'' \<Longrightarrow> \<not> debugger_request req
   \<Longrightarrow> serve s req = wsgi_app (srv_app s) req"
  by (simp add: serve_def serve_step_app)


text \<open>Serving changes only the debugger's frames and failure count.\<close>

lemma serve_step_keeps:
  "srv_app (fst (serve_step s req)) = srv_app s"
  "console_path (srv_dbg (fst (serve_step s req))) = console_path (srv_dbg s)"
  "use_debugger (fst (serve_step s req)) = use_debugger s"
  "evalex (srv_dbg (fst (serve_step s req))) = evalex (srv_dbg s)"
  "dbg_secret (srv_dbg (fst (serve_step s req))) = dbg_secret (srv_dbg s)"
  "dbg_pin (srv_dbg (fst (serve_step s req))) = dbg_pin (srv_dbg s)"
  "pin_cookie_name (srv_dbg (fst (serve_step s req))) = pin_cookie_name (srv_dbg s)"
  "hash_pin (srv_dbg (fst (serve_step s req))) = hash_pin (srv_dbg s)"
  "trusted_hosts (srv_dbg (fst (serve_step s req))) = trusted_hosts (srv_dbg s)"
  by (simp_all add: serve_step_def split_beta debugger_call_console_path)

lemma serve_trace_keeps:
  "srv_app (fst (serve_trace s reqs)) = srv_app s"
  "console_path (srv_dbg (fst (serve_trace s reqs))) = console_path (srv_dbg s)"
  "use_debugger (fst (serve_trace s reqs)) = use_debugger s"
  "evalex (srv_dbg (fst (serve_trace s reqs))) = evalex (srv_dbg s)"
  "dbg_secret (srv_dbg (fst (serve_trace s reqs))) = dbg_secret (srv_dbg s)"
  "dbg_pin (srv_dbg (fst (serve_trace s reqs))) = dbg_pin (srv_dbg s)"
  "pin_cookie_name (srv_dbg (fst (serve_trace s reqs))) = pin_cookie_name (srv_dbg s)"
  "hash_pin (srv_dbg (fst (serve_trace s reqs))) = hash_pin (srv_dbg s)"
  "trusted_hosts (srv_dbg (fst (serve_trace s reqs))) = trusted_hosts (srv_dbg s)"
  by (induction reqs arbitrary: s) (simp_all add: split_beta serve_step_keeps)

lemma check_trust_cong:
  "trusted_hosts d' = trusted_hosts d \<Longrightarrow> check_host_trust d' req = check_host_trust d req"
  by (simp add: check_host_trust_def)

lemma check_pin_trust_cong:
  assumes "dbg_pin d' = dbg_pin d" and "pin_cookie_name d' = pin_cookie_name d" and "hash_pin d' = hash_pin d"
  shows "check_pin_trust d' req = check_pin_trust d req"
  unfolding check_pin_trust_def assms ..

text \<open>Whether a request's PIN cookie is trusted does not depend on earlier requests.\<close>

lemma serve_step_pin_trust:
  "check_pin_trust (srv_dbg (fst (serve_step s req))) r = check_pin_trust (srv_dbg s) r"
  by (rule check_pin_trust_cong) (simp_all add: serve_step_keeps)

lemma serve_trace_pin_trust:
  "check_pin_trust (srv_dbg (fst (serve_trace s reqs))) r = check_pin_trust (srv_dbg s) r"
  by (rule check_pin_trust_cong) (simp_all add: serve_trace_keeps)

text \<open>A console frame exists only once some request has had the console page shown.\<close>

lemma serve_trace_frames:
  "frames (srv_dbg (fst (serve_trace s reqs))) \<subseteq> insert 0 (frames (srv_dbg s))
   \<and> (0 \<in> frames (srv_dbg (fst (serve_trace s reqs)))
      \<longrightarrow> 0 \<in> frames (srv_dbg s) \<or> (\<exists>r \<in> set reqs. console_path (srv_dbg s) = Some (path r)
           \<and> args_get (query r) ''__debugger__'' \<noteq> Some ''yes'' \<and> check_host_trust (srv_dbg s) r))"
proof (induction reqs arbitrary: s)
  case (Cons r reqs)
  let ?s1 = "fst (serve_step s r)"
  have f1: "frames (srv_dbg ?s1) \<subseteq> insert 0 (frames (srv_dbg s))"
    and o1: "0 \<in> frames (srv_dbg ?s1) \<Longrightarrow> 0 \<in> frames (srv_dbg s) \<or> (console_path (srv_dbg s) = Some (path r)
           \<and> args_get (query r) ''__debugger__'' \<noteq> Some ''yes'' \<and> check_host_trust (srv_dbg s) r)"
    by (auto simp: serve_step_def split_beta debugger_call_frames debugger_route_DisplayConsole
        split: if_splits)
  have t: "fst (serve_trace s (r # reqs)) = fst (serve_trace ?s1 reqs)" by (simp add: split_beta)
  have ht: "check_host_trust (srv_dbg ?s1) x = check_host_trust (srv_dbg s) x" for x
    by (rule check_trust_cong) (simp add: serve_step_keeps)
  show ?case using Cons.IH [of ?s1] f1 o1 t ht by (fastforce simp: serve_step_keeps)
qed auto

text \<open>C30: the PIN lockout is permanent. Once a server's debugger has recorded more
  than ten failed PIN attempts, any sequence of requests in which no PIN cookie has a
  wrong hash leaves the count where it is: \<^verbatim>\<open>pin_auth\<close> no longer compares the
  PIN it is sent, so guessing is over for good.\<close>

theorem serve_trace_locked:
  "10 < unat (failed_pin_auth (srv_dbg s)) \<Longrightarrow> \<forall>r \<in> set reqs. check_pin_trust (srv_dbg s) r \<noteq> None
   \<Longrightarrow> failed_pin_auth (srv_dbg (fst (serve_trace s reqs))) = failed_pin_auth (srv_dbg s)"
proof (induction reqs arbitrary: s)
  case (Cons r reqs)
  have "failed_pin_auth (srv_dbg (fst (serve_step s r))) = failed_pin_auth (srv_dbg s)"
    using Cons.prems by (simp add: serve_step_def split_beta debugger_call_locked)
  with Cons show ?case by (simp add: split_beta serve_step_pin_trust)
qed simp


lemma serve_step_debugger:
  "use_debugger s \<Longrightarrow> serve_step s req =
     (s\<lparr>srv_dbg := fst (debugger_call (srv_dbg s) (wsgi_app (srv_app s)) req)\<rparr>,
      snd (debugger_call (srv_dbg s) (wsgi_app (srv_app s)) req))"
  by (simp add: serve_step_def split_beta)

lemma serve_debugger:
  "use_debugger s \<Longrightarrow> serve s req = snd (debugger_call (srv_dbg s) (wsgi_app (srv_app s)) req)"
  by (simp add: serve_def serve_step_debugger)

end
