(* ===== verification/Firebase.thy ===== *)
theory Firebase
  imports Json Environ
begin

text \<open>
  The firebase_admin calls of \<^verbatim>\<open>app.py\<close> lines 11--13:
  \<^verbatim>\<open>credentials.Certificate(path)\<close>, \<^verbatim>\<open>firebase_admin.initialize_app(cred)\<close> and
  \<^verbatim>\<open>firestore.client()\<close>, with google-auth's service-account checks and the
  module-global registry \<^verbatim>\<open>_apps\<close> of initialised apps. What lies outside the process
  enters through a \<open>host\<close> record: the readable files and their text, the decoder
  \<^verbatim>\<open>json.loads\<close> (\<open>None\<close> for text that is not JSON), and whether a private key
  string is a PEM key the cryptography backend loads.
\<close>

record host =
  files :: "string \<rightharpoonup> string"
  json_loads :: "string \<Rightarrow> json option"
  pem_valid :: "string \<Rightarrow> bool"

subsection \<open>credentials.Certificate\<close>

record certificate =
  cert_project_id :: "json option"
  cert_client_email :: json
  cert_info :: "(string \<times> json) list"

definition has_key :: "(string \<times> json) list \<Rightarrow> string \<Rightarrow> bool" where
  "has_key kvs k \<longleftrightarrow> obj_get kvs k \<noteq> None"

definition cert_error :: string where
  "cert_error = ''Failed to initialize a certificate credential.''"

text \<open>
  \<^verbatim>\<open>Certificate.__init__\<close> on a decoded document: \<^verbatim>\<open>json_data.get('type')\<close> (an
  \<^verbatim>\<open>AttributeError\<close> on a document that is not an object) must be
  \<^verbatim>\<open>"service_account"\<close>; google-auth's \<^verbatim>\<open>from_service_account_info\<close> requires
  \<^verbatim>\<open>client_email\<close> and \<^verbatim>\<open>token_uri\<close>, then a \<^verbatim>\<open>private_key\<close> that is a string
  holding a loadable PEM key; its \<^verbatim>\<open>ValueError\<close> is re-raised as a \<^verbatim>\<open>ValueError\<close>.
\<close>

definition certificate_of_json :: "host \<Rightarrow> json \<Rightarrow> certificate res" where
  "certificate_of_json h doc =
     (case doc of
        JObj kvs \<Rightarrow>
          if obj_get kvs ''type'' \<noteq> Some (JStr ''service_account'')
          then Inl (ValueError ''Invalid service account certificate. Certificate must contain a type field set to service_account.'')
          else if \<not> has_key kvs ''client_email'' \<or> \<not> has_key kvs ''token_uri''
          then Inl (ValueError cert_error)
          else (case obj_get kvs ''private_key'' of
                  Some (JStr k) \<Rightarrow>
                    if pem_valid h k
                    then Inr \<lparr>cert_project_id = obj_get kvs ''project_id'',
                              cert_client_email = the (obj_get kvs ''client_email''),
                              cert_info = kvs\<rparr>
                    else Inl (ValueError cert_error)
                | _ \<Rightarrow> Inl (ValueError cert_error))
      | _ \<Rightarrow> Inl (AttributeError ''object has no attribute get''))"

text \<open>
  \<^verbatim>\<open>Certificate(cert)\<close>: a string is a path (\<^verbatim>\<open>pathlib.Path\<close> accepts it) that is
  opened and decoded; \<^verbatim>\<open>None\<close> or an integer is neither a path nor a \<^verbatim>\<open>dict\<close> and
  raises \<^verbatim>\<open>ValueError\<close>.
\<close>

text \<open>The message of that \<^verbatim>\<open>ValueError\<close>, which quotes the argument's \<^verbatim>\<open>str()\<close>.\<close>

definition invalid_certificate :: "string \<Rightarrow> string" where
  \<open>invalid_certificate a =
     ''Invalid certificate argument: "'' @ a @ ''". Certificate argument must be a file path, or a dict containing the parsed file contents.''\<close>

definition int_repr :: "int \<Rightarrow> string" where
  "int_repr n = (if n < 0 then CHR ''-'' # nat_digits (nat \<bar>n\<bar>) else nat_digits (nat n))"

fun Certificate :: "host \<Rightarrow> pyobj \<Rightarrow> certificate res" where
  "Certificate h (PyStr p) =
     (case files h p of
        None \<Rightarrow> Inl (FileNotFoundError ''No such file or directory'')
      | Some txt \<Rightarrow> (case json_loads h txt of
                       None \<Rightarrow> Inl (ValueError ''JSONDecodeError'')
                     | Some doc \<Rightarrow> certificate_of_json h doc))"
| "Certificate h PyNone = Inl (ValueError (invalid_certificate ''None''))"
| "Certificate h (PyInt n) = Inl (ValueError (invalid_certificate (int_repr n)))"

subsection \<open>firebase_admin.initialize_app\<close>

record fb_app =
  fb_name :: string
  fb_credential :: certificate
  fb_options :: "(string \<times> json) list"

type_synonym fb_registry = "string \<rightharpoonup> fb_app"

definition DEFAULT_APP_NAME :: string where
  "DEFAULT_APP_NAME = ''[DEFAULT]''"

definition CONFIG_VALID_KEYS :: "string set" where
  "CONFIG_VALID_KEYS = {''databaseAuthVariableOverride'', ''databaseURL'', ''httpTimeout'',
                        ''projectId'', ''storageBucket''}"

text \<open>
  \<^verbatim>\<open>_AppOptions._load_from_environment\<close>: with no options given, the options come from
  \<^verbatim>\<open>FIREBASE_CONFIG\<close>, unset or empty meaning none; a value starting with \<^verbatim>\<open>{\<close> is
  JSON text, any other value a file name. The decoded object is restricted to the valid
  keys.
\<close>

definition load_options :: "host \<Rightarrow> env \<Rightarrow> (string \<times> json) list res" where
  "load_options h e =
     (case e ''FIREBASE_CONFIG'' of
        None \<Rightarrow> Inr []
      | Some cfg \<Rightarrow>
          if cfg = [] then Inr []
          else bindE (if hd cfg = CHR ''{'' then Inr cfg
                      else (case files h cfg of
                              None \<Rightarrow> Inl (ValueError ''Unable to read file'')
                            | Some t \<Rightarrow> Inr t))
                 (\<lambda>t. case json_loads h t of
                        None \<Rightarrow> Inl (ValueError ''JSON string is not valid json'')
                      | Some (JObj kvs) \<Rightarrow> Inr (filter (\<lambda>(k, _). k \<in> CONFIG_VALID_KEYS) kvs)
                      | Some _ \<Rightarrow> Inl (AttributeError ''object has no attribute items'')))"

text \<open>
  \<^verbatim>\<open>initialize_app(credential)\<close>: the \<^verbatim>\<open>App\<close> is built first (options loaded, a
  \<^verbatim>\<open>projectId\<close> option must be \<^verbatim>\<open>None\<close>, which JSON \<^verbatim>\<open>null\<close> decodes to, or a
  string), then registered under \<^verbatim>\<open>[DEFAULT]\<close> unless an app of that name exists,
  which raises \<^verbatim>\<open>ValueError\<close>. The message of the project-id error quotes the value
  in the real code; here it is left out.
\<close>

definition DEFAULT_APP_EXISTS :: string where
  "DEFAULT_APP_EXISTS =
     ''The default Firebase app already exists. This means you called initialize_app() more than once without providing an app name as the second argument. In most cases you only need to call initialize_app() once. But if you do want to initialize multiple apps, pass a second argument to initialize_app() to give each app a unique name.''"

definition initialize_app :: "host \<Rightarrow> env \<Rightarrow> fb_registry \<Rightarrow> certificate \<Rightarrow> (fb_registry \<times> fb_app) res" where
  "initialize_app h e reg cred =
     bindE (load_options h e)
       (\<lambda>opts.
          if (case obj_get opts ''projectId'' of Some (JStr _) \<Rightarrow> False | Some JNull \<Rightarrow> False | Some _ \<Rightarrow> True
                | None \<Rightarrow> False)
          then Inl (ValueError ''Invalid project ID. project ID must be a string.'')
          else (let a = \<lparr>fb_name = DEFAULT_APP_NAME, fb_credential = cred, fb_options = opts\<rparr>
                in if reg DEFAULT_APP_NAME \<noteq> None
                   then Inl (ValueError DEFAULT_APP_EXISTS)
                   else Inr (reg(DEFAULT_APP_NAME \<mapsto> a), a)))"

subsection \<open>firestore.client\<close>

record db_client =
  db_project :: string
  db_database :: string

definition truthy_opt :: "json option \<Rightarrow> bool" where
  "truthy_opt v = (case v of None \<Rightarrow> False | Some j \<Rightarrow> py_truthy j)"

text \<open>\<^verbatim>\<open>App._lookup_project_id\<close>: the \<^verbatim>\<open>projectId\<close> option, else the credential's
  \<^verbatim>\<open>project_id\<close>, else \<^verbatim>\<open>os.environ.get('GOOGLE_CLOUD_PROJECT',
  os.environ.get('GCLOUD_PROJECT'))\<close>; each falsy value passes to the next.\<close>

definition lookup_project_id :: "env \<Rightarrow> fb_app \<Rightarrow> json option" where
  "lookup_project_id e a =
     (let p1 = obj_get (fb_options a) ''projectId'';
          p2 = (if truthy_opt p1 then p1 else cert_project_id (fb_credential a))
      in if truthy_opt p2 then p2
         else (case e ''GOOGLE_CLOUD_PROJECT'' of
                 Some v \<Rightarrow> Some (JStr v)
               | None \<Rightarrow> map_option JStr (e ''GCLOUD_PROJECT'')))"

text \<open>
  \<^verbatim>\<open>firestore.client()\<close>: the default app must exist; its project id must be truthy
  (\<^verbatim>\<open>Project ID is required to access Firestore\<close>) and a string (google-cloud's
  \<^verbatim>\<open>Project must be a string\<close>); the client is for the \<^verbatim>\<open>(default)\<close> database.
  Creating it does not contact the service.
\<close>

definition firestore_client :: "env \<Rightarrow> fb_registry \<Rightarrow> db_client res" where
  "firestore_client e reg =
     (case reg DEFAULT_APP_NAME of
        None \<Rightarrow> Inl (ValueError ''The default Firebase app does not exist.'')
      | Some a \<Rightarrow>
          (let p = lookup_project_id e a in
           if \<not> truthy_opt p then Inl (ValueError ''Project ID is required to access Firestore.'')
           else (case p of
                   Some (JStr s) \<Rightarrow> Inr \<lparr>db_project = s, db_database = ''(default)''\<rparr>
                 | _ \<Rightarrow> Inl (ValueError ''Project must be a string.''))))"

subsection \<open>Lemmas on initialisation\<close>

lemma initialize_app_Inr:
  assumes "initialize_app h e reg c = Inr (reg1, a)"
  shows "load_options h e = Inr (fb_options a)" and "reg DEFAULT_APP_NAME = None"
    and "reg1 = reg(DEFAULT_APP_NAME \<mapsto> a)" and "fb_credential a = c"
  using assms
  by (auto simp: initialize_app_def bindE_eq_Inr_iff Let_def split: if_splits option.splits json.splits)

text \<open>A second \<^verbatim>\<open>initialize_app\<close> without an app name, after a first one succeeded,
  raises \<^verbatim>\<open>ValueError\<close>, whatever credential it is given.\<close>

lemma initialize_app_twice:
  assumes "initialize_app h e reg c = Inr (reg1, a)"
  shows "initialize_app h e reg1 c' = Inl (ValueError DEFAULT_APP_EXISTS)"
proof -
  have opts: "load_options h e = Inr (fb_options a)" and r1: "reg1 = reg(DEFAULT_APP_NAME \<mapsto> a)"
    using initialize_app_Inr [OF assms] by simp_all
  from assms opts have "\<not> (case obj_get (fb_options a) ''projectId'' of
                              Some (JStr _) \<Rightarrow> False | Some JNull \<Rightarrow> False
                              | Some _ \<Rightarrow> True | None \<Rightarrow> False)"
    by (auto simp: initialize_app_def split: if_splits)
  with opts r1 show ?thesis by (simp add: initialize_app_def)
qed

lemma load_options_unset: "e ''FIREBASE_CONFIG'' = None \<Longrightarrow> load_options h e = Inr []"
  by (simp add: load_options_def)

end
