(* ===== verification/Cors.thy ===== *)
theory Cors
  imports Flask
begin

text \<open>
  flask-cors as \<^verbatim>\<open>CORS(app)\<close> (\<^verbatim>\<open>app.py\<close> line 10) installs it: an
  \<^verbatim>\<open>after_request\<close> hook that adds the CORS headers to every response, with the
  extension's default options after \<^verbatim>\<open>serialize_options\<close>: origins and allowed headers
  the wildcard regex \<^verbatim>\<open>.*\<close>, methods the default list
  \<^verbatim>\<open>GET, HEAD, POST, OPTIONS, PUT, PATCH, DELETE\<close> turned into a string by
  \<^verbatim>\<open>flexible_str\<close>, which sorts it: \<^verbatim>\<open>"DELETE, GET, HEAD, OPTIONS, PATCH, POST, PUT"\<close>;
  no exposed headers, no
  credentials, no max age, \<^verbatim>\<open>send_wildcard=False\<close>, \<^verbatim>\<open>always_send=True\<close>,
  \<^verbatim>\<open>vary_header=True\<close>, and the resource pattern \<^verbatim>\<open>/*\<close>, which
  \<^verbatim>\<open>re.match\<close> matches at the start of every path. A pattern is the wildcard regex or a
  literal string; other regular expressions are not modelled.
\<close>

datatype pattern = AnyRegex | Literal string

record cors_options =
  origins :: "pattern list"
  cors_methods :: string
  allow_headers :: "pattern list"
  expose_headers :: "string option"
  supports_credentials :: bool
  max_age :: "string option"
  send_wildcard :: bool
  always_send :: bool
  vary_header :: bool

definition default_cors_options :: cors_options where
  "default_cors_options =
     \<lparr>origins = [AnyRegex], cors_methods = ''DELETE, GET, HEAD, OPTIONS, PATCH, POST, PUT'',
      allow_headers = [AnyRegex], expose_headers = None, supports_credentials = False,
      max_age = None, send_wildcard = False, always_send = True, vary_header = True\<rparr>"

definition ACL_ORIGIN :: string where "ACL_ORIGIN = ''Access-Control-Allow-Origin''"
definition ACL_METHODS :: string where "ACL_METHODS = ''Access-Control-Allow-Methods''"
definition ACL_ALLOW_HEADERS :: string where "ACL_ALLOW_HEADERS = ''Access-Control-Allow-Headers''"
definition ACL_EXPOSE_HEADERS :: string where "ACL_EXPOSE_HEADERS = ''Access-Control-Expose-Headers''"
definition ACL_CREDENTIALS :: string where "ACL_CREDENTIALS = ''Access-Control-Allow-Credentials''"
definition ACL_MAX_AGE :: string where "ACL_MAX_AGE = ''Access-Control-Max-Age''"
definition ACL_REQUEST_METHOD :: string where "ACL_REQUEST_METHOD = ''Access-Control-Request-Method''"
definition ACL_REQUEST_HEADERS :: string where "ACL_REQUEST_HEADERS = ''Access-Control-Request-Headers''"

fun try_match :: "string \<Rightarrow> pattern \<Rightarrow> bool" where
  "try_match v AnyRegex = True"
| "try_match v (Literal p) = (py_lower v = py_lower p)"

definition try_match_any :: "string \<Rightarrow> pattern list \<Rightarrow> bool" where
  "try_match_any v ps \<longleftrightarrow> (\<exists>p \<in> set ps. try_match v p)"

definition is_wildcard :: "cors_options \<Rightarrow> bool" where
  "is_wildcard opts \<longleftrightarrow> AnyRegex \<in> set (origins opts)"

fun literal_of :: "pattern \<Rightarrow> string list" where
  "literal_of AnyRegex = []"
| "literal_of (Literal s) = [s]"

text \<open>\<^verbatim>\<open>get_cors_origins\<close>: with an \<^verbatim>\<open>Origin\<close> header (a non-empty one) the origin
  is echoed when a pattern matches it; without one, \<^verbatim>\<open>always_send\<close> sends \<^verbatim>\<open>*\<close>
  for a wildcard configuration. \<open>None\<close> stands for Python's \<^verbatim>\<open>None\<close>, which like the
  empty list sets no header.\<close>

definition get_cors_origins :: "cors_options \<Rightarrow> string option \<Rightarrow> string list option" where
  "get_cors_origins opts req_origin =
     (case req_origin of
        Some org \<Rightarrow>
          if org \<noteq> [] then
            (if is_wildcard opts \<and> send_wildcard opts then Some [''*'']
             else if try_match_any org (origins opts) then Some [org]
             else Some [])
          else if always_send opts then
            (if is_wildcard opts then (if supports_credentials opts then None else Some [''*''])
             else Some (sort (concat (map literal_of (origins opts)))))
          else None
      | None \<Rightarrow>
          if always_send opts then
            (if is_wildcard opts then (if supports_credentials opts then None else Some [''*''])
             else Some (sort (concat (map literal_of (origins opts)))))
          else None)"

text \<open>\<^verbatim>\<open>get_allow_headers\<close>: the requested headers (split at commas, stripped) that a
  pattern allows, sorted and joined; nothing without the request header.\<close>

definition strip_spaces :: "string \<Rightarrow> string" where
  "strip_spaces s = rev (dropWhile py_space (rev (dropWhile py_space s)))"

function split_commas :: "string \<Rightarrow> string list" where
  "split_commas s =
     (let w = takeWhile (\<lambda>c. c \<noteq> CHR '','') s; r = dropWhile (\<lambda>c. c \<noteq> CHR '','') s
      in case r of [] \<Rightarrow> [w] | _ # r' \<Rightarrow> w # split_commas r')"
  by pat_completeness auto
termination
  by (relation "measure length") (auto dest: dropWhile_Cons_shorter [OF sym])

definition get_allow_headers :: "cors_options \<Rightarrow> string option \<Rightarrow> string option" where
  "get_allow_headers opts acl_req_headers =
     (case acl_req_headers of
        Some hs \<Rightarrow>
          if hs \<noteq> [] then
            Some (py_join '', '' (sort (filter (\<lambda>h. try_match_any h (allow_headers opts))
                                            (map strip_spaces (split_commas hs)))))
          else None
      | None \<Rightarrow> None)"

text \<open>\<^verbatim>\<open>x in s\<close> for two strings: \<open>x\<close> is a substring of \<open>s\<close>.\<close>

definition py_in :: "string \<Rightarrow> string \<Rightarrow> bool" where
  "py_in x s \<longleftrightarrow> (\<exists>i \<le> length s. take (length x) (drop i s) = x)"

text \<open>
  \<^verbatim>\<open>get_cors_headers\<close>: one \<^verbatim>\<open>Access-Control-Allow-Origin\<close> per origin to set, the
  exposed headers and credentials flag, for a preflight (\<^verbatim>\<open>OPTIONS\<close> whose
  \<^verbatim>\<open>Access-Control-Request-Method\<close>, upper-cased, occurs in the methods string) the
  allowed headers, max age and methods, and \<^verbatim>\<open>Vary: Origin\<close> when the origin sent back
  depends on the request. Headers whose value is empty or \<^verbatim>\<open>None\<close> are dropped.
\<close>

definition opt_header :: "string \<Rightarrow> string option \<Rightarrow> (string \<times> string) list" where
  "opt_header k v = (case v of Some s \<Rightarrow> if s \<noteq> [] then [(k, s)] else [] | None \<Rightarrow> [])"

definition get_cors_headers :: "cors_options \<Rightarrow> (string \<times> string) list \<Rightarrow> string \<Rightarrow> (string \<times> string) list" where
  "get_cors_headers opts rh rm =
     (case get_cors_origins opts (header_get rh ''Origin'') of
        None \<Rightarrow> []
      | Some [] \<Rightarrow> []
      | Some os \<Rightarrow>
          let acrm = py_upper (case header_get rh ACL_REQUEST_METHOD of Some m \<Rightarrow> m | None \<Rightarrow> []);
              preflight = (rm = ''OPTIONS'' \<and> acrm \<noteq> [] \<and> py_in acrm (cors_methods opts))
          in concat (map (\<lambda>org. opt_header ACL_ORIGIN (Some org)) os)
             @ opt_header ACL_EXPOSE_HEADERS (expose_headers opts)
             @ (if supports_credentials opts then [(ACL_CREDENTIALS, ''true'')] else [])
             @ (if preflight then
                  opt_header ACL_ALLOW_HEADERS (get_allow_headers opts (header_get rh ACL_REQUEST_HEADERS))
                  @ opt_header ACL_MAX_AGE (max_age opts)
                  @ opt_header ACL_METHODS (Some (cors_methods opts))
                else [])
             @ (if vary_header opts \<and> os \<noteq> [''*''] \<and>
                   (1 < length (origins opts) \<or> 1 < length os \<or> AnyRegex \<in> set (origins opts))
                then [(''Vary'', ''Origin'')] else []))"

text \<open>\<^verbatim>\<open>cors_after_request\<close>: a response that already carries
  \<^verbatim>\<open>Access-Control-Allow-Origin\<close> is left alone; otherwise the headers are appended
  (\<^verbatim>\<open>Headers.add\<close>). The request method seen here is Werkzeug's upper-cased one.\<close>

definition cors_after_request :: "cors_options \<Rightarrow> hook" where
  "cors_after_request opts req resp =
     (if header_get (headers resp) ACL_ORIGIN \<noteq> None then resp
      else resp\<lparr>headers := headers resp @ get_cors_headers opts (req_headers req) (py_upper (req_method req))\<rparr>)"

text \<open>\<^verbatim>\<open>CORS(app)\<close>: the hook registered with the default options.\<close>

definition cors_init :: "flask_app \<Rightarrow> flask_app" where
  "cors_init app =
     app\<lparr>after_request_funcs := after_request_funcs app @ [cors_after_request default_cors_options]\<rparr>"

subsection \<open>The default configuration\<close>

text \<open>The origin \<^verbatim>\<open>CORS(app)\<close> allows for a request: its \<^verbatim>\<open>Origin\<close> when present and
  non-empty, \<^verbatim>\<open>*\<close> otherwise.\<close>

definition cors_origin :: "(string \<times> string) list \<Rightarrow> string" where
  "cors_origin rh = (case header_get rh ''Origin'' of Some org \<Rightarrow> if org \<noteq> [] then org else ''*'' | None \<Rightarrow> ''*'')"

lemma default_cors_options_simps [simp]:
  "origins default_cors_options = [AnyRegex]" "send_wildcard default_cors_options = False"
  "always_send default_cors_options = True" "supports_credentials default_cors_options = False"
  "expose_headers default_cors_options = None" "max_age default_cors_options = None"
  "vary_header default_cors_options = True"
  "cors_methods default_cors_options = ''DELETE, GET, HEAD, OPTIONS, PATCH, POST, PUT''"
  "allow_headers default_cors_options = [AnyRegex]"
  by (simp_all add: default_cors_options_def)

lemma get_cors_origins_default:
  "get_cors_origins default_cors_options ro = Some [case ro of Some org \<Rightarrow> if org \<noteq> [] then org else ''*'' | None \<Rightarrow> ''*'']"
  by (auto simp: get_cors_origins_def is_wildcard_def try_match_any_def split: option.splits)

text \<open>Every response gets \<^verbatim>\<open>Access-Control-Allow-Origin\<close> first; \<^verbatim>\<open>Vary: Origin\<close>
  comes last exactly when an origin is echoed; a preflight puts the allowed headers and
  methods between them.\<close>

lemma get_cors_headers_default:
  "get_cors_headers default_cors_options rh m =
     (ACL_ORIGIN, cors_origin rh)
     # (let acrm = py_upper (case header_get rh ACL_REQUEST_METHOD of Some x \<Rightarrow> x | None \<Rightarrow> [])
        in if m = ''OPTIONS'' \<and> acrm \<noteq> [] \<and> py_in acrm ''DELETE, GET, HEAD, OPTIONS, PATCH, POST, PUT''
           then opt_header ACL_ALLOW_HEADERS (get_allow_headers default_cors_options (header_get rh ACL_REQUEST_HEADERS))
                @ [(ACL_METHODS, ''DELETE, GET, HEAD, OPTIONS, PATCH, POST, PUT'')]
           else [])
     @ (if cors_origin rh \<noteq> ''*'' then [(''Vary'', ''Origin'')] else [])"
  by (simp add: get_cors_headers_def get_cors_origins_default cors_origin_def opt_header_def
      Let_def split: option.splits)

lemma cors_after_request_fresh:
  "header_get (headers resp) ACL_ORIGIN = None \<Longrightarrow>
   cors_after_request opts req resp =
     resp\<lparr>headers := headers resp @ get_cors_headers opts (req_headers req) (py_upper (req_method req))\<rparr>"
  by (simp add: cors_after_request_def)

text \<open>The methods header is sent exactly on a preflight.\<close>

lemma opt_header_keys: "(k, v) \<in> set (opt_header k' x) \<Longrightarrow> k = k'"
  by (auto simp: opt_header_def split: option.splits if_splits)

lemma get_cors_headers_default_methods:
  "(''Access-Control-Allow-Methods'', v) \<in> set (get_cors_headers default_cors_options rh m) \<longleftrightarrow>
   v = ''DELETE, GET, HEAD, OPTIONS, PATCH, POST, PUT'' \<and> m = ''OPTIONS''
   \<and> (let acrm = py_upper (case header_get rh ''Access-Control-Request-Method'' of Some x \<Rightarrow> x | None \<Rightarrow> [])
      in acrm \<noteq> [] \<and> py_in acrm ''DELETE, GET, HEAD, OPTIONS, PATCH, POST, PUT'')"
proof -
  have "(''Access-Control-Allow-Methods'', v) \<notin> set (opt_header ACL_ALLOW_HEADERS x)" for x
  proof
    assume "(''Access-Control-Allow-Methods'', v) \<in> set (opt_header ACL_ALLOW_HEADERS x)"
    then have "''Access-Control-Allow-Methods'' = ACL_ALLOW_HEADERS" by (rule opt_header_keys)
    then show False by (simp add: ACL_ALLOW_HEADERS_def)
  qed
  moreover have "''Access-Control-Allow-Methods'' \<noteq> ACL_ORIGIN" by (simp add: ACL_ORIGIN_def)
  ultimately show ?thesis
    unfolding get_cors_headers_default ACL_METHODS_def ACL_REQUEST_METHOD_def Let_def
    by (cases "m = ''OPTIONS''") auto
qed
end
