(* ===== verification/Backend.thy ===== *)
theory Backend
  imports Imports Server Firebase Cors
begin

text \<open>
  The module \<^verbatim>\<open>src/backend/app.py\<close> itself. Importing it runs the imports of lines 1--6 (theory \<open>Imports\<close>) and then lines 8--17 in order:
  \<^verbatim>\<open>load_dotenv()\<close>, \<^verbatim>\<open>app = Flask(__name__)\<close>, \<^verbatim>\<open>CORS(app)\<close>, the service
  credential from \<^verbatim>\<open>FIREBASE_KEY_PATH\<close>, \<^verbatim>\<open>initialize_app\<close>, \<^verbatim>\<open>db = firestore.client()\<close>
  and the registration of \<^verbatim>\<open>index\<close> at \<^verbatim>\<open>/\<close>; the first exception ends the import.
  Run as a script (\<^verbatim>\<open>__name__ == "__main__"\<close>), lines 19--21 then read
  \<^verbatim>\<open>PORT\<close> and start the development server. The module-level names \<^verbatim>\<open>app\<close>,
  \<^verbatim>\<open>cred\<close> and \<^verbatim>\<open>db\<close>, the environment and the firebase_admin registry form the
  process state \<open>proc\<close>.
\<close>

subsection \<open>The view (lines 15--17)\<close>

definition MESSAGE :: string where
  "MESSAGE = ''QR Feedback Flask API is running!''"

definition index :: view where
  "index ctx = jsonify ctx (JObj [(''message'', JStr ''QR Feedback Flask API is running!'')])"

subsection \<open>Importing the module (lines 8--17)\<close>

record proc =
  environ :: env
  app :: flask_app
  cred :: certificate
  fb_apps :: fb_registry
  db :: db_client

definition app_module :: "host \<Rightarrow> binding list \<Rightarrow> string \<Rightarrow> env \<Rightarrow> fb_registry \<Rightarrow> proc res" where
  "app_module h bs name e reg =
     (let e1 = load_dotenv bs e;
          a1 = flask_new e1 name;
          a2 = cors_init a1
      in bindE (Certificate h (getenv e1 ''FIREBASE_KEY_PATH'' PyNone)) (\<lambda>c.
         bindE (initialize_app h e1 reg c) (\<lambda>(reg1, _).
         bindE (firestore_client e1 reg1) (\<lambda>d.
         bindE (add_url_rule a2 ''/'' ''index'' index) (\<lambda>a3.
         Inr \<lparr>environ = e1, app = a3, cred = c, fb_apps = reg1, db = d\<rparr>)))))"

subsection \<open>Running the script (lines 19--21)\<close>

text \<open>
  What the process starts from: the installed packages, the host (files, JSON decoder, key loader), the network,
  the process environment, the bindings of the \<^verbatim>\<open>.env\<close> file found from the module's
  directory, and those of the \<^verbatim>\<open>.flaskenv\<close>/\<^verbatim>\<open>.env\<close> files of the working
  directory that \<^verbatim>\<open>app.run\<close> loads.
\<close>

record world =
  w_site :: site
  w_host :: host
  w_net :: net
  w_env :: env
  w_dotenv :: "binding list"
  w_flaskenv :: "(string \<times> string option) list"

datatype outcome = Crashed exc | Returned proc | Serving proc server

definition main_port :: "env \<Rightarrow> int res" where
  "main_port e = py_int (getenv e ''PORT'' (PyInt 5000))"

definition run_main :: "world \<Rightarrow> outcome" where
  "run_main w =
     (case app_module (w_host w) (w_dotenv w) ''__main__'' (w_env w) Map.empty of
        Inl ex \<Rightarrow> Crashed ex
      | Inr pr \<Rightarrow>
          (case main_port (environ pr) of
             Inl ex \<Rightarrow> Crashed ex
           | Inr p \<Rightarrow>
               (case flask_run (w_net w) (w_flaskenv w) (environ pr) (app pr) ''0.0.0.0'' p True of
                  Inl ex \<Rightarrow> Crashed ex
                | Inr (e2, NotStarted) \<Rightarrow> Returned (pr\<lparr>environ := e2\<rparr>)
                | Inr (e2, Started s) \<Rightarrow> Serving (pr\<lparr>environ := e2, app := srv_app s\<rparr>) s)))"

text \<open>The environment \<^verbatim>\<open>app.run\<close> hands to \<^verbatim>\<open>run_simple\<close>: the module's, with the
  working directory's \<^verbatim>\<open>.flaskenv\<close>/\<^verbatim>\<open>.env\<close> added.\<close>

definition run_env :: "world \<Rightarrow> env" where
  "run_env w = set_as_environment_variables (w_flaskenv w) (load_dotenv (w_dotenv w) (w_env w))"

text \<open>The whole script: the imports of lines 1--6, then lines 8--21.\<close>

definition run_script :: "world \<Rightarrow> outcome" where
  "run_script w = (case module_imports (w_site w) of Inl ex \<Rightarrow> Crashed ex | Inr _ \<Rightarrow> run_main w)"

subsection \<open>The application the module builds\<close>

definition ROOT_METHODS :: "string set" where
  "ROOT_METHODS = {''GET'', ''HEAD'', ''OPTIONS''}"

definition index_rule :: rule where
  "index_rule = \<lparr>rule_path = Exact ''/'', endpoint = ''index'', methods = ROOT_METHODS,
                 provide_automatic_options = True\<rparr>"

definition module_app :: "env \<Rightarrow> string \<Rightarrow> flask_app" where
  "module_app e name =
     \<lparr>import_name = name, debug = get_debug_flag e, url_map = [static_rule, index_rule],
      view_functions = [''static'' \<mapsto> send_static_file, ''index'' \<mapsto> index],
      after_request_funcs = [cors_after_request default_cors_options]\<rparr>"

text \<open>The body \<^verbatim>\<open>jsonify\<close> gives the view: compact, or indented by two spaces when
  the application is in debug mode; both end with a newline.\<close>

definition index_body :: "bool \<Rightarrow> string" where
  \<open>index_body dbg =
     (if dbg then ''{\<newline>  "message": "QR Feedback Flask API is running!"\<newline>}\<newline>''
      else ''{"message":"QR Feedback Flask API is running!"}\<newline>'')\<close>

definition index_response :: "bool \<Rightarrow> response" where
  "index_response dbg =
     \<lparr>status = 200, mimetype = ''application/json'', body = Text (index_body dbg), allow = {},
      headers = []\<rparr>"

text \<open>The paths some rule of the module's application takes: \<^verbatim>\<open>/\<close> and the files
  under \<^verbatim>\<open>/static/\<close>.\<close>

definition module_route :: "string \<Rightarrow> bool" where
  "module_route p \<longleftrightarrow> route_matches (rule_path static_rule) p \<or> route_matches (rule_path index_rule) p"

subsection \<open>Lemmas on the module's application\<close>

lemma index_eq: "index ctx = Inr (index_response (ctx_debug ctx))"
proof (cases "ctx_debug ctx")
  case True
  then show ?thesis
    by (simp add: index_def jsonify_def json_layout_def dumps_def join_items_def newline_indent_def
        key_sep_def encode_str_def escape_char_def index_response_def index_body_def numeral_2_eq_2)
next
  case False
  then show ?thesis
    by (simp add: index_def jsonify_def json_layout_def dumps_def join_items_def newline_indent_def
        key_sep_def encode_str_def escape_char_def index_response_def index_body_def numeral_2_eq_2)
qed

text \<open>The shape of the application every later step keeps: the static rule and the
  index rule, their two views, the one hook. The debug flag is free.\<close>

definition app_wf :: "flask_app \<Rightarrow> bool" where
  "app_wf a \<longleftrightarrow> url_map a = [static_rule, index_rule]
                \<and> view_functions a = [''static'' \<mapsto> send_static_file, ''index'' \<mapsto> index]
                \<and> after_request_funcs a = [cors_after_request default_cors_options]"

lemma rule_methods_GET: "rule_methods {''GET''} = (ROOT_METHODS, True)"
  by (auto simp: rule_methods_def ROOT_METHODS_def)

lemma add_url_rule_module:
  "add_url_rule (cors_init (flask_new e name)) ''/'' ''index'' index = Inr (module_app e name)"
  by (simp add: add_url_rule_def rule_methods_GET cors_init_def flask_new_def module_app_def index_rule_def)

lemma app_wf_module_app [simp]: "app_wf (module_app e name)"
  by (simp add: app_wf_def module_app_def)

lemma app_wf_debug [simp]: "app_wf (a\<lparr>debug := b\<rparr>) = app_wf a"
  by (simp add: app_wf_def)

lemma app_module_eq:
  "app_module h bs name e reg =
     (let e1 = load_dotenv bs e in
      bindE (Certificate h (getenv e1 ''FIREBASE_KEY_PATH'' PyNone)) (\<lambda>c.
      bindE (initialize_app h e1 reg c) (\<lambda>(reg1, _).
      bindE (firestore_client e1 reg1) (\<lambda>d.
      Inr \<lparr>environ = e1, app = module_app e1 name, cred = c, fb_apps = reg1, db = d\<rparr>))))"
  by (simp add: app_module_def add_url_rule_module)

lemma app_module_Inr:
  assumes "app_module h bs name e reg = Inr pr"
  shows "environ pr = load_dotenv bs e" and "app pr = module_app (load_dotenv bs e) name"
    and "Certificate h (getenv (load_dotenv bs e) ''FIREBASE_KEY_PATH'' PyNone) = Inr (cred pr)"
    and "initialize_app h (load_dotenv bs e) reg (cred pr) = Inr (fb_apps pr, the (fb_apps pr DEFAULT_APP_NAME))"
    and "firestore_client (environ pr) (fb_apps pr) = Inr (db pr)"
  using assms
  by (auto simp: app_module_eq bindE_eq_Inr_iff initialize_app_def Let_def split: prod.splits if_splits)

subsection \<open>Dispatch on the module's application\<close>

lemma index_rule_simps [simp]:
  "rule_path index_rule = Exact ''/''" "endpoint index_rule = ''index''"
  "methods index_rule = ROOT_METHODS" "provide_automatic_options index_rule = True"
  by (simp_all add: index_rule_def)

lemma static_rule_simps [simp]:
  "rule_path static_rule = PathConv ''/static/''" "endpoint static_rule = ''static''"
  "methods static_rule = ROOT_METHODS" "provide_automatic_options static_rule = True"
  by (simp_all add: static_rule_def ROOT_METHODS_def)

lemma module_route_root [simp]: "module_route ''/''"
  by (simp add: module_route_def)

lemma static_not_root: "route_matches (PathConv ''/static/'') p \<Longrightarrow> p \<noteq> ''/''"
  by auto

lemma path_methods_module:
  "path_methods [static_rule, index_rule] p = (if module_route p then ROOT_METHODS else {})"
  by (auto simp: path_methods_def module_route_def simp del: route_matches.simps(2))

text \<open>Matching on the module's two rules: a path one of them takes is matched (or 405),
  a path that only takes one after merging slashes is redirected (or 405), any other is
  404.\<close>

lemma match_module:
  "match [static_rule, index_rule] m p =
     (if module_route p
      then (if m \<in> ROOT_METHODS then Matched (if p = ''/'' then index_rule else static_rule)
            else MethodNotAllowed ROOT_METHODS)
      else if module_route (merge_slashes p)
      then (if m \<in> ROOT_METHODS then Redirect (merge_slashes p) else MethodNotAllowed ROOT_METHODS)
      else NotFound)"
proof -
  have ne: "ROOT_METHODS \<noteq> {}" by (simp add: ROOT_METHODS_def)
  have ex: "(\<exists>r \<in> set [static_rule, index_rule]. route_matches (rule_path r) q \<and> m \<in> methods r)
          = (module_route q \<and> m \<in> ROOT_METHODS)" for q
    by (auto simp: module_route_def simp del: route_matches.simps(2))
  have fnd: "find (\<lambda>r. route_matches (rule_path r) p \<and> m \<in> methods r) [static_rule, index_rule]
      = (if module_route p \<and> m \<in> ROOT_METHODS then Some (if p = ''/'' then index_rule else static_rule) else None)"
    using static_not_root [of p] by (auto simp: module_route_def simp del: route_matches.simps(2))
  show ?thesis
    unfolding match_def Let_def fnd ex path_methods_module using ne by auto
qed

lemma dispatch_wf:
  assumes "app_wf a"
  shows "dispatch_request a req =
     (let m = py_upper (req_method req); p = path req in
      if module_route p then
        (if m \<notin> ROOT_METHODS then http_error 405 ROOT_METHODS
         else if m = ''OPTIONS'' then empty_response\<lparr>allow := ROOT_METHODS\<rparr>
         else if p = ''/'' then index_response (debug a) else http_error 404 {})
      else if module_route (merge_slashes p)
      then (if m \<in> ROOT_METHODS then http_error 308 {} else http_error 405 ROOT_METHODS)
      else http_error 404 {})"
proof -
  have "''OPTIONS'' \<in> ROOT_METHODS" by (simp add: ROOT_METHODS_def)
  with assms show ?thesis
    by (auto simp: app_wf_def dispatch_request_def match_module Let_def index_eq send_static_file_def
        path_methods_module)
qed

lemma dispatch_wf_shape:
  assumes "app_wf a"
  shows "headers (dispatch_request a req) = []" and "status (dispatch_request a req) \<in> {200, 308, 404, 405}"
  using assms
  by (simp_all add: dispatch_wf Let_def http_error_def empty_response_def index_response_def)

lemma process_response_wf:
  "app_wf a \<Longrightarrow> process_response a req r = cors_after_request default_cors_options req r"
  by (simp add: app_wf_def process_response_def)

lemma header_get_Nil [simp]: "header_get [] k = None"
  by (simp add: header_get_def)

text \<open>The whole answer of the module's application: the dispatch result with the CORS
  headers, and without its body for \<^verbatim>\<open>HEAD\<close>.\<close>

lemma wsgi_wf:
  assumes "app_wf a"
  shows "wsgi_app a req =
     (let r = (dispatch_request a req)
                \<lparr>headers := get_cors_headers default_cors_options (req_headers req) (py_upper (req_method req))\<rparr>
      in if req_method req = ''HEAD'' then r\<lparr>body := Text []\<rparr> else r)"
proof -
  note shape = dispatch_wf_shape [OF assms, of req]
  have "full_dispatch_request a req =
          (dispatch_request a req)
            \<lparr>headers := get_cors_headers default_cors_options (req_headers req) (py_upper (req_method req))\<rparr>"
    using shape(1)
    by (simp add: full_dispatch_request_def process_response_wf [OF assms] cors_after_request_fresh)
  moreover have "\<not> (100 \<le> status (dispatch_request a req) \<and> status (dispatch_request a req) < 200)"
    and "status (dispatch_request a req) \<notin> {204, 304}"
    using shape(2) by auto
  ultimately show ?thesis
    unfolding wsgi_app_def drop_body_def Let_def by auto
qed

subsection \<open>Lemmas on the script's run\<close>

lemma flask_run_Started:
  assumes "flask_run n fdata e a h p dbg = Inr (e2, Started s)"
  shows "srv_app s = a\<lparr>debug := dbg\<rparr>"
    and "\<exists>fd sfd. server_fd (set_as_environment_variables fdata e) = Inr fd
              \<and> make_server_fd n fd p = Inr (srv_port s, sfd)
              \<and> e2 = (set_as_environment_variables fdata e)(''WERKZEUG_SERVER_FD'' \<mapsto> nat_digits (unat sfd))"
    and "srv_host s = h" and "use_reloader s = dbg" and "use_debugger s = dbg"
    and "e ''FLASK_RUN_FROM_CLI'' \<noteq> Some ''true''" and "threaded s"
    and "s = started n (set_as_environment_variables fdata e) (a\<lparr>debug := dbg\<rparr>) h (srv_port s) dbg"
  using assms
  by (auto simp: flask_run_def Let_def bindE_eq_Inr_iff started_def split: if_splits)

lemma run_script_ServingD:
  assumes "run_script w = Serving pr s"
  obtains pr0 p
  where "app_module (w_host w) (w_dotenv w) ''__main__'' (w_env w) Map.empty = Inr pr0"
    and "main_port (environ pr0) = Inr p"
    and "flask_run (w_net w) (w_flaskenv w) (environ pr0) (app pr0) ''0.0.0.0'' p True
           = Inr (environ pr, Started s)"
    and "pr = pr0\<lparr>environ := environ pr, app := srv_app s\<rparr>"
  using assms
  by (auto simp: run_script_def run_main_def split: sum.splits run_result.splits prod.splits)

lemma run_script_serving_app:
  assumes "run_script w = Serving pr s"
  shows "srv_app s = (module_app (load_dotenv (w_dotenv w) (w_env w)) ''__main__'')\<lparr>debug := True\<rparr>"
proof -
  obtain pr0 p where m: "app_module (w_host w) (w_dotenv w) ''__main__'' (w_env w) Map.empty = Inr pr0"
    and r: "flask_run (w_net w) (w_flaskenv w) (environ pr0) (app pr0) ''0.0.0.0'' p True
           = Inr (environ pr, Started s)"
    using assms by (rule run_script_ServingD)
  from r have "srv_app s = (app pr0)\<lparr>debug := True\<rparr>" by (rule flask_run_Started)
  with app_module_Inr(2) [OF m] show ?thesis by simp
qed

lemma run_script_serving_wf:
  "run_script w = Serving pr s \<Longrightarrow> app_wf (srv_app s) \<and> debug (srv_app s)"
  by (simp add: run_script_serving_app)

text \<open>The server of a run script sits behind a fresh debugger with its console at
  \<^verbatim>\<open>/console\<close>.\<close>

lemma run_script_serving_debugger:
  assumes "run_script w = Serving pr s"
  shows "use_debugger s" and "console_path (srv_dbg s) = Some ''/console''"
    and "frames (srv_dbg s) = {}" and "failed_pin_auth (srv_dbg s) = 0"
    and "srv_dbg s = new_debugger (dbg_salt (w_net w)) (pin_of_env (run_env w) (machine_pin (w_net w)))
                       (cookie_name (w_net w)) (pin_hash (w_net w)) (guess_type (w_net w)) ''0.0.0.0''"
proof -
  obtain pr0 p where m: "app_module (w_host w) (w_dotenv w) ''__main__'' (w_env w) Map.empty = Inr pr0"
    and r: "flask_run (w_net w) (w_flaskenv w) (environ pr0) (app pr0) ''0.0.0.0'' p True
           = Inr (environ pr, Started s)"
    using assms by (rule run_script_ServingD)
  have "s = started (w_net w) (run_env w) ((app pr0)\<lparr>debug := True\<rparr>) ''0.0.0.0'' (srv_port s) True"
    using flask_run_Started(8) [OF r] app_module_Inr(1) [OF m] by (simp add: run_env_def)
  then have "srv_dbg s = new_debugger (dbg_salt (w_net w)) (pin_of_env (run_env w) (machine_pin (w_net w)))
                       (cookie_name (w_net w)) (pin_hash (w_net w)) (guess_type (w_net w)) ''0.0.0.0''" and "use_debugger s"
    by (metis server.select_convs(7) started_def, metis server.select_convs(5) started_def)
  then show "use_debugger s" and "console_path (srv_dbg s) = Some ''/console''"
    and "frames (srv_dbg s) = {}" and "failed_pin_auth (srv_dbg s) = 0"
    and "srv_dbg s = new_debugger (dbg_salt (w_net w)) (pin_of_env (run_env w) (machine_pin (w_net w)))
                       (cookie_name (w_net w)) (pin_hash (w_net w)) (guess_type (w_net w)) ''0.0.0.0''"
    by (simp_all add: new_debugger_def)
qed

lemma run_script_serving_port:
  assumes "run_script w = Serving pr s"
  shows "\<exists>p fd sfd. main_port (load_dotenv (w_dotenv w) (w_env w)) = Inr p \<and> server_fd (run_env w) = Inr fd
           \<and> make_server_fd (w_net w) fd p = Inr (srv_port s, sfd)"
proof -
  obtain pr0 p where m: "app_module (w_host w) (w_dotenv w) ''__main__'' (w_env w) Map.empty = Inr pr0"
    and mp: "main_port (environ pr0) = Inr p"
    and r: "flask_run (w_net w) (w_flaskenv w) (environ pr0) (app pr0) ''0.0.0.0'' p True
           = Inr (environ pr, Started s)"
    using assms by (rule run_script_ServingD)
  from flask_run_Started(2) [OF r] mp app_module_Inr(1) [OF m] show ?thesis
    by (auto simp: run_env_def)
qed

end
