(* ===== verification/Script.thy ===== *)
theory Script
  imports Backend
begin

text \<open>
  The script as the interpreter runs it, one source line at a time: the six import
  statements (lines 1--6), the module body (lines 8--15, the decorator of line 15
  registering the function of lines 16--17), the \<^verbatim>\<open>__name__\<close> guard (line 19) and its
  two statements (lines 20--21). The frame holds the module globals; a global that a line
  reads before it is bound raises \<^verbatim>\<open>NameError\<close>, as CPython does. A configuration is a
  line about to run, a final outcome, or a module whose import has completed (when
  \<^verbatim>\<open>__name__\<close> is not \<^verbatim>\<open>"__main__"\<close>). The lemmas show that an import run line by line
  stops at the guard of line 19 with exactly the globals \<open>app_module\<close> computes, and
  that every global a reachable line reads is bound.
\<close>

record frame =
  fr_ns :: namespace
  fr_env :: env
  fr_app :: "flask_app option"
  fr_cred :: "certificate option"
  fr_reg :: fb_registry
  fr_db :: "db_client option"
  fr_port :: "int option"

text \<open>The lines, in order; \<open>Imp i\<close> is the import statement on line \<open>i + 1\<close>.\<close>

datatype pc = Imp nat | LoadEnv | MkApp | Cors | Cred | Init | Db | Route | Guard | Port | Run

fun line_of :: "pc \<Rightarrow> nat" where
  "line_of (Imp i) = Suc i"
| "line_of LoadEnv = 8"
| "line_of MkApp = 9"
| "line_of Cors = 10"
| "line_of Cred = 11"
| "line_of Init = 12"
| "line_of Db = 13"
| "line_of Route = 15"
| "line_of Guard = 19"
| "line_of Port = 20"
| "line_of Run = 21"

datatype config = At pc frame | Halt outcome | Loaded frame

definition init_frame :: "world \<Rightarrow> frame" where
  "init_frame w = \<lparr>fr_ns = Map.empty, fr_env = w_env w, fr_app = None, fr_cred = None,
                   fr_reg = Map.empty, fr_db = None, fr_port = None\<rparr>"

definition crash :: "exc \<Rightarrow> config" where
  "crash ex = Halt (Crashed ex)"

text \<open>The module state once \<^verbatim>\<open>app\<close>, \<^verbatim>\<open>cred\<close> and \<^verbatim>\<open>db\<close> are bound.\<close>

definition proc_of :: "frame \<Rightarrow> proc option" where
  "proc_of f =
     (case (fr_app f, fr_cred f, fr_db f) of
        (Some a, Some c, Some d) \<Rightarrow>
          Some \<lparr>environ = fr_env f, app = a, cred = c, fb_apps = fr_reg f, db = d\<rparr>
      | _ \<Rightarrow> None)"

text \<open>One line. \<open>nm\<close> is the module's \<^verbatim>\<open>__name__\<close>.\<close>

fun exec_pc :: "world \<Rightarrow> string \<Rightarrow> pc \<Rightarrow> frame \<Rightarrow> config" where
  "exec_pc w nm (Imp i) f =
     (if i < length APP_IMPORTS then
        (case exec_import (w_site w) (fr_ns f) (APP_IMPORTS ! i) of
           Inl ex \<Rightarrow> crash ex
         | Inr g \<Rightarrow> At (if Suc i < length APP_IMPORTS then Imp (Suc i) else LoadEnv) (f\<lparr>fr_ns := g\<rparr>))
      else At LoadEnv f)"
| "exec_pc w nm LoadEnv f = At MkApp (f\<lparr>fr_env := load_dotenv (w_dotenv w) (fr_env f)\<rparr>)"
| "exec_pc w nm MkApp f = At Cors (f\<lparr>fr_app := Some (flask_new (fr_env f) nm)\<rparr>)"
| "exec_pc w nm Cors f =
     (case fr_app f of None \<Rightarrow> crash (NameError ''app'')
      | Some a \<Rightarrow> At Cred (f\<lparr>fr_app := Some (cors_init a)\<rparr>))"
| "exec_pc w nm Cred f =
     (case Certificate (w_host w) (getenv (fr_env f) ''FIREBASE_KEY_PATH'' PyNone) of
        Inl ex \<Rightarrow> crash ex
      | Inr c \<Rightarrow> At Init (f\<lparr>fr_cred := Some c\<rparr>))"
| "exec_pc w nm Init f =
     (case fr_cred f of None \<Rightarrow> crash (NameError ''cred'')
      | Some c \<Rightarrow>
          (case initialize_app (w_host w) (fr_env f) (fr_reg f) c of
             Inl ex \<Rightarrow> crash ex
           | Inr (reg1, _) \<Rightarrow> At Db (f\<lparr>fr_reg := reg1\<rparr>)))"
| "exec_pc w nm Db f =
     (case firestore_client (fr_env f) (fr_reg f) of
        Inl ex \<Rightarrow> crash ex
      | Inr d \<Rightarrow> At Route (f\<lparr>fr_db := Some d\<rparr>))"
| "exec_pc w nm Route f =
     (case fr_app f of None \<Rightarrow> crash (NameError ''app'')
      | Some a \<Rightarrow>
          (case add_url_rule a ''/'' ''index'' index of
             Inl ex \<Rightarrow> crash ex
           | Inr a' \<Rightarrow> At Guard (f\<lparr>fr_app := Some a'\<rparr>)))"
| "exec_pc w nm Guard f = (if nm = ''__main__'' then At Port f else Loaded f)"
| "exec_pc w nm Port f =
     (case main_port (fr_env f) of
        Inl ex \<Rightarrow> crash ex
      | Inr p \<Rightarrow> At Run (f\<lparr>fr_port := Some p\<rparr>))"
| "exec_pc w nm Run f =
     (case (proc_of f, fr_port f) of
        (Some pr, Some p) \<Rightarrow>
          (case flask_run (w_net w) (w_flaskenv w) (fr_env f) (app pr) ''0.0.0.0'' p True of
             Inl ex \<Rightarrow> crash ex
           | Inr (e2, NotStarted) \<Rightarrow> Halt (Returned (pr\<lparr>environ := e2\<rparr>))
           | Inr (e2, Started s) \<Rightarrow> Halt (Serving (pr\<lparr>environ := e2, app := srv_app s\<rparr>) s))
      | (None, _) \<Rightarrow> crash (NameError ''app'')
      | (_, None) \<Rightarrow> crash (NameError ''port''))"

fun step :: "world \<Rightarrow> string \<Rightarrow> config \<Rightarrow> config" where
  "step w nm (At l f) = exec_pc w nm l f"
| "step w nm (Halt o') = Halt o'"
| "step w nm (Loaded f) = Loaded f"

fun final :: "config \<Rightarrow> bool" where
  "final (At _ _) = False"
| "final _ = True"

inductive reachable :: "world \<Rightarrow> string \<Rightarrow> config \<Rightarrow> bool" where
  start: "reachable w nm (At (Imp 0) (init_frame w))"
| run_step: "reachable w nm c \<Longrightarrow> reachable w nm (step w nm c)"

text \<open>The frame an import leaves: the namespace of lines 1--6 and the globals of
  lines 9--15; \<^verbatim>\<open>port\<close> is never bound.\<close>

definition module_frame :: "namespace \<Rightarrow> proc \<Rightarrow> frame" where
  "module_frame g pr = \<lparr>fr_ns = g, fr_env = environ pr, fr_app = Some (app pr),
                        fr_cred = Some (cred pr), fr_reg = fb_apps pr, fr_db = Some (db pr),
                        fr_port = None\<rparr>"

subsection \<open>Names\<close>

text \<open>The globals each line reads when it runs (the body of \<^verbatim>\<open>index\<close> reads
  \<^verbatim>\<open>jsonify\<close> only when a request calls it), and those a frame binds.\<close>

fun reads :: "pc \<Rightarrow> string set" where
  "reads (Imp i) = {}"
| "reads LoadEnv = {''load_dotenv''}"
| "reads MkApp = {''Flask''}"
| "reads Cors = {''CORS'', ''app''}"
| "reads Cred = {''credentials'', ''os''}"
| "reads Init = {''firebase_admin'', ''cred''}"
| "reads Db = {''firestore''}"
| "reads Route = {''app''}"
| "reads Guard = {}"
| "reads Port = {''os''}"
| "reads Run = {''app'', ''port''}"

definition bound :: "frame \<Rightarrow> string set" where
  "bound f = dom (fr_ns f)
             \<union> (if fr_app f \<noteq> None then {''app''} else {})
             \<union> (if fr_cred f \<noteq> None then {''cred''} else {})
             \<union> (if fr_db f \<noteq> None then {''db''} else {})
             \<union> (if fr_port f \<noteq> None then {''port''} else {})"

definition imported_names :: "nat \<Rightarrow> string set" where
  "imported_names k = fst ` set (concat (map stmt_names (take k APP_IMPORTS)))"

text \<open>What holds before each line runs: the names the earlier import statements bound,
  and the globals the earlier lines bound.\<close>

definition inv_at :: "pc \<Rightarrow> frame \<Rightarrow> bool" where
  "inv_at l f \<longleftrightarrow>
     dom (fr_ns f) = imported_names (case l of Imp i \<Rightarrow> i | _ \<Rightarrow> length APP_IMPORTS)
     \<and> (10 \<le> line_of l \<longrightarrow> fr_app f \<noteq> None) \<and> (12 \<le> line_of l \<longrightarrow> fr_cred f \<noteq> None)
     \<and> (14 \<le> line_of l \<longrightarrow> fr_db f \<noteq> None) \<and> (line_of l = 21 \<longrightarrow> fr_port f \<noteq> None)"

fun config_inv :: "config \<Rightarrow> bool" where
  "config_inv (At l f) = inv_at l f"
| "config_inv _ = True"

subsection \<open>Termination\<close>

lemma step_final: "final c \<Longrightarrow> step w nm c = c"
  by (cases c) auto

lemma funpow_step_final: "final c \<Longrightarrow> (step w nm ^^ n) c = c"
  by (induction n) (simp_all add: step_final)

lemma funpow_crash [simp]: "(step w nm ^^ n) (crash ex) = crash ex"
  by (simp add: crash_def funpow_step_final)

lemma length_APP_IMPORTS [simp]: "length APP_IMPORTS = 6"
  by (simp add: APP_IMPORTS_def)

lemma step_crash [simp]: "step w nm (crash ex) = crash ex"
  by (simp add: crash_def)

lemma funpow_Halt [simp]: "(step w nm ^^ n) (Halt o') = Halt o'"
  by (simp add: funpow_step_final)

lemma proc_of_port [simp]: "proc_of (f\<lparr>fr_port := x\<rparr>) = proc_of f"
  by (simp add: proc_of_def split: option.splits)

subsection \<open>The line-by-line run of an import\<close>

lemma steps_imports:
  assumes "Suc (i + n) = length APP_IMPORTS"
  shows "(step w nm ^^ Suc n) (At (Imp i) f) =
         (case exec_imports (w_site w) (fr_ns f) (drop i APP_IMPORTS) of
            Inl ex \<Rightarrow> crash ex | Inr g \<Rightarrow> At LoadEnv (f\<lparr>fr_ns := g\<rparr>))"
  using assms
proof (induction n arbitrary: i f)
  case 0
  then have "drop i APP_IMPORTS = [APP_IMPORTS ! i]" and "i < length APP_IMPORTS"
    by (simp_all add: Cons_nth_drop_Suc [symmetric])
  then show ?case using 0 by (simp split: sum.splits)
next
  case (Suc n)
  have i: "i < length APP_IMPORTS" "Suc i < length APP_IMPORTS" using Suc.prems by simp_all
  then have d: "drop i APP_IMPORTS = APP_IMPORTS ! i # drop (Suc i) APP_IMPORTS"
    by (simp add: Cons_nth_drop_Suc)
  have "(step w nm ^^ Suc (Suc n)) (At (Imp i) f) = (step w nm ^^ Suc n) (exec_pc w nm (Imp i) f)"
    by (simp only: funpow_Suc_right comp_apply step.simps)
  then show ?case using Suc.IH [of "Suc i"] Suc.prems i d by (simp split: sum.splits)
qed

lemma steps_body:
  "(step w nm ^^ 8) (At LoadEnv f) =
     (case app_module (w_host w) (w_dotenv w) nm (fr_env f) (fr_reg f) of
        Inl ex \<Rightarrow> crash ex
      | Inr pr \<Rightarrow>
          (let f' = f\<lparr>fr_env := environ pr, fr_cred := Some (cred pr), fr_reg := fb_apps pr,
                      fr_db := Some (db pr), fr_app := Some (app pr)\<rparr>
           in if nm = ''__main__'' then At Port f' else Loaded f'))"
  by (cases "nm = ''__main__''")
     (simp_all add: app_module_def add_url_rule_module bindE_def numeral_eq_Suc Let_def crash_def
       split: sum.splits prod.splits)

lemma steps_imports_init:
  "(step w nm ^^ 6) (At (Imp 0) (init_frame w)) =
     (case module_imports (w_site w) of Inl ex \<Rightarrow> crash ex
      | Inr g \<Rightarrow> At LoadEnv ((init_frame w)\<lparr>fr_ns := g\<rparr>))"
  using steps_imports [of 0 5 w nm "init_frame w"]
  by (simp add: module_imports_def init_frame_def)

text \<open>C24. Equivalence: imported under any other name (by a WSGI server, a test, or
  \<^verbatim>\<open>flask run\<close>), the module runs lines 1--17 in fourteen steps, stops at the guard of
  line 19, and leaves exactly the globals \<open>app_module\<close> computes; \<^verbatim>\<open>PORT\<close> is never read
  and no server is started.\<close>

theorem script_import_module:
  assumes "nm \<noteq> ''__main__''"
  shows "(step w nm ^^ 14) (At (Imp 0) (init_frame w)) =
     (case module_imports (w_site w) of
        Inl ex \<Rightarrow> Halt (Crashed ex)
      | Inr g \<Rightarrow>
          (case app_module (w_host w) (w_dotenv w) nm (w_env w) Map.empty of
             Inl ex \<Rightarrow> Halt (Crashed ex)
           | Inr pr \<Rightarrow> Loaded (module_frame g pr)))"
proof -
  have split: "(step w nm ^^ 14) = (step w nm ^^ 8) \<circ> (step w nm ^^ 6)"
    by (simp add: funpow_add [symmetric])
  show ?thesis
  proof (cases "module_imports (w_site w)")
    case (Inl ex)
    with split show ?thesis by (simp add: steps_imports_init crash_def)
  next
    case (Inr g)
    let ?f1 = "(init_frame w)\<lparr>fr_ns := g\<rparr>"
    have imp': "(step w nm ^^ 6) (At (Imp 0) (init_frame w)) = At LoadEnv ?f1"
      using Inr by (simp add: steps_imports_init)
    have e1: "fr_env ?f1 = w_env w" "fr_reg ?f1 = Map.empty" by (simp_all add: init_frame_def)
    have "(step w nm ^^ 8) (At LoadEnv ?f1) =
            (case app_module (w_host w) (w_dotenv w) nm (w_env w) Map.empty of
               Inl ex \<Rightarrow> Halt (Crashed ex) | Inr pr \<Rightarrow> Loaded (module_frame g pr))"
      using assms
      by (simp only: steps_body e1)
         (simp add: Let_def crash_def module_frame_def init_frame_def split: sum.splits)
    with split imp' Inr show ?thesis by simp
  qed
qed

subsection \<open>Every name a line reads is bound\<close>

lemma imported_names_Suc:
  "i < length APP_IMPORTS \<Longrightarrow>
   imported_names (Suc i) = imported_names i \<union> fst ` set (stmt_names (APP_IMPORTS ! i))"
  by (simp add: imported_names_def take_Suc_conv_app_nth image_Un)

lemma imported_names_all:
  "imported_names 6 =
     {''os'', ''Flask'', ''request'', ''jsonify'', ''CORS'', ''firebase_admin'', ''credentials'',
      ''firestore'', ''auth'', ''load_dotenv''}"
  by (auto simp: imported_names_def APP_IMPORTS_def dotted_def)

lemma dom_exec_import:
  "exec_import st g s = Inr g' \<Longrightarrow> dom g' = dom g \<union> fst ` set (stmt_names s)"
  by (auto simp: exec_import_Inr dom_map_of_conv_image_fst)

lemma config_inv_step: "config_inv c \<Longrightarrow> config_inv (step w nm c)"
proof (cases c)
  case (At l f)
  assume inv: "config_inv c"
  show ?thesis
  proof (cases l)
    case (Imp i)
    show ?thesis
    proof (cases "i < length APP_IMPORTS")
      case True
      show ?thesis
      proof (cases "exec_import (w_site w) (fr_ns f) (APP_IMPORTS ! i)")
        case (Inl ex)
        with At Imp True show ?thesis by (simp add: crash_def)
      next
        case (Inr g)
        have "dom g = imported_names (Suc i)"
          using dom_exec_import [OF Inr] inv At Imp True by (simp add: inv_at_def imported_names_Suc)
        moreover have "imported_names (Suc i) = imported_names 6" if "\<not> Suc i < length APP_IMPORTS"
        proof -
          from that True have "Suc i = 6" by simp
          then show ?thesis by simp
        qed
        ultimately show ?thesis using At Imp True Inr by (auto simp: inv_at_def)
      qed
    next
      case False
      then have "imported_names i = imported_names (length APP_IMPORTS)"
        by (simp add: imported_names_def)
      with False inv At Imp show ?thesis by (simp add: inv_at_def)
    qed
  qed (use inv At in \<open>auto simp: inv_at_def crash_def split: sum.splits option.splits prod.splits
                       run_result.splits\<close>)
qed simp_all

lemma reachable_config_inv: "reachable w nm c \<Longrightarrow> config_inv c"
proof (induction rule: reachable.induct)
  case (start w nm)
  show ?case by (simp add: inv_at_def init_frame_def imported_names_def)
next
  case (run_step w nm c)
  from run_step.IH show ?case by (rule config_inv_step)
qed

lemma reachable_funpow: "reachable w nm ((step w nm ^^ n) (At (Imp 0) (init_frame w)))"
  by (induction n) (auto intro: reachable.intros)

lemma reachable_run:
  assumes "module_imports (w_site w) = Inr g"
    and "app_module (w_host w) (w_dotenv w) ''__main__'' (w_env w) Map.empty = Inr pr"
    and "main_port (environ pr) = Inr p"
  shows "\<exists>f. reachable w ''__main__'' (At Run f)"
proof -
  let ?f1 = "(init_frame w)\<lparr>fr_ns := g\<rparr>"
  have e1: "fr_env ?f1 = w_env w" "fr_reg ?f1 = Map.empty" by (simp_all add: init_frame_def)
  have "(step w ''__main__'' ^^ 15) = (step w ''__main__'' ^^ 1) \<circ> (step w ''__main__'' ^^ 8)
          \<circ> (step w ''__main__'' ^^ 6)"
    by (simp only: funpow_add [symmetric]) simp
  moreover have "(step w ''__main__'' ^^ 6) (At (Imp 0) (init_frame w)) = At LoadEnv ?f1"
    using assms(1) by (simp add: steps_imports_init)
  moreover have "(step w ''__main__'' ^^ 8) (At LoadEnv ?f1) =
      At Port (?f1\<lparr>fr_env := environ pr, fr_cred := Some (cred pr), fr_reg := fb_apps pr,
                   fr_db := Some (db pr), fr_app := Some (app pr)\<rparr>)"
    using assms(2) by (simp only: steps_body e1) (simp add: Let_def)
  ultimately have "\<exists>f. (step w ''__main__'' ^^ 15) (At (Imp 0) (init_frame w)) = At Run f"
    using assms(3) by simp
  then show ?thesis using reachable_funpow by metis
qed

text \<open>C25. Well-scoped globals: in every configuration the script reaches, each global
  the next line reads (the imported names, \<^verbatim>\<open>app\<close>, \<^verbatim>\<open>cred\<close>, \<^verbatim>\<open>port\<close>) is bound, so
  no line of the module can raise \<^verbatim>\<open>NameError\<close>.\<close>

theorem script_reads_bound:
  assumes "reachable w nm (At l f)"
  shows "reads l \<subseteq> bound f"
proof -
  have inv: "inv_at l f" using reachable_config_inv [OF assms] by simp
  show ?thesis
    using inv by (cases l) (auto simp: inv_at_def bound_def imported_names_all)
qed

end
