(* ===== verification/Reloader.thy ===== *)
theory Reloader
  imports Backend
begin

text \<open>
  Werkzeug's reloader, which \<^verbatim>\<open>app.run(debug=True)\<close> (line 21) turns on. After
  \<^verbatim>\<open>run_simple\<close> has set up the listening socket and recorded its descriptor in
  \<^verbatim>\<open>WERKZEUG_SERVER_FD\<close>, \<^verbatim>\<open>run_with_reloader\<close> in the original process calls
  \<^verbatim>\<open>restart_with_reloader\<close>: it starts the same script again as a child process with a
  copy of its environment plus \<^verbatim>\<open>WERKZEUG_RUN_MAIN=true\<close> (descriptors are inherited,
  \<^verbatim>\<open>close_fds=False\<close>) and exits with the child's status. The child runs lines 1--21
  from the start; its \<^verbatim>\<open>run_simple\<close> takes the inherited socket instead of binding, and
  it is the child that serves requests. The original process never serves: it waits for
  the child, starts a new one whenever the child exits with status 3 (a watched source
  file changed), and otherwise exits with the child's status.

  \<open>run_process\<close> is the outcome of the first child; \<open>restart_with_reloader\<close> is the
  parent's loop over the children. Every child runs the same script in the same world:
  the change that triggers a restart is to a watched Python source, and the model keeps
  the script as it is. The lemmas compute the child's run (\<open>child_run_script\<close>).
\<close>

definition reloader_env :: "env \<Rightarrow> env" where
  "reloader_env e = e(''WERKZEUG_RUN_MAIN'' \<mapsto> ''true'')"

text \<open>The child's world: the same files, packages and network, the parent's environment
  at the restart, and the parent's listening socket under its descriptor number.\<close>

definition child_world :: "world \<Rightarrow> proc \<Rightarrow> server \<Rightarrow> world" where
  "child_world w pr s =
     w\<lparr>w_env := reloader_env (environ pr),
       w_net := (w_net w)\<lparr>inherited := (inherited (w_net w))(uint (listen_fd (w_net w)) \<mapsto> srv_port s)\<rparr>\<rparr>"

text \<open>\<^verbatim>\<open>python app.py\<close> as a process tree: when the server started with the reloader in
  a process that is not itself a reloader child, the outcome is the child's.\<close>

definition run_process :: "world \<Rightarrow> outcome" where
  "run_process w =
     (case run_script w of
        Serving pr s \<Rightarrow>
          if use_reloader s \<and> run_env w ''WERKZEUG_RUN_MAIN'' \<noteq> Some ''true''
          then run_script (child_world w pr s) else Serving pr s
      | out \<Rightarrow> out)"

text \<open>The variables the script reads besides \<^verbatim>\<open>PORT\<close>: \<^verbatim>\<open>Flask()\<close> (line 9), the
  credential path (line 11), \<^verbatim>\<open>initialize_app\<close> (line 12), \<^verbatim>\<open>firestore.client\<close>
  (line 13) and \<^verbatim>\<open>Flask.run\<close> (line 21).\<close>

definition script_env_keys :: "string list" where
  "script_env_keys = [''FLASK_DEBUG'', ''FIREBASE_KEY_PATH'', ''FIREBASE_CONFIG'',
                      ''GOOGLE_CLOUD_PROJECT'', ''GCLOUD_PROJECT'', ''FLASK_RUN_FROM_CLI'']"

subsection \<open>The restart loop\<close>

text \<open>The exit status of a Python process: \<^verbatim>\<open>sys.exit(n)\<close> gives \<open>n\<close>, any other
  uncaught exception 1.\<close>

fun exit_status :: "exc \<Rightarrow> int" where
  "exit_status (SystemExit n) = int n"
| "exit_status _ = 1"

text \<open>The status with which a reloader child exits, given whether a watched source file
  changes while it serves: a crashed script exits with its exception's status and one
  that returns with 0; a serving child runs the server in a daemon thread while its main
  thread polls the files, and on a change calls \<^verbatim>\<open>sys.exit(3)\<close>. Without a change it
  never exits (\<open>None\<close>).\<close>

definition child_exit :: "outcome \<Rightarrow> bool \<Rightarrow> int option" where
  "child_exit out changed =
     (case out of
        Crashed ex \<Rightarrow> Some (exit_status ex)
      | Returned _ \<Rightarrow> Some 0
      | Serving _ _ \<Rightarrow> if changed then Some 3 else None)"

text \<open>\<^verbatim>\<open>ReloaderLoop.restart_with_reloader\<close>: \<^verbatim>\<open>while True\<close>, start the child
  (\<^verbatim>\<open>subprocess.call\<close>, which blocks until it exits) and return its status unless it
  is 3. Every child runs the same script in the same world, so its outcome \<open>out\<close> is
  the same; \<open>changes i\<close> says whether a watched file changes during the \<open>i\<close>-th child.
  The loop need not end, so it is a partial function: \<open>None\<close> is "never returns".\<close>

partial_function (option) restart_with_reloader :: "outcome \<Rightarrow> (nat \<Rightarrow> bool) \<Rightarrow> nat \<Rightarrow> int option" where
  "restart_with_reloader out changes i =
     Option.bind (child_exit out (changes i))
       (\<lambda>c. if c \<noteq> 3 then Some c else restart_with_reloader out changes (Suc i))"

subsection \<open>What the lines read of the environment\<close>

lemma initialize_app_env:
  "e ''FIREBASE_CONFIG'' = e' ''FIREBASE_CONFIG'' \<Longrightarrow> initialize_app h e reg c = initialize_app h e' reg c"
  by (simp add: initialize_app_def load_options_def)

lemma firestore_client_env:
  "e ''GOOGLE_CLOUD_PROJECT'' = e' ''GOOGLE_CLOUD_PROJECT'' \<Longrightarrow> e ''GCLOUD_PROJECT'' = e' ''GCLOUD_PROJECT''
   \<Longrightarrow> firestore_client e reg = firestore_client e' reg"
proof -
  assume "e ''GOOGLE_CLOUD_PROJECT'' = e' ''GOOGLE_CLOUD_PROJECT''" "e ''GCLOUD_PROJECT'' = e' ''GCLOUD_PROJECT''"
  then have "lookup_project_id e = lookup_project_id e'"
    by (simp add: fun_eq_iff lookup_project_id_def Let_def split: option.splits)
  then show ?thesis by (simp add: firestore_client_def cong: option.case_cong)
qed

lemma module_app_env:
  "e ''FLASK_DEBUG'' = e' ''FLASK_DEBUG'' \<Longrightarrow> module_app e nm = module_app e' nm"
  by (simp add: module_app_def get_debug_flag_def)

lemma main_port_env: "e ''PORT'' = e' ''PORT'' \<Longrightarrow> main_port e = main_port e'"
  by (simp add: main_port_def getenv_def)

text \<open>The descriptor survives its round trip through the environment.\<close>

lemma py_int_of_str_fd: "py_int_of_str (nat_digits (unat (x :: 32 word))) = Inr (uint x)"
proof -
  have "unat x < 2 ^ 32" using unsigned_less [of x] by simp
  then have "unat x < 10 ^ 10" by simp
  then have "length (nat_digits (unat x)) \<le> 10" by (rule length_nat_digits) simp
  then have "length (nat_digits (unat x)) \<le> max_str_digits" by (simp add: max_str_digits_def)
  then have "py_int_of_str (nat_digits (unat x)) = Inr (int (digits_value (nat_digits (unat x))))"
    by (intro py_int_of_str_digits(1) nat_digits_digits nat_digits_not_Nil)
  then show ?thesis by simp
qed

lemma make_server_Inr_long:
  "make_server n p = Inr q \<Longrightarrow> \<not> (p < C_LONG_MIN \<or> C_LONG_MAX < p)"
  by (auto simp: make_server_def)

lemma load_dotenv_assigns: "dotenv_assigns bs k \<Longrightarrow> load_dotenv bs e k \<noteq> None"
  using resolve_variables_assigns [of e bs k] by (auto simp: load_dotenv_eq split: option.splits)

lemma run_script_Serving_imports:
  "run_script w = Serving pr s \<Longrightarrow> \<exists>g. module_imports (w_site w) = Inr g"
  by (auto simp: run_script_def split: sum.splits)

lemma set_as_environment_variables_dom:
  "(k, Some v) \<in> set d \<Longrightarrow> set_as_environment_variables d e k \<noteq> None"
proof (induction d e rule: set_as_environment_variables.induct)
  case (2 k' v' d e)
  show ?case
  proof (cases "(k, Some v) \<in> set d")
    case True
    then show ?thesis using "2.IH" by simp
  next
    case False
    with "2.prems" have "k' = k" and "v' = Some v" by auto
    then obtain u where "(if e k' \<noteq> None then e else (case v' of None \<Rightarrow> e | Some s \<Rightarrow> e(k' \<mapsto> s))) k = Some u"
      by (cases "e k") auto
    then show ?thesis by (simp add: set_as_environment_variables_keeps)
  qed
qed simp

lemma set_as_environment_variables_settled:
  "set_as_environment_variables d (set_as_environment_variables d e) = set_as_environment_variables d e"
  by (rule set_as_environment_variables_fixed) (auto dest: set_as_environment_variables_dom)

text \<open>The child's lines 8--17 under an environment that keeps every variable of the
  parent's module environment and agrees with it on the variables the script reads:
  \<^verbatim>\<open>load_dotenv()\<close> adds nothing, and the application, the credential, the Firebase
  registry and the Firestore client come out as in the parent.\<close>

lemma app_module_child:
  assumes m: "app_module h bs nm e reg = Inr pr0"
    and d: "\<forall>k. environ pr0 k \<noteq> None \<longrightarrow> c k \<noteq> None"
    and ks: "\<forall>k \<in> set script_env_keys. c k = environ pr0 k"
  shows "app_module h bs nm c reg = Inr (pr0\<lparr>environ := c\<rparr>)"
proof -
  have e1: "environ pr0 = load_dotenv bs e" by (rule app_module_Inr(1) [OF m])
  have "\<forall>k. dotenv_assigns bs k \<longrightarrow> c k \<noteq> None"
    using load_dotenv_assigns [of bs _ e] d by (simp add: e1)
  then have l: "load_dotenv bs c = c" by (rule load_dotenv_fixed)
  have k: "c ''FIREBASE_KEY_PATH'' = environ pr0 ''FIREBASE_KEY_PATH''"
    "c ''FIREBASE_CONFIG'' = environ pr0 ''FIREBASE_CONFIG''"
    "c ''GOOGLE_CLOUD_PROJECT'' = environ pr0 ''GOOGLE_CLOUD_PROJECT''"
    "c ''GCLOUD_PROJECT'' = environ pr0 ''GCLOUD_PROJECT''"
    "c ''FLASK_DEBUG'' = environ pr0 ''FLASK_DEBUG''"
    using ks by (simp_all add: script_env_keys_def)
  have "initialize_app h c reg (cred pr0) = initialize_app h (environ pr0) reg (cred pr0)"
    by (rule initialize_app_env) (rule k(2))
  moreover have "firestore_client c (fb_apps pr0) = firestore_client (environ pr0) (fb_apps pr0)"
    by (rule firestore_client_env) (rule k(3), rule k(4))
  moreover have "module_app c nm = app pr0"
    using app_module_Inr(2) [OF m] module_app_env [of c "environ pr0" nm, OF k(5)] by (simp add: e1)
  moreover have "getenv c ''FIREBASE_KEY_PATH'' PyNone = getenv (load_dotenv bs e) ''FIREBASE_KEY_PATH'' PyNone"
    using k(1) by (simp add: getenv_def e1)
  ultimately show ?thesis
    using app_module_Inr(3,4,5) [OF m] e1
    by (simp add: app_module_eq l)
qed

text \<open>\<^verbatim>\<open>Flask.run\<close> in an environment that its own dotenv loading leaves unchanged:
  straight to \<^verbatim>\<open>run_simple\<close> with the socket chosen by \<open>server_fd\<close>.\<close>

lemma flask_run_settled:
  assumes "e ''FLASK_RUN_FROM_CLI'' \<noteq> Some ''true''" and "set_as_environment_variables fdata e = e"
    and "server_fd e = Inr fd"
  shows "flask_run n fdata e a h p dbg =
           bindE (make_server_fd n fd p)
             (\<lambda>(w, sfd). Inr (e(''WERKZEUG_SERVER_FD'' \<mapsto> nat_digits (unat sfd)),
                Started (started n e (a\<lparr>debug := dbg\<rparr>) h w dbg)))"
  using assms by (cases "e ''FLASK_DEBUG''") (simp_all add: flask_run_def Let_def)

lemma make_server_fd_inherited:
  "inherited n d = Some q \<Longrightarrow>
   make_server_fd n (Some d) p =
     (if p < C_LONG_MIN \<or> C_LONG_MAX < p then Inl (OverflowError ''Python int too large to convert to C long'')
      else Inr (q, dup_fd n))"
  by (simp add: make_server_fd_def)

lemma run_script_child:
  "module_imports (w_site w) = Inr g \<Longrightarrow> run_script (child_world w pr s) = run_main (child_world w pr s)"
  by (simp add: run_script_def child_world_def)

text \<open>What the original process has done when it hands over to the reloader.\<close>

lemma parent_serving:
  assumes r: "run_script w = Serving pr s" and nm: "run_env w ''WERKZEUG_RUN_MAIN'' \<noteq> Some ''true''"
  obtains pr0 p
  where "app_module (w_host w) (w_dotenv w) ''__main__'' (w_env w) Map.empty = Inr pr0"
    and "run_env w = set_as_environment_variables (w_flaskenv w) (environ pr0)"
    and "main_port (environ pr0) = Inr p" and "make_server (w_net w) p = Inr (srv_port s)"
    and "environ pr = (run_env w)(''WERKZEUG_SERVER_FD'' \<mapsto> nat_digits (unat (listen_fd (w_net w))))"
    and "pr = pr0\<lparr>environ := environ pr, app := srv_app s\<rparr>"
    and "s = started (w_net w) (run_env w) ((app pr0)\<lparr>debug := True\<rparr>) ''0.0.0.0'' (srv_port s) True"
    and "environ pr0 ''FLASK_RUN_FROM_CLI'' \<noteq> Some ''true''"
proof -
  obtain pr0 p where m: "app_module (w_host w) (w_dotenv w) ''__main__'' (w_env w) Map.empty = Inr pr0"
    and mp: "main_port (environ pr0) = Inr p"
    and fr: "flask_run (w_net w) (w_flaskenv w) (environ pr0) (app pr0) ''0.0.0.0'' p True
           = Inr (environ pr, Started s)"
    and pr: "pr = pr0\<lparr>environ := environ pr, app := srv_app s\<rparr>"
    using r by (rule run_script_ServingD)
  have re: "run_env w = set_as_environment_variables (w_flaskenv w) (environ pr0)"
    using app_module_Inr(1) [OF m] by (simp add: run_env_def)
  obtain fd sfd where "server_fd (run_env w) = Inr fd" and "make_server_fd (w_net w) fd p = Inr (srv_port s, sfd)"
    and ep: "environ pr = (run_env w)(''WERKZEUG_SERVER_FD'' \<mapsto> nat_digits (unat sfd))"
    using flask_run_Started(2) [OF fr] re by auto
  then have ms: "make_server (w_net w) p = Inr (srv_port s)" and "sfd = listen_fd (w_net w)"
    using nm by (auto simp: server_fd_def make_server_fd_def bindE_eq_Inr_iff)
  moreover have "s = started (w_net w) (run_env w) ((app pr0)\<lparr>debug := True\<rparr>) ''0.0.0.0'' (srv_port s) True"
    using flask_run_Started(8) [OF fr] re by simp
  ultimately show ?thesis
    using that m re mp pr ep flask_run_Started(6) [OF fr] by simp
qed

text \<open>The reloader child's run of the script, when Flask's own dotenv loading in the
  parent changed none of the variables the script reads besides \<^verbatim>\<open>PORT\<close>: it crashes
  where line 20 fails on the inherited \<^verbatim>\<open>PORT\<close>, and otherwise serves the parent's
  server on the inherited socket (the port is then only converted to a C \<^verbatim>\<open>long\<close>).\<close>

lemma child_run_script:
  assumes r: "run_script w = Serving pr s"
    and nm: "run_env w ''WERKZEUG_RUN_MAIN'' \<noteq> Some ''true''"
    and ks: "\<forall>k \<in> set script_env_keys. run_env w k = load_dotenv (w_dotenv w) (w_env w) k"
  shows "run_script (child_world w pr s) =
    (case main_port (environ pr) of
       Inl ex \<Rightarrow> Crashed ex
     | Inr p \<Rightarrow>
         if p < C_LONG_MIN \<or> C_LONG_MAX < p
         then Crashed (OverflowError ''Python int too large to convert to C long'')
         else Serving (pr\<lparr>environ := (reloader_env (environ pr))
                         (''WERKZEUG_SERVER_FD'' \<mapsto> nat_digits (unat (dup_fd (w_net w))))\<rparr>) s)"
proof -
  obtain pr0 p0 where m: "app_module (w_host w) (w_dotenv w) ''__main__'' (w_env w) Map.empty = Inr pr0"
    and re: "run_env w = set_as_environment_variables (w_flaskenv w) (environ pr0)"
    and ms: "make_server (w_net w) p0 = Inr (srv_port s)"
    and ep: "environ pr = (run_env w)(''WERKZEUG_SERVER_FD'' \<mapsto> nat_digits (unat (listen_fd (w_net w))))"
    and pr: "pr = pr0\<lparr>environ := environ pr, app := srv_app s\<rparr>"
    and sr: "s = started (w_net w) (run_env w) ((app pr0)\<lparr>debug := True\<rparr>) ''0.0.0.0'' (srv_port s) True"
    and cli: "environ pr0 ''FLASK_RUN_FROM_CLI'' \<noteq> Some ''true''"
    using parent_serving [OF r nm] by blast
  define n where "n = w_net w"
  define c0 where "c0 = reloader_env (environ pr)"
  define n' where "n' = n\<lparr>inherited := (inherited n)(uint (listen_fd n) \<mapsto> srv_port s)\<rparr>"
  have e1: "environ pr0 = load_dotenv (w_dotenv w) (w_env w)" by (rule app_module_Inr(1) [OF m])
  have c0k: "k \<noteq> ''WERKZEUG_SERVER_FD'' \<Longrightarrow> k \<noteq> ''WERKZEUG_RUN_MAIN'' \<Longrightarrow> c0 k = run_env w k" for k
    by (simp add: c0_def reloader_env_def ep)
  have ks': "\<forall>k \<in> set script_env_keys. c0 k = environ pr0 k"
    using ks by (simp add: c0k script_env_keys_def e1)
  have "\<forall>k. environ pr0 k \<noteq> None \<longrightarrow> c0 k \<noteq> None"
    by (auto simp: c0_def reloader_env_def ep re dest: set_as_environment_variables_keeps)
  with m have m': "app_module (w_host w) (w_dotenv w) ''__main__'' c0 Map.empty = Inr (pr0\<lparr>environ := c0\<rparr>)"
    using ks' by (rule app_module_child)
  have mp': "main_port c0 = main_port (environ pr)"
    by (rule main_port_env) (simp add: c0_def reloader_env_def)
  have "c0 ''FLASK_RUN_FROM_CLI'' \<noteq> Some ''true''"
    using ks' cli by (simp add: script_env_keys_def)
  moreover have "set_as_environment_variables (w_flaskenv w) c0 = c0"
    by (rule set_as_environment_variables_fixed)
       (auto simp: c0_def reloader_env_def ep re
             dest: set_as_environment_variables_dom [where e = "environ pr0"])
  moreover have "server_fd c0 = Inr (Some (uint (listen_fd n)))"
    by (simp add: server_fd_def c0_def reloader_env_def ep n_def py_int_of_str_fd)
  ultimately have fr: "flask_run n' (w_flaskenv w) c0 (app pr0) ''0.0.0.0'' p True =
           bindE (make_server_fd n' (Some (uint (listen_fd n))) p)
             (\<lambda>(w, sfd). Inr (c0(''WERKZEUG_SERVER_FD'' \<mapsto> nat_digits (unat sfd)),
                Started (started n' c0 ((app pr0)\<lparr>debug := True\<rparr>) ''0.0.0.0'' w True)))" for p
    by (rule flask_run_settled)
  have ss: "started n' c0 ((app pr0)\<lparr>debug := True\<rparr>) ''0.0.0.0'' (srv_port s) True = s"
    by (subst sr) (simp add: started_def n'_def n_def c0_def reloader_env_def ep pin_of_env_def)
  have msf: "make_server_fd n' (Some (uint (listen_fd n))) p =
     (if p < C_LONG_MIN \<or> C_LONG_MAX < p then Inl (OverflowError ''Python int too large to convert to C long'')
      else Inr (srv_port s, dup_fd n))" for p
    using make_server_fd_inherited [of n' "uint (listen_fd n)" "srv_port s" p] by (simp add: n'_def)
  have "pr\<lparr>environ := e\<rparr> = pr0\<lparr>environ := e, app := srv_app s\<rparr>" for e by (subst pr) simp
  then have "run_main (child_world w pr s) =
    (case main_port (environ pr) of
       Inl ex \<Rightarrow> Crashed ex
     | Inr p \<Rightarrow>
         if p < C_LONG_MIN \<or> C_LONG_MAX < p
         then Crashed (OverflowError ''Python int too large to convert to C long'')
         else Serving (pr\<lparr>environ := c0(''WERKZEUG_SERVER_FD'' \<mapsto> nat_digits (unat (dup_fd n)))\<rparr>) s)"
    using m' mp' fr msf ss
    by (simp add: run_main_def child_world_def c0_def [symmetric] n_def [symmetric] n'_def [symmetric]
        split: sum.split)
  moreover obtain g where "module_imports (w_site w) = Inr g" using run_script_Serving_imports [OF r] ..
  ultimately show ?thesis unfolding c0_def n_def by (simp add: run_script_child)
qed

text \<open>When Flask's dotenv loading in the parent adds nothing, the child serves.\<close>

lemma child_serves:
  assumes r: "run_script w = Serving pr s"
    and nm: "run_env w ''WERKZEUG_RUN_MAIN'' \<noteq> Some ''true''"
    and fe: "\<forall>(k, v) \<in> set (w_flaskenv w). v \<noteq> None \<longrightarrow> load_dotenv (w_dotenv w) (w_env w) k \<noteq> None"
  shows "run_script (child_world w pr s) =
           Serving (pr\<lparr>environ := (reloader_env (environ pr))
                         (''WERKZEUG_SERVER_FD'' \<mapsto> nat_digits (unat (dup_fd (w_net w))))\<rparr>) s"
proof -
  obtain pr0 p where m: "app_module (w_host w) (w_dotenv w) ''__main__'' (w_env w) Map.empty = Inr pr0"
    and re: "run_env w = set_as_environment_variables (w_flaskenv w) (environ pr0)"
    and mp: "main_port (environ pr0) = Inr p" and ms: "make_server (w_net w) p = Inr (srv_port s)"
    and ep: "environ pr = (run_env w)(''WERKZEUG_SERVER_FD'' \<mapsto> nat_digits (unat (listen_fd (w_net w))))"
    using parent_serving [OF r nm] by blast
  have e1: "environ pr0 = load_dotenv (w_dotenv w) (w_env w)" by (rule app_module_Inr(1) [OF m])
  have rw: "run_env w = environ pr0"
    using fe re by (simp add: e1 set_as_environment_variables_fixed)
  have "main_port (environ pr) = Inr p"
    using mp main_port_env [of "environ pr" "environ pr0"] by (simp add: ep rw)
  with child_run_script [OF r nm] make_server_Inr_long [OF ms] show ?thesis
    by (simp add: rw e1)
qed


lemma run_script_Serving_reloader: "run_script w = Serving pr s \<Longrightarrow> use_reloader s"
  by (erule run_script_ServingD) (simp add: flask_run_Started(4))

text \<open>A \<^verbatim>\<open>PORT\<close> that line 20 cannot read makes the process exit with status 1.\<close>

lemma main_port_exit_status:
  assumes "main_port e = Inl ex"
  shows "exit_status ex = 1"
proof -
  obtain v where "py_int_of_str v = Inl ex"
    using assms by (auto simp: main_port_def getenv_def split: option.splits)
  then have "is_value_error ex" by (rule py_int_of_str_error)
  then show ?thesis by (cases ex) simp_all
qed

text \<open>C26: a \<^verbatim>\<open>python app.py\<close> whose original process reaches \<^verbatim>\<open>app.run\<close> and starts
  a server with the reloader ends up serving from the reloader child: the child re-runs
  the whole script, takes the inherited socket, and serves the same server (application,
  host, port, options); its process state is the parent's at the restart, so the same
  credential, Firebase registry and Firestore client, and its environment is the
  parent's plus \<^verbatim>\<open>WERKZEUG_RUN_MAIN=true\<close> and the number of its duplicate of the
  socket. This holds when every \<^verbatim>\<open>.flaskenv\<close> binding that Flask's \<^verbatim>\<open>run\<close> would
  add names a variable the process already has.\<close>

theorem reloader_child_serves:
  assumes "run_script w = Serving pr s"
    and "run_env w ''WERKZEUG_RUN_MAIN'' \<noteq> Some ''true''"
    and "\<forall>(k, v) \<in> set (w_flaskenv w). v \<noteq> None \<longrightarrow> load_dotenv (w_dotenv w) (w_env w) k \<noteq> None"
  shows "run_process w =
           Serving (pr\<lparr>environ := (reloader_env (environ pr))
                         (''WERKZEUG_SERVER_FD'' \<mapsto> nat_digits (unat (dup_fd (w_net w))))\<rparr>) s"
proof -
  have "use_reloader s" using assms(1) by (rule run_script_Serving_reloader)
  with assms child_serves [OF assms] show ?thesis by (simp add: run_process_def)
qed

text \<open>C27: a \<^verbatim>\<open>PORT\<close> that only Flask's own dotenv loading sets (from
  \<^verbatim>\<open>.flaskenv\<close>), after line 20 has read the environment, reaches the reloader child
  only. When line 20 of the child cannot read it, the original process has bound the
  socket but never serves, the child crashes with line 20's exception, and the parent
  exits with status 1 without restarting it, whatever the files do.\<close>

theorem reloader_child_bad_port:
  assumes r: "run_script w = Serving pr s"
    and nm: "run_env w ''WERKZEUG_RUN_MAIN'' \<noteq> Some ''true''"
    and ks: "\<forall>k \<in> set script_env_keys. run_env w k = load_dotenv (w_dotenv w) (w_env w) k"
    and bad: "main_port (environ pr) = Inl ex"
  shows "run_process w = Crashed ex \<and> restart_with_reloader (run_script (child_world w pr s)) changes 0 = Some 1"
proof -
  have c: "run_script (child_world w pr s) = Crashed ex" using child_run_script [OF r nm ks] bad by simp
  have "use_reloader s" using r by (rule run_script_Serving_reloader)
  then have "run_process w = Crashed ex" using r nm c by (simp add: run_process_def)
  moreover have "restart_with_reloader (run_script (child_world w pr s)) changes 0 = Some 1"
    using c main_port_exit_status [OF bad] by (subst restart_with_reloader.simps) (simp add: child_exit_def)
  ultimately show ?thesis ..
qed

end
